theory Spec2Isabelle
  imports Main "HOL-Library.Word" "HOL-Library.Sublist"
begin

section \<open>Data model\<close>

text \<open>
  The meeting-recording service keeps two tables (database/schema.sql): \<open>meetings\<close> and
  \<open>processing_logs\<close>. A row of each is a record here. Identifiers, URLs and titles are
  plain strings; a nullable column is an \<open>option\<close>; timestamps are milliseconds.
\<close>

datatype status = Started | BotJoining | BotJoined | Recording | Processing | Completed | Failed

datatype log_status = LogStarted | LogCompleted | LogFailed

datatype step = FetchSessionData | ValidateRecordingUrl | StreamToDrive | FetchTranscript
  | CreateTranscript | SendNotification

text \<open>
  A thrown JavaScript error: its \<open>message\<close>, the HTTP status of \<open>error.response\<close> when the
  error carries a response, and \<open>error.code\<close>.
\<close>

record js_error =
  message :: string
  response_status :: "nat option"
  code :: "string option"

definition new_Error :: "string \<Rightarrow> js_error" where
  "new_Error msg = \<lparr>message = msg, response_status = None, code = None\<rparr>"

text \<open>A JavaScript string in UTF-16 code units (transcript texts and speaker names).\<close>

type_synonym js_string = "16 word list"

record transcript_entry =
  speaker :: js_string
  entry_text :: js_string
  timeStart :: nat

record meeting =
  meeting_id :: string
  meeting_title :: string
  status :: status
  chatterbox_session_id :: "string option"
  recording_s3_url :: "string option"
  recording_start_timestamp :: "nat option"
  recording_end_timestamp :: "nat option"
  transcript_data :: "transcript_entry list option"
  google_drive_recording_id :: "string option"
  google_drive_recording_url :: "string option"
  google_drive_transcript_id :: "string option"
  google_drive_transcript_url :: "string option"
  slack_message_ts :: "string option"
  processing_started_at :: "nat option"
  processing_completed_at :: "nat option"
  created_at :: nat
  updated_at :: nat

record processing_log =
  log_id :: nat
  log_meeting_id :: string
  log_step :: step
  log_status :: log_status
  log_attempt :: "nat option"
  error_message :: "string option"
  started_at :: nat
  completed_at :: "nat option"

text \<open>What the provider, the file store, the document store and the chat service return.\<close>

record session =
  recordingLink :: "string option"
  transcript :: "transcript_entry list option"
  startTimestamp :: "nat option"
  endTimestamp :: "nat option"

record drive_file =
  file_id :: string
  webViewLink :: string

record slack_message =
  messageTs :: string

record run_result =
  driveFile :: drive_file
  transcriptDoc :: drive_file
  slackResult :: slack_message

section \<open>The world: tables, effects in order, clock\<close>

text \<open>
  Every effect the code has on the outside is an event of the trace, in the order the
  code produces it: the logger lines written by the functions modelled here, the calls
  to the state store (with whether the store accepted them), to the provider, to the
  source of the recording (\<open>TransferCall\<close>, the download request), to the file store
  (\<open>UploadCall\<close>, \<open>ShareCall\<close>) and the document store, to the chat service, and the
  backoff sleeps.
\<close>

datatype store_op = UpdateMeeting string status | GetMeetingById string
  | GetMeetingBySessionId string | GetMeetingsByStatus status | HealthCheck
  | InsertLog string step | UpdateLog nat log_status

datatype event =
    MeetingEvent string string
  | StepEvent string step string
  | LogInfo string
  | LogWarn string
  | LogError string string
  | StoreCall store_op bool
  | ProviderCall string
  | TransferCall string string
  | UploadCall string
  | ShareCall string bool
  | DocumentCall string
  | SlackCall string
  | AlertCall string string string bool
  | Sleep nat

record world =
  meetings :: "meeting list"
  processing_logs :: "processing_log list"
  trace :: "event list"
  now :: nat
  ops :: nat

text \<open>
  The outside answers through the environment: the outcome of the \<open>i\<close>-th external call
  is read at index \<open>i\<close>, so that any sequence of failures and successes is an environment.
  \<open>store_fault\<close> is the error the state store raises on call \<open>i\<close> (\<open>None\<close>: the store
  answers); \<open>download_result\<close> is the error of the request for the recording (\<open>None\<close>:
  the stream opens), \<open>upload_result\<close> the answer of the file store to the upload and
  \<open>share_result\<close> the error of the permission call; \<open>alert_result\<close> is the error of
  posting the alert (\<open>None\<close>: posted); \<open>latency\<close> is the time call \<open>i\<close> takes.
\<close>

record env =
  store_fault :: "nat \<Rightarrow> js_error option"
  session_data :: "nat \<Rightarrow> string \<Rightarrow> js_error + session"
  download_result :: "nat \<Rightarrow> js_error option"
  upload_result :: "nat \<Rightarrow> js_error + drive_file"
  share_result :: "nat \<Rightarrow> js_error option"
  document_result :: "nat \<Rightarrow> js_error + drive_file"
  slack_result :: "nat \<Rightarrow> js_error + slack_message"
  alert_result :: "nat \<Rightarrow> js_error option"
  latency :: "nat \<Rightarrow> nat"

definition emit :: "event \<Rightarrow> world \<Rightarrow> world" where
  "emit e w = w\<lparr>trace := trace w @ [e]\<rparr>"

definition tick :: "env \<Rightarrow> world \<Rightarrow> world" where
  "tick en w = w\<lparr>now := now w + latency en (ops w), ops := Suc (ops w)\<rparr>"

text \<open>JavaScript truthiness of a nullable string: \<open>null\<close> and the empty string are falsy.\<close>

fun truthy :: "string option \<Rightarrow> bool" where
  "truthy None = False"
| "truthy (Some s) = (s \<noteq> [])"

text \<open>The string behind a truthy value: what \<open>x || null\<close> keeps.\<close>

fun nonempty :: "string option \<Rightarrow> string option" where
  "nonempty None = None"
| "nonempty (Some s) = (if s = [] then None else Some s)"

section \<open>State store (src/services/databaseService.js)\<close>

definition no_rows_error :: js_error where
  "no_rows_error = \<lparr>message = ''JSON object requested, multiple (or no) rows returned'',
     response_status = None, code = Some ''PGRST116''\<rparr>"

definition foreign_key_error :: js_error where
  "foreign_key_error = \<lparr>message = ''insert or update on table violates foreign key constraint'',
     response_status = None, code = Some ''23503''\<rparr>"

text \<open>
  \<open>updateMeeting(meetingId, updates)\<close>: one UPDATE keyed by id that also stamps
  \<open>updated_at\<close>, read back with \<open>.single()\<close>, which raises when no row matched. The
  \<open>updates\<close> object is the function \<open>patch\<close> on the row; \<open>st\<close> is the status it writes
  (for the trace only).
\<close>

definition updateMeeting ::
  "env \<Rightarrow> string \<Rightarrow> status \<Rightarrow> (meeting \<Rightarrow> meeting) \<Rightarrow> world \<Rightarrow> (js_error + meeting) \<times> world" where
  "updateMeeting en mid st patch w =
     (let w1 = tick en w in
      case store_fault en (ops w) of
        Some e \<Rightarrow> (Inl e, emit (StoreCall (UpdateMeeting mid st) False) w1)
      | None \<Rightarrow>
          (case find (\<lambda>m. meeting_id m = mid) (meetings w) of
             None \<Rightarrow> (Inl no_rows_error, emit (StoreCall (UpdateMeeting mid st) False) w1)
           | Some m \<Rightarrow>
               (Inr ((patch m)\<lparr>updated_at := now w\<rparr>),
                emit (StoreCall (UpdateMeeting mid st) True)
                  (w1\<lparr>meetings :=
                       map (\<lambda>x. if meeting_id x = mid then (patch x)\<lparr>updated_at := now w\<rparr> else x)
                         (meetings w)\<rparr>))))"

text \<open>\<open>getMeetingById\<close>: the row, \<open>null\<close> when there is none, an error when the store fails.\<close>

definition getMeetingById ::
  "env \<Rightarrow> string \<Rightarrow> world \<Rightarrow> (js_error + meeting option) \<times> world" where
  "getMeetingById en mid w =
     (let w1 = tick en w in
      case store_fault en (ops w) of
        Some e \<Rightarrow> (Inl e, emit (StoreCall (GetMeetingById mid) False) w1)
      | None \<Rightarrow> (Inr (find (\<lambda>m. meeting_id m = mid) (meetings w)),
                 emit (StoreCall (GetMeetingById mid) True) w1))"

text \<open>
  \<open>getMeetingBySessionId\<close>: \<open>.single()\<close> answers PGRST116 for no row and for several
  rows alike, and the function maps that code to \<open>null\<close>.
\<close>

definition getMeetingBySessionId ::
  "env \<Rightarrow> string \<Rightarrow> world \<Rightarrow> (js_error + meeting option) \<times> world" where
  "getMeetingBySessionId en sid w =
     (let w1 = tick en w in
      case store_fault en (ops w) of
        Some e \<Rightarrow> (Inl e, emit (StoreCall (GetMeetingBySessionId sid) False) w1)
      | None \<Rightarrow>
          (Inr (case filter (\<lambda>m. chatterbox_session_id m = Some sid) (meetings w) of
                  [m] \<Rightarrow> Some m | _ \<Rightarrow> None),
           emit (StoreCall (GetMeetingBySessionId sid) True) w1))"

text \<open>
  \<open>getMeetingsByStatus(status, limit)\<close>: the rows in that status, newest \<open>created_at\<close>
  first, at most \<open>limit\<close> of them.
\<close>

definition getMeetingsByStatus ::
  "env \<Rightarrow> status \<Rightarrow> nat \<Rightarrow> world \<Rightarrow> (js_error + meeting list) \<times> world" where
  "getMeetingsByStatus en st limit w =
     (let w1 = tick en w in
      case store_fault en (ops w) of
        Some e \<Rightarrow> (Inl e, emit (StoreCall (GetMeetingsByStatus st) False) w1)
      | None \<Rightarrow>
          (Inr (take limit (rev (sort_key created_at (filter (\<lambda>m. status m = st) (meetings w))))),
           emit (StoreCall (GetMeetingsByStatus st) True) w1))"

definition healthCheck :: "env \<Rightarrow> world \<Rightarrow> (js_error + unit) \<times> world" where
  "healthCheck en w =
     (let w1 = tick en w in
      case store_fault en (ops w) of
        Some e \<Rightarrow> (Inl e, emit (StoreCall HealthCheck False) w1)
      | None \<Rightarrow> (Inr (), emit (StoreCall HealthCheck True) w1))"

text \<open>
  \<open>logProcessingStep(meetingId, step, 'started')\<close> inserts one row under a fresh id
  (\<open>uuidv4()\<close>); the row references its meeting (\<open>REFERENCES meetings(id)\<close>).
\<close>

definition fresh_log_id :: "processing_log list \<Rightarrow> nat" where
  "fresh_log_id rows = Suc (fold max (map log_id rows) 0)"

definition logProcessingStep ::
  "env \<Rightarrow> string \<Rightarrow> step \<Rightarrow> world \<Rightarrow> (js_error + processing_log) \<times> world" where
  "logProcessingStep en mid stp w =
     (let w1 = tick en w in
      case store_fault en (ops w) of
        Some e \<Rightarrow> (Inl e, emit (StoreCall (InsertLog mid stp) False) w1)
      | None \<Rightarrow>
          (if find (\<lambda>m. meeting_id m = mid) (meetings w) = None
           then (Inl foreign_key_error, emit (StoreCall (InsertLog mid stp) False) w1)
           else
             (let row = \<lparr>log_id = fresh_log_id (processing_logs w), log_meeting_id = mid,
                        log_step = stp, log_status = LogStarted, log_attempt = None,
                        error_message = None, started_at = now w, completed_at = None\<rparr>
              in (Inr row,
                  emit (StoreCall (InsertLog mid stp) True)
                    (w1\<lparr>processing_logs := processing_logs w @ [row]\<rparr>)))))"

text \<open>
  \<open>updateProcessingStep(logId, status, metadata, errorMessage)\<close> rewrites the row with
  that id. \<open>finish_row\<close> is the update it sends: status, the attempt number of the
  metadata, \<open>completed_at\<close>, and the error message when one is given (\<open>if
  (errorMessage)\<close>: an empty message is not written).
\<close>

definition finish_row ::
  "log_status \<Rightarrow> nat \<Rightarrow> string option \<Rightarrow> nat \<Rightarrow> processing_log \<Rightarrow> processing_log" where
  "finish_row st attempt err t r =
     r\<lparr>log_status := st, log_attempt := Some attempt, completed_at := Some t,
       error_message := (if truthy err then err else error_message r)\<rparr>"

definition updateProcessingStep ::
  "env \<Rightarrow> nat \<Rightarrow> log_status \<Rightarrow> nat \<Rightarrow> string option \<Rightarrow> world \<Rightarrow> (js_error + unit) \<times> world" where
  "updateProcessingStep en lid st attempt err w =
     (let w1 = tick en w in
      case store_fault en (ops w) of
        Some e \<Rightarrow> (Inl e, emit (StoreCall (UpdateLog lid st) False) w1)
      | None \<Rightarrow>
          (if find (\<lambda>r. log_id r = lid) (processing_logs w) = None
           then (Inl no_rows_error, emit (StoreCall (UpdateLog lid st) False) w1)
           else (Inr (),
                 emit (StoreCall (UpdateLog lid st) True)
                   (w1\<lparr>processing_logs :=
                        map (\<lambda>r. if log_id r = lid then finish_row st attempt err (now w) r
                                  else r) (processing_logs w)\<rparr>))))"

section \<open>Step executor (services/meetingService.js, processStep)\<close>

text \<open>\<open>Math.pow(2, attempt) * 1000\<close>\<close>

definition backoffMs :: "nat \<Rightarrow> nat" where
  "backoffMs attempt = 2 ^ attempt * 1000"

definition sleep :: "nat \<Rightarrow> world \<Rightarrow> world" where
  "sleep ms w = emit (Sleep ms) (w\<lparr>now := now w + ms\<rparr>)"

text \<open>
  The \<open>try\<close> block of one attempt: run the unit of work, mark the log row completed,
  log. A failure of either call leaves the block with that error.
\<close>

definition try_attempt ::
  "env \<Rightarrow> string \<Rightarrow> step \<Rightarrow> (world \<Rightarrow> (js_error + 'a) \<times> world) \<Rightarrow> nat \<Rightarrow> nat \<Rightarrow> world
     \<Rightarrow> (js_error + 'a) \<times> world" where
  "try_attempt en mid stp f lid attempt w =
     (case f (emit (StepEvent mid stp ''attempting'') w) of
        (Inl e, w2) \<Rightarrow> (Inl e, w2)
      | (Inr r, w2) \<Rightarrow>
          (case updateProcessingStep en lid LogCompleted attempt None w2 of
             (Inl e, w3) \<Rightarrow> (Inl e, w3)
           | (Inr u, w3) \<Rightarrow> (Inr r, emit (StepEvent mid stp ''completed'') w3)))"

text \<open>
  The loop \<open>for (attempt = 1; attempt <= maxRetries; attempt++)\<close>. A loop that ends
  without running its body returns \<open>undefined\<close>, which is \<open>None\<close>.
\<close>

function attempt_loop ::
  "env \<Rightarrow> string \<Rightarrow> step \<Rightarrow> (world \<Rightarrow> (js_error + 'a) \<times> world) \<Rightarrow> nat \<Rightarrow> nat \<Rightarrow> nat \<Rightarrow> world
     \<Rightarrow> (js_error + 'a option) \<times> world" where
  "attempt_loop en mid stp f maxRetries lid attempt w =
     (if attempt \<le> maxRetries then
        (case try_attempt en mid stp f lid attempt w of
           (Inr r, w1) \<Rightarrow> (Inr (Some r), w1)
         | (Inl e, w1) \<Rightarrow>
             (let w2 = emit (LogError ''Step failed'' (message e)) w1 in
              if attempt = maxRetries then
                (case updateProcessingStep en lid LogFailed attempt (Some (message e)) w2 of
                   (Inl e', w3) \<Rightarrow> (Inl e', w3)
                 | (Inr u, w3) \<Rightarrow> (Inl e, w3))
              else
                attempt_loop en mid stp f maxRetries lid (Suc attempt)
                  (sleep (backoffMs attempt) (emit (LogInfo ''Retrying step'') w2))))
      else (Inr None, w))"
  by pat_completeness auto
termination
  by (relation "measure (\<lambda>(en, mid, stp, f, maxRetries, lid, attempt, w). Suc maxRetries - attempt)")
    auto

declare attempt_loop.simps [simp del]

definition processStep ::
  "env \<Rightarrow> string \<Rightarrow> step \<Rightarrow> (world \<Rightarrow> (js_error + 'a) \<times> world) \<Rightarrow> nat \<Rightarrow> world
     \<Rightarrow> (js_error + 'a option) \<times> world" where
  "processStep en mid stp f maxRetries w =
     (case logProcessingStep en mid stp w of
        (Inl e, w1) \<Rightarrow> (Inl e, w1)
      | (Inr row, w1) \<Rightarrow> attempt_loop en mid stp f maxRetries (log_id row) 1 w1)"

section \<open>External collaborators\<close>

text \<open>
  Each call of a collaborator is one external call: it reads its outcome from the
  environment, takes the call's latency and leaves an event. The logger lines that the
  service wrappers write around the call are part of that event.
\<close>

definition getSessionData :: "env \<Rightarrow> string \<Rightarrow> world \<Rightarrow> (js_error + session) \<times> world" where
  "getSessionData en sid w = (session_data en (ops w) sid, emit (ProviderCall sid) (tick en w))"

text \<open>
  \<open>isRecordingUrlValid\<close> of config/chatterbox.js is deprecated: it logs a warning and
  returns \<open>true\<close> without contacting anything. The service wrapper of the same name
  returns that value, and \<open>false\<close> if the inner call throws.
\<close>

definition config_isRecordingUrlValid :: "string \<Rightarrow> world \<Rightarrow> (js_error + bool) \<times> world" where
  "config_isRecordingUrlValid url w =
     (Inr True, emit (LogWarn ''URL validation is deprecated - always returning true'') w)"

definition isRecordingUrlValid :: "string \<Rightarrow> world \<Rightarrow> (js_error + bool) \<times> world" where
  "isRecordingUrlValid url w =
     (case config_isRecordingUrlValid url w of
        (Inr isValid, w1) \<Rightarrow> (Inr isValid, emit (LogInfo ''Recording URL validation result'') w1)
      | (Inl e, w1) \<Rightarrow>
          (Inr False, emit (LogError ''Failed to validate recording URL'' (message e)) w1))"

text \<open>Decimal digits of a number, for template strings.\<close>

definition digit_char :: "nat \<Rightarrow> char" where
  "digit_char d =
     (if d = 0 then CHR ''0'' else if d = 1 then CHR ''1'' else if d = 2 then CHR ''2''
      else if d = 3 then CHR ''3'' else if d = 4 then CHR ''4'' else if d = 5 then CHR ''5''
      else if d = 6 then CHR ''6'' else if d = 7 then CHR ''7'' else if d = 8 then CHR ''8''
      else CHR ''9'')"

fun show_nat :: "nat \<Rightarrow> string" where
  "show_nat n =
     (if n < 10 then [digit_char n] else show_nat (n div 10) @ [digit_char (n mod 10)])"

declare show_nat.simps [simp del]

text \<open>
  services/fileService.js, \<open>streamRecordingToGoogleDrive\<close>. The \<open>try\<close> block requests
  the recording from its URL as a stream (line 439), uploads the stream to the file store
  (line 476) and makes the file shareable; a failure of the request or of the upload
  leaves the block. \<open>stream_error\<close> is what the \<open>catch\<close> block throws for the failure it
  caught, whichever of the two calls raised it. \<open>makeFileShareable\<close> catches its own
  failure and answers \<open>false\<close>.
\<close>

definition expired_error :: "nat \<Rightarrow> js_error" where
  "expired_error st =
     new_Error (''Recording URL has expired or is not accessible ('' @ show_nat st @ '')'')"

definition timeout_error :: js_error where
  "timeout_error = new_Error ''Upload timeout - recording URL may have expired during transfer''"

definition stream_error :: "js_error \<Rightarrow> js_error" where
  "stream_error e =
     (if response_status e = Some 403 \<or> response_status e = Some 404
      then (case response_status e of Some st \<Rightarrow> expired_error st | None \<Rightarrow> e)
      else if code e = Some ''ECONNABORTED'' then timeout_error
      else e)"

definition makeFileShareable :: "env \<Rightarrow> string \<Rightarrow> world \<Rightarrow> bool \<times> world" where
  "makeFileShareable en fileId w =
     (let w1 = emit (ShareCall fileId (share_result en (ops w) = None)) (tick en w) in
      case share_result en (ops w) of
        None \<Rightarrow> (True, emit (LogInfo ''File made shareable'') w1)
      | Some e \<Rightarrow> (False, emit (LogError ''Failed to make file shareable'' (message e)) w1))"

definition stream_failed :: "js_error \<Rightarrow> world \<Rightarrow> (js_error + drive_file) \<times> world" where
  "stream_failed e w =
     (Inl (stream_error e),
      emit (LogError ''Failed to stream recording to Google Drive'' (message e)) w)"

definition streamRecordingToGoogleDrive ::
  "env \<Rightarrow> string \<Rightarrow> string \<Rightarrow> world \<Rightarrow> (js_error + drive_file) \<times> world" where
  "streamRecordingToGoogleDrive en url title w =
     (let w1 = emit (TransferCall url title) (tick en w) in
      case download_result en (ops w) of
        Some e \<Rightarrow> stream_failed e w1
      | None \<Rightarrow>
          (let w2 = emit (UploadCall title) (tick en w1) in
           case upload_result en (ops w1) of
             Inl e \<Rightarrow> stream_failed e w2
           | Inr file \<Rightarrow> (Inr file, snd (makeFileShareable en (file_id file) w2))))"

definition createTranscriptDocument ::
  "env \<Rightarrow> meeting \<Rightarrow> transcript_entry list option \<Rightarrow> world \<Rightarrow> (js_error + drive_file) \<times> world" where
  "createTranscriptDocument en m tr w =
     (document_result en (ops w), emit (DocumentCall (meeting_title m)) (tick en w))"

definition sendMeetingCompletedNotification ::
  "env \<Rightarrow> meeting \<Rightarrow> world \<Rightarrow> (js_error + slack_message) \<times> world" where
  "sendMeetingCompletedNotification en m w =
     (slack_result en (ops w), emit (SlackCall (meeting_id m)) (tick en w))"

text \<open>
  services/notificationService.js, \<open>sendCriticalAlert\<close> (lines 222-285): post the alert;
  a failure to post is caught there, logged, and answered with \<open>success: false\<close>. The
  function has no throwing path.
\<close>

definition sendCriticalAlert ::
  "env \<Rightarrow> string \<Rightarrow> string \<Rightarrow> string \<Rightarrow> world \<Rightarrow> (js_error + bool) \<times> world" where
  "sendCriticalAlert en mid stp msg w =
     (let w1 = emit (AlertCall mid stp msg (alert_result en (ops w) = None)) (tick en w) in
      case alert_result en (ops w) of
        None \<Rightarrow> (Inr True, w1)
      | Some e \<Rightarrow> (Inr False, emit (LogError ''Failed to send critical alert'' (message e)) w1))"

text \<open>
  middlewares/errorHandler.js, \<open>handleCriticalError\<close> (lines 299-322): log, then call
  \<open>sendCriticalAlert\<close> inside a \<open>try\<close> whose \<open>catch\<close> logs whatever that call throws.
\<close>

definition handleCriticalError :: "env \<Rightarrow> string \<Rightarrow> string \<Rightarrow> js_error \<Rightarrow> world \<Rightarrow> world" where
  "handleCriticalError en mid stp err w =
     (case sendCriticalAlert en mid stp (message err)
             (emit (LogError ''CRITICAL ERROR - Immediate attention required'' (message err)) w) of
        (Inr sent, w1) \<Rightarrow> w1
      | (Inl notificationError, w1) \<Rightarrow>
          emit (LogError ''Failed to send critical error notification''
                  (message notificationError)) w1)"

section \<open>Pipeline orchestrator (services/meetingService.js)\<close>

text \<open>The three objects passed to \<open>updateMeeting\<close> by \<open>processRecordingUrgently\<close>.\<close>

definition patch_processing :: "string option \<Rightarrow> nat \<Rightarrow> meeting \<Rightarrow> meeting" where
  "patch_processing url t m =
     m\<lparr>status := Processing, recording_s3_url := url, processing_started_at := Some t\<rparr>"

text \<open>
  \<open>t ? new Date(t) : null\<close> as the store receives it: a falsy timestamp gives \<open>null\<close>, and
  so does one beyond the range of \<open>Date\<close> (8.64e15 ms), whose invalid date is serialised
  as \<open>null\<close>.
\<close>

definition js_date :: "nat option \<Rightarrow> nat option" where
  "js_date t =
     (case t of
        None \<Rightarrow> None
      | Some n \<Rightarrow> if n = 0 \<or> 8640000000000000 < n then None else Some n)"

definition patch_completed ::
  "drive_file \<Rightarrow> drive_file \<Rightarrow> session \<Rightarrow> slack_message \<Rightarrow> nat \<Rightarrow> meeting \<Rightarrow> meeting" where
  "patch_completed file doc td slack t m =
     m\<lparr>status := Completed,
       google_drive_recording_id := Some (file_id file),
       google_drive_recording_url := Some (webViewLink file),
       google_drive_transcript_id := Some (file_id doc),
       google_drive_transcript_url := Some (webViewLink doc),
       recording_start_timestamp := js_date (startTimestamp td),
       recording_end_timestamp := js_date (endTimestamp td),
       transcript_data := transcript td,
       slack_message_ts := Some (messageTs slack),
       processing_completed_at := Some t\<rparr>"

definition patch_failed :: "nat \<Rightarrow> meeting \<Rightarrow> meeting" where
  "patch_failed t m = m\<lparr>status := Failed, processing_completed_at := Some t\<rparr>"

text \<open>Reading a property of \<open>undefined\<close>.\<close>

definition type_error :: js_error where
  "type_error = new_Error ''Cannot read properties of undefined''"

text \<open>
  The \<open>try\<close> block of \<open>processRecordingUrgently\<close> in parts, defined here from its end to
  its beginning: lines 77-156 (transfer, transcript, notification, completion), lines
  64-75 (validate the URL), lines 47-62 (resolve the recording URL), lines 37-45 (read
  the meeting) and lines 24-35 (mark the meeting).
  Every \<open>processStep\<close> call uses the default \<open>maxRetries = 3\<close>.
\<close>

definition pipeline_from_transfer ::
  "env \<Rightarrow> string \<Rightarrow> string \<Rightarrow> string \<Rightarrow> meeting \<Rightarrow> session option \<Rightarrow> world
     \<Rightarrow> (js_error + run_result) \<times> world" where
  "pipeline_from_transfer en mid sid url m transcriptData w =
     (case processStep en mid StreamToDrive
             (streamRecordingToGoogleDrive en url (meeting_title m)) 3
             (emit (StepEvent mid StreamToDrive ''started'') w) of
        (Inl e, w1) \<Rightarrow> (Inl e, w1)
      | (Inr None, w1) \<Rightarrow> (Inl type_error, w1)
      | (Inr (Some file), w1) \<Rightarrow>
          (case (case transcriptData of
                   Some td \<Rightarrow> (Inr (Some td), w1)
                 | None \<Rightarrow> processStep en mid FetchTranscript (getSessionData en sid) 3
                            (emit (StepEvent mid FetchTranscript ''started'') w1)) of
             (Inl e, w2) \<Rightarrow> (Inl e, w2)
           | (Inr None, w2) \<Rightarrow> (Inl type_error, w2)
           | (Inr (Some td), w2) \<Rightarrow>
               (case processStep en mid CreateTranscript
                       (createTranscriptDocument en m (transcript td)) 3
                       (emit (StepEvent mid CreateTranscript ''started'') w2) of
                  (Inl e, w3) \<Rightarrow> (Inl e, w3)
                | (Inr None, w3) \<Rightarrow> (Inl type_error, w3)
                | (Inr (Some doc), w3) \<Rightarrow>
                    (case processStep en mid SendNotification
                            (sendMeetingCompletedNotification en m) 3
                            (emit (StepEvent mid SendNotification ''started'') w3) of
                       (Inl e, w4) \<Rightarrow> (Inl e, w4)
                     | (Inr None, w4) \<Rightarrow> (Inl type_error, w4)
                     | (Inr (Some slack), w4) \<Rightarrow>
                         (case updateMeeting en mid Completed
                                 (patch_completed file doc td slack (now w4)) w4 of
                            (Inl e, w5) \<Rightarrow> (Inl e, w5)
                          | (Inr u, w5) \<Rightarrow>
                              (Inr \<lparr>driveFile = file, transcriptDoc = doc, slackResult = slack\<rparr>,
                               emit (MeetingEvent mid ''urgent_processing_completed'') w5))))))"

definition pipeline_from_validate ::
  "env \<Rightarrow> string \<Rightarrow> string \<Rightarrow> string \<Rightarrow> meeting \<Rightarrow> session option \<Rightarrow> world
     \<Rightarrow> (js_error + run_result) \<times> world" where
  "pipeline_from_validate en mid sid url m transcriptData w =
     (case processStep en mid ValidateRecordingUrl (isRecordingUrlValid url) 3
             (emit (StepEvent mid ValidateRecordingUrl ''started'') w) of
        (Inl e, w1) \<Rightarrow> (Inl e, w1)
      | (Inr isUrlValid, w1) \<Rightarrow>
          (if isUrlValid \<noteq> Some True
           then (Inl (new_Error ''Recording URL has expired or is not accessible''), w1)
           else pipeline_from_transfer en mid sid url m transcriptData w1))"

text \<open>Lines 47-62: no recording URL was passed, so the provider is asked for one.\<close>

definition pipeline_from_fetch ::
  "env \<Rightarrow> string \<Rightarrow> string \<Rightarrow> meeting \<Rightarrow> world \<Rightarrow> (js_error + run_result) \<times> world" where
  "pipeline_from_fetch en mid sid m w =
     (case processStep en mid FetchSessionData (getSessionData en sid) 3
             (emit (StepEvent mid FetchSessionData ''started'') w) of
        (Inl e, w1) \<Rightarrow> (Inl e, w1)
      | (Inr None, w1) \<Rightarrow> (Inl type_error, w1)
      | (Inr (Some sd), w1) \<Rightarrow>
          (case nonempty (recordingLink sd) of
             None \<Rightarrow> (Inl (new_Error ''No recording URL available from ChatterBox session''), w1)
           | Some link \<Rightarrow> pipeline_from_validate en mid sid link m (Some sd) w1))"

text \<open>Lines 37-45: read the meeting back, then take one of the two ways above.\<close>

definition pipeline_from_read ::
  "env \<Rightarrow> string \<Rightarrow> string option \<Rightarrow> string \<Rightarrow> world \<Rightarrow> (js_error + run_result) \<times> world" where
  "pipeline_from_read en mid recordingUrl sid w =
     (case getMeetingById en mid w of
        (Inl e, w2) \<Rightarrow> (Inl e, w2)
      | (Inr None, w2) \<Rightarrow> (Inl (new_Error (''Meeting not found: '' @ mid)), w2)
      | (Inr (Some m), w2) \<Rightarrow>
          (case nonempty recordingUrl of
             None \<Rightarrow> pipeline_from_fetch en mid sid m w2
           | Some url \<Rightarrow> pipeline_from_validate en mid sid url m None w2))"

text \<open>
  Lines 24-35: the first thing the \<open>try\<close> block does is log and write \<open>processing\<close>; the
  meeting is not read before that write.
\<close>

definition processRecordingUrgently_try ::
  "env \<Rightarrow> string \<Rightarrow> string option \<Rightarrow> string \<Rightarrow> world \<Rightarrow> (js_error + run_result) \<times> world" where
  "processRecordingUrgently_try en mid recordingUrl sid w =
     (let w0 = emit (MeetingEvent mid ''urgent_processing_started'') w in
      case updateMeeting en mid Processing (patch_processing recordingUrl (now w0)) w0 of
        (Inl e, w1) \<Rightarrow> (Inl e, w1)
      | (Inr u, w1) \<Rightarrow> pipeline_from_read en mid recordingUrl sid w1)"

text \<open>
  \<open>processRecordingUrgently\<close>: the \<open>try\<close> block and its \<open>catch\<close> (lines 158-189). The
  handler writes \<open>failed\<close> and the completion time (a failure of that write is caught and
  logged), alerts, logs and rethrows the error it caught.
\<close>

definition processRecordingUrgently ::
  "env \<Rightarrow> string \<Rightarrow> string option \<Rightarrow> string \<Rightarrow> world \<Rightarrow> (js_error + run_result) \<times> world" where
  "processRecordingUrgently en mid recordingUrl sid w =
     (case processRecordingUrgently_try en mid recordingUrl sid w of
        (Inr r, w1) \<Rightarrow> (Inr r, w1)
      | (Inl err, w1) \<Rightarrow>
          (let w2 = (case updateMeeting en mid Failed (patch_failed (now w1)) w1 of
                       (Inr u, w') \<Rightarrow> w'
                     | (Inl dbError, w') \<Rightarrow>
                         emit (LogError ''Failed to update meeting status to failed''
                                 (message dbError)) w');
               w3 = handleCriticalError en mid ''urgent_processing'' err w2
           in (Inl err, emit (MeetingEvent mid ''urgent_processing_failed'') w3)))"

text \<open>
  A call that is started and not awaited, with a \<open>.catch\<close> that logs: the run happens at
  the place it is started, and its rejection ends in a log line. Runs do not interleave
  in this model.
\<close>

definition fire_and_forget ::
  "string \<Rightarrow> (world \<Rightarrow> (js_error + 'a) \<times> world) \<Rightarrow> world \<Rightarrow> world" where
  "fire_and_forget msg run w =
     (case run w of
        (Inr r, w1) \<Rightarrow> w1
      | (Inl e, w1) \<Rightarrow> emit (LogError msg (message e)) w1)"

text \<open>\<open>retryProcessing(meetingId, sessionId)\<close>, lines 195-239.\<close>

definition patch_retry :: "nat \<Rightarrow> meeting \<Rightarrow> meeting" where
  "patch_retry t m = m\<lparr>status := Processing, processing_started_at := Some t\<rparr>"

definition patch_status_failed :: "meeting \<Rightarrow> meeting" where
  "patch_status_failed m = m\<lparr>status := Failed\<rparr>"

definition retryProcessing_try ::
  "env \<Rightarrow> string \<Rightarrow> string \<Rightarrow> world \<Rightarrow> (js_error + run_result) \<times> world" where
  "retryProcessing_try en mid sid w =
     (let w0 = emit (MeetingEvent mid ''retry_processing_started'') w in
      case updateMeeting en mid Processing (patch_retry (now w0)) w0 of
        (Inl e, w1) \<Rightarrow> (Inl e, w1)
      | (Inr u, w1) \<Rightarrow>
          (case getSessionData en sid w1 of
             (Inl e, w2) \<Rightarrow> (Inl e, w2)
           | (Inr sessionData, w2) \<Rightarrow>
               (case nonempty (recordingLink sessionData) of
                  None \<Rightarrow> (Inl (new_Error ''No recording URL available for retry''), w2)
                | Some link \<Rightarrow>
                    (case isRecordingUrlValid link w2 of
                       (Inl e, w3) \<Rightarrow> (Inl e, w3)
                     | (Inr isValid, w3) \<Rightarrow>
                         (if isValid then processRecordingUrgently en mid (Some link) sid w3
                          else (Inl (new_Error
                                  ''Recording URL has expired and cannot be retried''), w3))))))"

definition retryProcessing ::
  "env \<Rightarrow> string \<Rightarrow> string \<Rightarrow> world \<Rightarrow> (js_error + run_result) \<times> world" where
  "retryProcessing en mid sid w =
     (case retryProcessing_try en mid sid w of
        (Inr r, w1) \<Rightarrow> (Inr r, w1)
      | (Inl err, w1) \<Rightarrow>
          (case updateMeeting en mid Failed patch_status_failed
                  (emit (LogError ''Retry processing failed'' (message err)) w1) of
             (Inl dbError, w2) \<Rightarrow> (Inl dbError, w2)
           | (Inr u, w2) \<Rightarrow> (Inl err, w2)))"

section \<open>Controllers (controllers/webhookController.js)\<close>

text \<open>
  \<open>retryMeetingProcessing\<close>: the HTTP status of the response and the world after the
  request. The retry itself is started without being awaited.
\<close>

definition retryMeetingProcessing :: "env \<Rightarrow> string \<Rightarrow> world \<Rightarrow> nat \<times> world" where
  "retryMeetingProcessing en mid w =
     (case getMeetingById en mid w of
        (Inl e, w1) \<Rightarrow> (500, emit (LogError ''Failed to retry meeting processing'' (message e)) w1)
      | (Inr None, w1) \<Rightarrow> (404, w1)
      | (Inr (Some m), w1) \<Rightarrow>
          (if status m = Completed then (400, w1)
           else if status m = Processing then (400, w1)
           else
             (let w2 = emit (MeetingEvent mid ''retry_requested'') w1 in
              case nonempty (chatterbox_session_id m) of
                Some sid \<Rightarrow>
                  (200, fire_and_forget ''Retry processing failed'' (retryProcessing en mid sid) w2)
              | None \<Rightarrow> (400, w2))))"

text \<open>
  \<open>handleChatterBoxWebhook\<close>, the branch \<open>type === 'finished'\<close> (lines 336-379), for a
  payload that carries its session id and timestamp. The run is started with
  \<open>recordingUrl || null\<close> and not awaited.
\<close>

definition handleFinishedWebhook ::
  "env \<Rightarrow> string \<Rightarrow> string option \<Rightarrow> world \<Rightarrow> nat \<times> world" where
  "handleFinishedWebhook en sid recordingUrl w =
     (case getMeetingBySessionId en sid w of
        (Inl e, w1) \<Rightarrow> (500, emit (LogError ''ChatterBox webhook processing failed'' (message e)) w1)
      | (Inr None, w1) \<Rightarrow> (404, emit (LogWarn ''Meeting not found for ChatterBox session'') w1)
      | (Inr (Some m), w1) \<Rightarrow>
          (200,
           fire_and_forget ''URGENT: Recording processing failed within 5-minute window''
             (processRecordingUrgently en (meeting_id m) (nonempty recordingUrl) sid)
             (emit (MeetingEvent (meeting_id m) ''recording_finished'') w1)))"

section \<open>Reconciliation poller (jobs/pollStatusJob.js)\<close>

text \<open>
  The repository holds two copies of the poller. The later one force-fails a meeting
  that stayed in \<open>bot_joined\<close> for more than 180 minutes and asks the provider after 2
  minutes; the earlier one (\<open>checkMeetingStatus_v1\<close> below) has no ceiling and asks
  the provider after 10 minutes. In both, the meeting examined is the row as the query
  returned it.

  \<open>Math.floor((Date.now() - updated_at) / 60000)\<close>: a meeting stamped in the future has
  a negative age, which passes none of the thresholds, as age 0 does.
\<close>

definition statusAgeMinutes :: "meeting \<Rightarrow> world \<Rightarrow> nat" where
  "statusAgeMinutes m w = (now w - updated_at m) div 60000"

text \<open>
  The provider re-query of both branches (lines 660-690 and 703-730): ask for the
  session; with a recording link, start the run without awaiting it; a failure of the
  query is caught and logged (\<open>quiet\<close>: the \<open>bot_joined\<close> branch logs it only when the age
  is a multiple of 10 minutes). The three texts are the log lines of the branch.
\<close>

definition requery_provider ::
  "env \<Rightarrow> meeting \<Rightarrow> string \<Rightarrow> bool \<Rightarrow> string \<Rightarrow> string \<Rightarrow> string \<Rightarrow> world \<Rightarrow> world" where
  "requery_provider en m sid quiet queryFailed found runFailed w =
     (case getSessionData en sid w of
        (Inl sessionError, w1) \<Rightarrow>
          (if quiet then w1 else emit (LogError queryFailed (message sessionError)) w1)
      | (Inr sessionData, w1) \<Rightarrow>
          (case nonempty (recordingLink sessionData) of
             None \<Rightarrow> w1
           | Some link \<Rightarrow>
               fire_and_forget runFailed
                 (processRecordingUrgently en (meeting_id m) (Some link) sid)
                 (emit (LogInfo found) w1)))"

definition checkMeetingStatus_try ::
  "env \<Rightarrow> meeting \<Rightarrow> world \<Rightarrow> (js_error + unit) \<times> world" where
  "checkMeetingStatus_try en m w =
     (case nonempty (chatterbox_session_id m) of
        None \<Rightarrow> (Inr (), emit (LogWarn ''Meeting has no ChatterBox session ID'') w)
      | Some sid \<Rightarrow>
          (let age = statusAgeMinutes m w in
           if status m = BotJoined \<and> age > 180 then
             (case updateMeeting en (meeting_id m) Failed (patch_failed (now w))
                     (emit (LogWarn
                        ''Meeting stuck in bot_joined status for too long, marking as failed'') w) of
                (Inl e, w1) \<Rightarrow> (Inl e, w1)
              | (Inr u, w1) \<Rightarrow> (Inr (), w1))
           else
             (let w1 = (if status m = BotJoined \<and> age > 2 then
                          requery_provider en m sid (age mod 10 \<noteq> 0)
                            ''Failed to get session data for stuck meeting''
                            ''Found recording for stuck meeting, starting processing''
                            ''Failed to process stuck meeting''
                            (if age mod 10 = 0
                             then emit (LogWarn ''Meeting stuck in bot_joined status'') w else w)
                        else w);
                  w2 = (if status m = Recording \<and> age > 30 then
                          requery_provider en m sid False
                            ''Failed to get session data for long-running meeting''
                            ''Found recording for long-running meeting, starting processing''
                            ''Failed to process long-running meeting''
                            (emit (LogWarn ''Meeting stuck in recording status'') w1)
                        else w1)
              in (Inr (), w2))))"

definition checkMeetingStatus :: "env \<Rightarrow> meeting \<Rightarrow> world \<Rightarrow> (js_error + unit) \<times> world" where
  "checkMeetingStatus en m w =
     (case checkMeetingStatus_try en m w of
        (Inr u, w1) \<Rightarrow> (Inr (), w1)
      | (Inl e, w1) \<Rightarrow> (Inr (), emit (LogError ''Failed to check meeting status'' (message e)) w1))"

text \<open>
  The earlier copy (src/jobs/pollStatusJob.js): \<open>checkMeetingStatus\<close>, lines 94-195, its
  \<open>try\<close> block and the \<open>catch\<close> around it.
\<close>

definition checkMeetingStatus_v1_try ::
  "env \<Rightarrow> meeting \<Rightarrow> world \<Rightarrow> (js_error + unit) \<times> world" where
  "checkMeetingStatus_v1_try en m w =
     (case nonempty (chatterbox_session_id m) of
        None \<Rightarrow> (Inr (), emit (LogWarn ''Meeting has no ChatterBox session ID'') w)
      | Some sid \<Rightarrow>
          (let age = statusAgeMinutes m w;
               w1 = (if status m = BotJoined \<and> age > 10 then
                       requery_provider en m sid False
                         ''Failed to get session data for stuck meeting''
                         ''Found recording for stuck meeting, starting processing''
                         ''Failed to process stuck meeting''
                         (emit (LogWarn ''Meeting stuck in bot_joined status'') w)
                     else w);
               w2 = (if status m = Recording \<and> age > 30 then
                       requery_provider en m sid False
                         ''Failed to get session data for long-running meeting''
                         ''Found recording for long-running meeting, starting processing''
                         ''Failed to process long-running meeting''
                         (emit (LogWarn ''Meeting stuck in recording status'') w1)
                     else w1)
           in (Inr (), w2)))"

definition checkMeetingStatus_v1 :: "env \<Rightarrow> meeting \<Rightarrow> world \<Rightarrow> (js_error + unit) \<times> world" where
  "checkMeetingStatus_v1 en m w =
     (case checkMeetingStatus_v1_try en m w of
        (Inr u, w1) \<Rightarrow> (Inr (), w1)
      | (Inl e, w1) \<Rightarrow> (Inr (), emit (LogError ''Failed to check meeting status'' (message e)) w1))"

text \<open>
  The loop \<open>for (const meeting of allMeetings) await this.checkMeetingStatus(meeting)\<close>:
  a rejection of one check would leave the loop.
\<close>

fun poll_loop :: "env \<Rightarrow> meeting list \<Rightarrow> world \<Rightarrow> (js_error + unit) \<times> world" where
  "poll_loop en [] w = (Inr (), w)"
| "poll_loop en (m # ms) w =
     (case checkMeetingStatus en m w of
        (Inl e, w1) \<Rightarrow> (Inl e, w1)
      | (Inr u, w1) \<Rightarrow> poll_loop en ms w1)"

text \<open>
  The earlier copy, \<open>pollMeetingStatuses\<close> (src/jobs/pollStatusJob.js, lines 60-89): the
  two queries, the loop over what they returned, and a \<open>catch\<close> that logs.
\<close>

fun poll_loop_v1 :: "env \<Rightarrow> meeting list \<Rightarrow> world \<Rightarrow> (js_error + unit) \<times> world" where
  "poll_loop_v1 en [] w = (Inr (), w)"
| "poll_loop_v1 en (m # ms) w =
     (case checkMeetingStatus_v1 en m w of
        (Inl e, w1) \<Rightarrow> (Inl e, w1)
      | (Inr u, w1) \<Rightarrow> poll_loop_v1 en ms w1)"

definition pollMeetingStatuses_v1_try :: "env \<Rightarrow> world \<Rightarrow> (js_error + unit) \<times> world" where
  "pollMeetingStatuses_v1_try en w =
     (case getMeetingsByStatus en BotJoined 10 w of
        (Inl e, w1) \<Rightarrow> (Inl e, w1)
      | (Inr stuckMeetings, w1) \<Rightarrow>
          (case getMeetingsByStatus en Recording 10 w1 of
             (Inl e, w2) \<Rightarrow> (Inl e, w2)
           | (Inr recordingMeetings, w2) \<Rightarrow>
               (let allMeetings = stuckMeetings @ recordingMeetings in
                if allMeetings = [] then (Inr (), w2)
                else poll_loop_v1 en allMeetings
                       (emit (LogInfo ''Polling meeting statuses'') w2))))"

definition pollMeetingStatuses_v1 :: "env \<Rightarrow> world \<Rightarrow> (js_error + unit) \<times> world" where
  "pollMeetingStatuses_v1 en w =
     (case pollMeetingStatuses_v1_try en w of
        (Inr u, w1) \<Rightarrow> (Inr (), w1)
      | (Inl e, w1) \<Rightarrow> (Inr (), emit (LogError ''Poll status job failed'' (message e)) w1))"

text \<open>The later copy, \<open>pollMeetingStatuses\<close>: a health check first, and two kinds of log line.\<close>

definition pollMeetingStatuses_try :: "env \<Rightarrow> world \<Rightarrow> (js_error + unit) \<times> world" where
  "pollMeetingStatuses_try en w =
     (case healthCheck en w of
        (Inl e, w1) \<Rightarrow> (Inl e, w1)
      | (Inr u, w1) \<Rightarrow>
          (case getMeetingsByStatus en BotJoined 10 w1 of
             (Inl e, w2) \<Rightarrow> (Inl e, w2)
           | (Inr stuckMeetings, w2) \<Rightarrow>
               (case getMeetingsByStatus en Recording 10 w2 of
                  (Inl e, w3) \<Rightarrow> (Inl e, w3)
                | (Inr recordingMeetings, w3) \<Rightarrow>
                    (let allMeetings = stuckMeetings @ recordingMeetings in
                     if allMeetings = [] then (Inr (), w3)
                     else poll_loop en allMeetings
                            (emit (LogInfo ''Polling meeting statuses'') w3)))))"

text \<open>\<open>String.prototype.includes\<close>\<close>

fun js_includes :: "'a list \<Rightarrow> 'a list \<Rightarrow> bool" where
  "js_includes [] needle = (needle = [])"
| "js_includes (c # cs) needle = (prefix needle (c # cs) \<or> js_includes cs needle)"

text \<open>The text \<open>relation "meetings" does not exist\<close>, with its two double quotes.\<close>

definition relation_missing :: string where
  "relation_missing = ''relation '' @ [CHR 0x22] @ ''meetings'' @ [CHR 0x22] @ '' does not exist''"

definition pollMeetingStatuses :: "env \<Rightarrow> world \<Rightarrow> (js_error + unit) \<times> world" where
  "pollMeetingStatuses en w =
     (case pollMeetingStatuses_try en w of
        (Inr u, w1) \<Rightarrow> (Inr (), w1)
      | (Inl e, w1) \<Rightarrow>
          (if js_includes (message e) relation_missing
              \<or> js_includes (message e) ''SUPABASE_SERVICE_ROLE_KEY''
           then (Inr (), emit (LogWarn ''Database not ready, skipping poll cycle'') w1)
           else (Inr (), emit (LogError ''Poll status job failed'' (message e)) w1)))"

section \<open>Transcript text (services/transcriptService.js)\<close>

text \<open>An ASCII literal as a JavaScript string.\<close>

definition js :: "string \<Rightarrow> js_string" where
  "js s = map (\<lambda>c. of_nat (of_char c)) s"

text \<open>
  \<open>String.prototype.trim\<close> removes white space and line terminators at both ends: tab,
  LF, VT, FF, CR, space, NBSP, U+1680, U+2000..U+200A, U+2028, U+2029, U+202F, U+205F,
  U+3000 and U+FEFF.
\<close>

definition js_whitespace :: "16 word \<Rightarrow> bool" where
  "js_whitespace c =
     (c \<in> set [0x09, 0x0A, 0x0B, 0x0C, 0x0D, 0x20, 0xA0, 0x1680, 0x2000, 0x2001, 0x2002,
                0x2003, 0x2004, 0x2005, 0x2006, 0x2007, 0x2008, 0x2009, 0x200A, 0x2028,
                0x2029, 0x202F, 0x205F, 0x3000, 0xFEFF])"

definition trim :: "js_string \<Rightarrow> js_string" where
  "trim s = rev (dropWhile js_whitespace (rev (dropWhile js_whitespace s)))"

text \<open>\<open>n.toString().padStart(2, '0')\<close>\<close>

definition pad2 :: "nat \<Rightarrow> js_string" where
  "pad2 n = (if n < 10 then js ''0'' @ js (show_nat n) else js (show_nat n))"

text \<open>\<open>formatTimestamp(timeStart)\<close>, with \<open>timeStart\<close> in whole milliseconds (0 when absent).\<close>

definition formatTimestamp :: "nat \<Rightarrow> js_string" where
  "formatTimestamp t =
     (if t = 0 then js ''00:00''
      else
        (let totalSeconds = t div 1000;
             hours = totalSeconds div 3600;
             minutes = (totalSeconds mod 3600) div 60;
             seconds = totalSeconds mod 60
         in if hours > 0 then pad2 hours @ js '':'' @ pad2 minutes @ js '':'' @ pad2 seconds
            else pad2 minutes @ js '':'' @ pad2 seconds))"

text \<open>\<open>Array.prototype.join\<close>\<close>

fun js_join :: "js_string \<Rightarrow> js_string list \<Rightarrow> js_string" where
  "js_join sep [] = []"
| "js_join sep [x] = x"
| "js_join sep (x # y # zs) = x @ sep @ js_join sep (y # zs)"

definition speaker_label :: "nat \<Rightarrow> js_string" where
  "speaker_label k = js ''Speaker '' @ js (show_nat k)"

text \<open>
  What one entry with text pushes onto \<open>transcriptLines\<close> (lines 248-260): a blank line
  and a header when the speaker label changes, then the trimmed text and a blank line.
\<close>

definition push_entry ::
  "js_string option \<Rightarrow> js_string \<Rightarrow> transcript_entry \<Rightarrow> js_string list \<Rightarrow> js_string list" where
  "push_entry currentSpeaker speakerName e transcriptLines =
     transcriptLines
     @ (if currentSpeaker \<noteq> Some speakerName
        then (if currentSpeaker \<noteq> None then [[]] else [])
             @ [js ''['' @ formatTimestamp (timeStart e) @ js ''] '' @ speakerName @ js '':'']
        else [])
     @ [trim (entry_text e), []]"

text \<open>
  The loop of \<open>generateTranscriptText\<close> (lines 232-261) over its four variables.
  \<open>speakerMap\<close> is the \<open>Map\<close> from raw speaker values to labels.
\<close>

fun transcript_loop ::
  "transcript_entry list \<Rightarrow> js_string option \<Rightarrow> nat \<Rightarrow> (js_string \<rightharpoonup> js_string)
     \<Rightarrow> js_string list \<Rightarrow> js_string list" where
  "transcript_loop [] currentSpeaker speakerCount speakerMap transcriptLines = transcriptLines"
| "transcript_loop (e # es) currentSpeaker speakerCount speakerMap transcriptLines =
     (if trim (entry_text e) = []
      then transcript_loop es currentSpeaker speakerCount speakerMap transcriptLines
      else
        (case speakerMap (speaker e) of
           None \<Rightarrow>
             (let speakerName = speaker_label (Suc speakerCount) in
              transcript_loop es (Some speakerName) (Suc speakerCount)
                (speakerMap(speaker e \<mapsto> speakerName))
                (push_entry currentSpeaker speakerName e transcriptLines))
         | Some speakerName \<Rightarrow>
             transcript_loop es (Some speakerName) speakerCount speakerMap
               (push_entry currentSpeaker speakerName e transcriptLines)))"

definition transcript_header :: js_string where
  "transcript_header = [0x0A, 0xD83C, 0xDF99, 0xFE0F] @ js '' TRANSCRIPT'' @ [0x0A]"

definition no_transcript_text :: js_string where
  "no_transcript_text =
     [0x0A, 0x0A, 0x26A0, 0xFE0F] @ js '' No transcript data available'' @ [0x0A, 0x0A]"

definition generateTranscriptText :: "transcript_entry list \<Rightarrow> js_string" where
  "generateTranscriptText transcriptArray =
     (if transcriptArray = [] then no_transcript_text
      else js_join [0x0A] (transcript_loop transcriptArray None 0 Map.empty [transcript_header]))"

section \<open>Observations on traces, and a small concrete system\<close>

text \<open>The backoff delays of a trace, in order.\<close>

fun sleeps :: "event list \<Rightarrow> nat list" where
  "sleeps [] = []"
| "sleeps (Sleep d # tr) = d # sleeps tr"
| "sleeps (e # tr) = sleeps tr"

text \<open>
  One meeting that is being recorded, an environment in which every collaborator
  answers, and a unit of work that fails every time.
\<close>

definition demo_meeting :: meeting where
  "demo_meeting = \<lparr>meeting_id = ''m1'', meeting_title = ''Weekly sync'', status = Recording,
     chatterbox_session_id = Some ''s1'', recording_s3_url = None,
     recording_start_timestamp = None, recording_end_timestamp = None, transcript_data = None,
     google_drive_recording_id = None, google_drive_recording_url = None,
     google_drive_transcript_id = None, google_drive_transcript_url = None,
     slack_message_ts = None, processing_started_at = None, processing_completed_at = None,
     created_at = 1000, updated_at = 2000\<rparr>"

definition demo_world :: world where
  "demo_world =
     \<lparr>meetings = [demo_meeting], processing_logs = [], trace = [], now = 5000, ops = 0\<rparr>"

definition demo_session :: session where
  "demo_session = \<lparr>recordingLink = Some ''https://rec/1.mkv'', transcript = Some [],
     startTimestamp = Some 100, endTimestamp = Some 200\<rparr>"

definition quiet_env :: env where
  "quiet_env = \<lparr>store_fault = (\<lambda>i. None), session_data = (\<lambda>i sid. Inr demo_session),
     download_result = (\<lambda>i. None),
     upload_result = (\<lambda>i. Inr \<lparr>file_id = ''f1'', webViewLink = ''https://drive/f1''\<rparr>),
     share_result = (\<lambda>i. None),
     document_result = (\<lambda>i. Inr \<lparr>file_id = ''d1'', webViewLink = ''https://docs/d1''\<rparr>),
     slack_result = (\<lambda>i. Inr \<lparr>messageTs = ''17.01''\<rparr>),
     alert_result = (\<lambda>i. None), latency = (\<lambda>i. 0)\<rparr>"

definition always_fails :: "world \<Rightarrow> (js_error + drive_file) \<times> world" where
  "always_fails w = (Inl (new_Error ''boom''), w)"

text \<open>The environment in which every request for the recording is answered 403 by the source.\<close>

definition expired_env :: env where
  "expired_env = quiet_env\<lparr>download_result :=
     (\<lambda>i. Some \<lparr>message = ''Request failed with status code 403'', response_status = Some 403,
                code = Some ''ERR_BAD_REQUEST''\<rparr>)\<rparr>"

text \<open>The same, with the alerting channel down as well.\<close>

definition alert_down_env :: env where
  "alert_down_env = expired_env\<lparr>alert_result := (\<lambda>i. Some (new_Error ''channel_not_found''))\<rparr>"

text \<open>
  The environment in which the source serves the recording and the file store refuses
  every upload with 403 (the storage quota of the account is used up).
\<close>

definition quota_error :: js_error where
  "quota_error = \<lparr>message = ''The user has exceeded their Drive storage quota'',
     response_status = Some 403, code = Some ''403''\<rparr>"

definition sink_denied_env :: env where
  "sink_denied_env = quiet_env\<lparr>upload_result := (\<lambda>i. Inl quota_error)\<rparr>"

text \<open>The environment in which the store rejects its second call and accepts the others.\<close>

definition second_call_env :: env where
  "second_call_env = quiet_env\<lparr>
     store_fault := (\<lambda>i. if i = 1 then Some (new_Error ''connection reset'') else None)\<rparr>"

text \<open>A meeting whose pipeline has completed, with its recording stored as file f0.\<close>

definition done_world :: world where
  "done_world = demo_world\<lparr>meetings := [demo_meeting\<lparr>status := Completed,
      google_drive_recording_id := Some ''f0'', processing_completed_at := Some 4000\<rparr>]\<rparr>"

text \<open>The environment in which the provider knows the session but has no recording link.\<close>

definition no_link_env :: env where
  "no_link_env = quiet_env\<lparr>session_data := (\<lambda>i sid. Inr (demo_session\<lparr>recordingLink := None\<rparr>))\<rparr>"

text \<open>
  For the poller: at 04:00:00.000 of the clock, a meeting that joined at 00:00 and has been
  in \<open>bot_joined\<close> since (240 minutes), the same meeting without a session id, and a
  second meeting that has been recording for an hour. \<open>faulty_env\<close> rejects the
  fourth store call and fails every provider query; \<open>down_env\<close> has no store at all.
\<close>

definition stale_meeting :: meeting where
  "stale_meeting = demo_meeting\<lparr>status := BotJoined, updated_at := 0\<rparr>"

definition stale_world :: world where
  "stale_world = \<lparr>meetings = [stale_meeting], processing_logs = [], trace = [],
     now = 14400000, ops = 0\<rparr>"

definition orphan_meeting :: meeting where
  "orphan_meeting = stale_meeting\<lparr>chatterbox_session_id := None\<rparr>"

definition orphan_world :: world where
  "orphan_world = stale_world\<lparr>meetings := [orphan_meeting]\<rparr>"

definition late_meeting :: meeting where
  "late_meeting = demo_meeting\<lparr>meeting_id := ''m2'', chatterbox_session_id := Some ''s2'',
     status := Recording, created_at := 500, updated_at := 10800000\<rparr>"

definition two_world :: world where
  "two_world = stale_world\<lparr>meetings := [stale_meeting, late_meeting]\<rparr>"

definition faulty_env :: env where
  "faulty_env = quiet_env\<lparr>
     store_fault := (\<lambda>i. if i = 3 then Some (new_Error ''connection reset'') else None),
     session_data := (\<lambda>i sid. Inl (new_Error ''timeout of 30000ms exceeded''))\<rparr>"

definition down_env :: env where
  "down_env = quiet_env\<lparr>store_fault := (\<lambda>i. Some (new_Error ''fetch failed''))\<rparr>"

text \<open>A unit of work that fails on its first two attempts for meeting m1 and then succeeds.\<close>

definition flaky :: "world \<Rightarrow> (js_error + drive_file) \<times> world" where
  "flaky w =
     (if count_list (trace w) (StepEvent ''m1'' StreamToDrive ''attempting'') < 3
      then (Inl (new_Error ''boom''), w)
      else (Inr \<lparr>file_id = ''f1'', webViewLink = ''https://drive/f1''\<rparr>, w))"

text \<open>
  For the log table during one \<open>processStep\<close>: \<open>own_row old row w\<close> says that the table
  is \<open>old\<close> followed by \<open>row\<close>, the row of the running step, and that no row of \<open>old\<close>
  has its id. \<open>loop_post\<close> is what the attempt loop, entered at attempt \<open>a\<close> in such a
  world, leaves behind: by result, the delays it slept, the last store call, and the
  state of the row.
\<close>

definition own_row :: "processing_log list \<Rightarrow> processing_log \<Rightarrow> world \<Rightarrow> bool" where
  "own_row old row w =
     (processing_logs w = old @ [row] \<and> (\<forall>r\<in>set old. log_id r \<noteq> log_id row))"

definition loop_post ::
  "env \<Rightarrow> processing_log list \<Rightarrow> processing_log \<Rightarrow> nat \<Rightarrow> nat \<Rightarrow> world
     \<Rightarrow> (js_error + 'a option) \<times> world \<Rightarrow> bool" where
  "loop_post en old row N a w R =
     (case fst R of
        Inr None \<Rightarrow> N < a \<and> snd R = w
      | Inr (Some x) \<Rightarrow>
          (\<exists>j t. a \<le> j \<and> j \<le> N
             \<and> sleeps (trace (snd R)) = sleeps (trace w) @ map backoffMs [a..<j]
             \<and> processing_logs (snd R) = old @ [finish_row LogCompleted j None t row]
             \<and> now (snd R) = t + latency en (ops (snd R) - 1))
      | Inl e \<Rightarrow>
          a \<le> N \<and> trace (snd R) \<noteq> []
          \<and> sleeps (trace (snd R)) = sleeps (trace w) @ map backoffMs [a..<N]
          \<and> (if last (trace (snd R)) = StoreCall (UpdateLog (log_id row) LogFailed) True
              then \<exists>t. processing_logs (snd R)
                          = old @ [finish_row LogFailed N (Some (message e)) t row]
                        \<and> now (snd R) = t + latency en (ops (snd R) - 1)
              else last (trace (snd R)) = StoreCall (UpdateLog (log_id row) LogFailed) False
                   \<and> processing_logs (snd R) = old @ [row]))"

text \<open>The meetings table with the status of one meeting replaced.\<close>

definition set_status :: "string \<Rightarrow> status \<Rightarrow> meeting list \<Rightarrow> meeting list" where
  "set_status mid s ms = map (\<lambda>m. if meeting_id m = mid then m\<lparr>status := s\<rparr> else m) ms"

section \<open>Evaluation on concrete systems\<close>

text \<open>
  The definitions unfolded when a concrete run is computed. The computation uses the weak
  congruence rules of the case combinators, so that a branch is entered only once the
  value it depends on is known.
\<close>

lemmas store_defs = updateMeeting_def getMeetingById_def getMeetingBySessionId_def
  getMeetingsByStatus_def healthCheck_def logProcessingStep_def updateProcessingStep_def
  finish_row_def fresh_log_id_def emit_def tick_def sleep_def Let_def

lemmas step_defs = processStep_def try_attempt_def backoffMs_def attempt_loop.simps

lemmas pipeline_defs = processRecordingUrgently_def processRecordingUrgently_try_def
  pipeline_from_read_def
  pipeline_from_validate_def pipeline_from_transfer_def pipeline_from_fetch_def
  getSessionData_def isRecordingUrlValid_def config_isRecordingUrlValid_def
  streamRecordingToGoogleDrive_def stream_failed_def makeFileShareable_def
  createTranscriptDocument_def sendMeetingCompletedNotification_def
  handleCriticalError_def sendCriticalAlert_def patch_processing_def
  patch_completed_def patch_failed_def js_date_def new_Error_def fire_and_forget_def

lemmas weak_congs = sum.case_cong_weak prod.case_cong_weak option.case_cong_weak
  list.case_cong_weak let_weak_cong

lemmas demo_defs = quiet_env_def demo_world_def demo_meeting_def demo_session_def
  always_fails_def flaky_def expired_env_def alert_down_env_def done_world_def
  no_link_env_def sink_denied_env_def quota_error_def second_call_env_def

lemmas poller_defs = pollMeetingStatuses_def pollMeetingStatuses_try_def poll_loop.simps
  checkMeetingStatus_def checkMeetingStatus_try_def
  pollMeetingStatuses_v1_def pollMeetingStatuses_v1_try_def poll_loop_v1.simps
  checkMeetingStatus_v1_def checkMeetingStatus_v1_try_def
  requery_provider_def statusAgeMinutes_def relation_missing_def

lemmas poll_demo_defs = stale_meeting_def stale_world_def orphan_meeting_def orphan_world_def
  late_meeting_def two_world_def faulty_env_def down_env_def

section \<open>Step executor: backoff\<close>

lemma sleeps_append: "sleeps (a @ b) = sleeps a @ sleeps b"
  by (induction a rule: sleeps.induct) auto







section \<open>Step executor: attempt records\<close>

lemma fold_max_ge: "a \<le> fold max xs (a::nat)" "x \<in> set xs \<Longrightarrow> x \<le> fold max xs a"
proof (induction xs arbitrary: a)
  case Nil
  { case 1 show ?case by simp }
  { case 2 then show ?case by simp }
next
  case (Cons y ys)
  { case 1 show ?case using Cons(1)[of "max y a"] by simp }
  { case 2 then show ?case using Cons(1)[of "max y a"] Cons(2)[of "max y a"] by auto }
qed

lemma fresh_log_id_new: "r \<in> set rows \<Longrightarrow> log_id r \<noteq> fresh_log_id rows"
  using fold_max_ge(2)[of "log_id r" "map log_id rows" 0]
  by (auto simp: fresh_log_id_def)

text \<open>The two outcomes of an update of the step's own row.\<close>

lemma updateProcessingStep_own_row:
  assumes own: "own_row old row w"
  shows "(\<exists>e. updateProcessingStep en (log_id row) st a err w
                 = (Inl e, w\<lparr>trace := trace w @ [StoreCall (UpdateLog (log_id row) st) False],
                              now := now w + latency en (ops w), ops := Suc (ops w)\<rparr>))
         \<or> updateProcessingStep en (log_id row) st a err w
             = (Inr (), w\<lparr>processing_logs := old @ [finish_row st a err (now w) row],
                          trace := trace w @ [StoreCall (UpdateLog (log_id row) st) True],
                          now := now w + latency en (ops w), ops := Suc (ops w)\<rparr>)"
proof -
  from own have rows: "processing_logs w = old @ [row]"
    and others: "\<forall>r\<in>set old. log_id r \<noteq> log_id row"
    by (simp_all add: own_row_def)
  have found: "find (\<lambda>r. log_id r = log_id row) (processing_logs w) \<noteq> None"
    using rows by (auto simp: find_None_iff)
  have keep: "map (\<lambda>r. if log_id r = log_id row then g r else r) old = old" for g
    using others by (induction old) auto
  show ?thesis
  proof (cases "store_fault en (ops w)")
    case (Some e)
    then show ?thesis
      by (simp add: updateProcessingStep_def Let_def emit_def tick_def)
  next
    case None
    then show ?thesis
      using found rows keep
      by (simp add: updateProcessingStep_def Let_def emit_def tick_def)
  qed
qed

text \<open>
  One attempt, for a unit of work that leaves the log table alone and does not sleep:
  either it fails and the row is as it was, or it succeeds and the row is completed
  with the number of this attempt.
\<close>

lemma try_attempt_own_row:
  assumes fr: "\<And>w. processing_logs (snd (f w)) = processing_logs w"
    and fs: "\<And>w. sleeps (trace (snd (f w))) = sleeps (trace w)"
    and own: "own_row old row w"
  shows "sleeps (trace (snd (try_attempt en mid stp f (log_id row) a w))) = sleeps (trace w)"
    and "fst (try_attempt en mid stp f (log_id row) a w) = Inl e \<Longrightarrow>
           own_row old row (snd (try_attempt en mid stp f (log_id row) a w))"
    and "fst (try_attempt en mid stp f (log_id row) a w) = Inr x \<Longrightarrow>
           \<exists>t. processing_logs (snd (try_attempt en mid stp f (log_id row) a w))
                  = old @ [finish_row LogCompleted a None t row]
              \<and> now (snd (try_attempt en mid stp f (log_id row) a w))
                  = t + latency en (ops (snd (try_attempt en mid stp f (log_id row) a w)) - 1)"
proof -
  define w0 where "w0 = emit (StepEvent mid stp ''attempting'') w"
  obtain r w2 where fw: "f w0 = (r, w2)" by (cases "f w0")
  have logs2: "processing_logs w2 = processing_logs w"
    using fr[of w0] fw by (simp add: emit_def w0_def)
  then have own2: "own_row old row w2" using own by (simp add: own_row_def)
  have s2: "sleeps (trace w2) = sleeps (trace w)"
    using fs[of w0] fw by (simp add: emit_def w0_def sleeps_append)
  let ?U = "updateProcessingStep en (log_id row) LogCompleted a None w2"
  have res: "try_attempt en mid stp f (log_id row) a w
               = (case r of Inl e \<Rightarrow> (Inl e, w2)
                  | Inr y \<Rightarrow> (case ?U of (Inl e, w3) \<Rightarrow> (Inl e, w3)
                              | (Inr v, w3) \<Rightarrow> (Inr y, emit (StepEvent mid stp ''completed'') w3)))"
    unfolding try_attempt_def w0_def[symmetric] fw by (simp split: sum.splits)
  from updateProcessingStep_own_row[OF own2, of en LogCompleted a None]
  consider (rejected) e' where "?U = (Inl e', w2\<lparr>trace := trace w2 @ [StoreCall (UpdateLog (log_id row) LogCompleted) False],
                              now := now w2 + latency en (ops w2), ops := Suc (ops w2)\<rparr>)"
    | (accepted) "?U = (Inr (), w2\<lparr>processing_logs := old @ [finish_row LogCompleted a None (now w2) row],
                          trace := trace w2 @ [StoreCall (UpdateLog (log_id row) LogCompleted) True],
                          now := now w2 + latency en (ops w2), ops := Suc (ops w2)\<rparr>)"
    by blast
  then have all: "sleeps (trace (snd (try_attempt en mid stp f (log_id row) a w))) = sleeps (trace w)
    \<and> (fst (try_attempt en mid stp f (log_id row) a w) = Inl e \<longrightarrow>
           own_row old row (snd (try_attempt en mid stp f (log_id row) a w)))
    \<and> (fst (try_attempt en mid stp f (log_id row) a w) = Inr x \<longrightarrow>
           (\<exists>t. processing_logs (snd (try_attempt en mid stp f (log_id row) a w))
                  = old @ [finish_row LogCompleted a None t row]
              \<and> now (snd (try_attempt en mid stp f (log_id row) a w))
                  = t + latency en (ops (snd (try_attempt en mid stp f (log_id row) a w)) - 1)))"
  proof cases
    case rejected
    show ?thesis
      unfolding res rejected using own2 s2
      by (cases r) (simp_all add: own_row_def sleeps_append)
  next
    case accepted
    show ?thesis
      unfolding res accepted using own2 s2
      by (cases r) (simp_all add: own_row_def sleeps_append emit_def)
  qed
  from all show "sleeps (trace (snd (try_attempt en mid stp f (log_id row) a w))) = sleeps (trace w)"
    by blast
  from all show "fst (try_attempt en mid stp f (log_id row) a w) = Inl e \<Longrightarrow>
           own_row old row (snd (try_attempt en mid stp f (log_id row) a w))"
    by blast
  from all show "fst (try_attempt en mid stp f (log_id row) a w) = Inr x \<Longrightarrow>
           \<exists>t. processing_logs (snd (try_attempt en mid stp f (log_id row) a w))
                  = old @ [finish_row LogCompleted a None t row]
              \<and> now (snd (try_attempt en mid stp f (log_id row) a w))
                  = t + latency en (ops (snd (try_attempt en mid stp f (log_id row) a w)) - 1)"
    by blast
qed

lemma attempt_loop_rows:
  assumes fr: "\<And>w. processing_logs (snd (f w)) = processing_logs w"
    and fs: "\<And>w. sleeps (trace (snd (f w))) = sleeps (trace w)"
    and own: "own_row old row w"
  shows "loop_post en old row maxRetries a w
           (attempt_loop en mid stp f maxRetries (log_id row) a w)"
proof -
  have "lid = log_id row \<Longrightarrow> own_row old row w \<Longrightarrow>
        loop_post en old row maxRetries a w (attempt_loop en mid stp f maxRetries lid a w)" for lid
    using fr fs
  proof (induction en mid stp f maxRetries lid a w rule: attempt_loop.induct)
    case (1 en mid stp f maxRetries lid a w)
    note lid = "1.prems"(1) and own = "1.prems"(2) and fr = "1.prems"(3) and fs = "1.prems"(4)
    show ?case
    proof (cases "a \<le> maxRetries")
      case False
      then show ?thesis
        by (subst attempt_loop.simps) (simp add: loop_post_def)
    next
      case le: True
      obtain r w1 where t: "try_attempt en mid stp f lid a w = (r, w1)"
        by (cases "try_attempt en mid stp f lid a w")
      have s1: "sleeps (trace w1) = sleeps (trace w)"
        using try_attempt_own_row(1)[of f old row w en mid stp a, OF fr fs own] t lid by simp
      show ?thesis
      proof (cases r)
        case (Inr x)
        from try_attempt_own_row(3)[of f old row w en mid stp a x, OF fr fs own] t lid Inr
        obtain tm where "processing_logs w1 = old @ [finish_row LogCompleted a None tm row]"
          and "now w1 = tm + latency en (ops w1 - 1)"
          by auto
        then have "\<exists>j t. a \<le> j \<and> j \<le> maxRetries
             \<and> sleeps (trace w1) = sleeps (trace w) @ map backoffMs [a..<j]
             \<and> processing_logs w1 = old @ [finish_row LogCompleted j None t row]
             \<and> now w1 = t + latency en (ops w1 - 1)"
          using le s1 by - (rule exI[of _ a], rule exI[of _ tm], simp)
        then have "loop_post en old row maxRetries a w (Inr (Some x), w1)"
          by (simp add: loop_post_def)
        then show ?thesis
          using le t Inr by (subst attempt_loop.simps) simp
      next
        case (Inl e)
        have own1: "own_row old row w1"
          using try_attempt_own_row(2)[of f old row w en mid stp a e, OF fr fs own] t lid Inl
          by simp
        let ?w2 = "emit (LogError ''Step failed'' (message e)) w1"
        have own2: "own_row old row ?w2" using own1 by (simp add: emit_def own_row_def)
        have s2: "sleeps (trace ?w2) = sleeps (trace w)"
          using s1 by (simp add: emit_def sleeps_append)
        show ?thesis
        proof (cases "a = maxRetries")
          case True
          let ?U = "updateProcessingStep en lid LogFailed a (Some (message e)) ?w2"
          have res: "attempt_loop en mid stp f maxRetries lid a w
                       = (case ?U of (Inl e', w3) \<Rightarrow> (Inl e', w3) | (Inr v, w3) \<Rightarrow> (Inl e, w3))"
            using le t Inl True by (subst attempt_loop.simps) (simp add: Let_def)
          from updateProcessingStep_own_row[OF own2, of en LogFailed a "Some (message e)"]
          consider (rejected) e' where "?U = (Inl e', ?w2\<lparr>trace := trace ?w2 @ [StoreCall (UpdateLog (log_id row) LogFailed) False],
                              now := now ?w2 + latency en (ops ?w2), ops := Suc (ops ?w2)\<rparr>)"
            | (accepted) "?U = (Inr (), ?w2\<lparr>processing_logs := old @ [finish_row LogFailed a (Some (message e)) (now ?w2) row],
                          trace := trace ?w2 @ [StoreCall (UpdateLog (log_id row) LogFailed) True],
                          now := now ?w2 + latency en (ops ?w2), ops := Suc (ops ?w2)\<rparr>)"
            unfolding lid by blast
          then show ?thesis
          proof cases
            case rejected
            show ?thesis
              unfolding res rejected using own2 s2 True
              by (simp add: loop_post_def own_row_def sleeps_append)
          next
            case accepted
            show ?thesis
              unfolding res accepted using own2 s2 True
              by (simp add: loop_post_def own_row_def sleeps_append)
          qed
        next
          case False
          let ?w3 = "sleep (backoffMs a) (emit (LogInfo ''Retrying step'') ?w2)"
          have own3: "own_row old row ?w3"
            using own1 by (simp add: emit_def sleep_def own_row_def)
          have s3: "sleeps (trace ?w3) = sleeps (trace w) @ [backoffMs a]"
            using s2 by (simp add: emit_def sleep_def sleeps_append)
          have unfold: "attempt_loop en mid stp f maxRetries lid a w
                          = attempt_loop en mid stp f maxRetries lid (Suc a) ?w3"
            using le t Inl False by (subst attempt_loop.simps) (simp add: Let_def)
          have up: "sleeps (trace ?w3) @ map backoffMs [Suc a..<j]
                      = sleeps (trace w) @ map backoffMs [a..<j]" if "Suc a \<le> j" for j
            using that s3 by (simp add: upt_conv_Cons)
          from "1.IH"[OF le t[symmetric] Inl refl False lid own3 fr fs]
          have post: "loop_post en old row maxRetries (Suc a) ?w3
                        (attempt_loop en mid stp f maxRetries lid (Suc a) ?w3)" .
          have lt: "Suc a \<le> maxRetries" using le False by simp
          let ?R = "attempt_loop en mid stp f maxRetries lid (Suc a) ?w3"
          have "loop_post en old row maxRetries a w ?R"
          proof (cases "fst ?R")
            case Inl2: (Inl e2)
            from post have "Suc a \<le> maxRetries \<and> trace (snd ?R) \<noteq> []
              \<and> sleeps (trace (snd ?R)) = sleeps (trace ?w3) @ map backoffMs [Suc a..<maxRetries]
              \<and> (if last (trace (snd ?R)) = StoreCall (UpdateLog (log_id row) LogFailed) True
                  then \<exists>t. processing_logs (snd ?R)
                              = old @ [finish_row LogFailed maxRetries (Some (message e2)) t row]
                            \<and> now (snd ?R) = t + latency en (ops (snd ?R) - 1)
                  else last (trace (snd ?R)) = StoreCall (UpdateLog (log_id row) LogFailed) False
                       \<and> processing_logs (snd ?R) = old @ [row])"
              unfolding loop_post_def Inl2 sum.case .
            then have "a \<le> maxRetries \<and> trace (snd ?R) \<noteq> []
              \<and> sleeps (trace (snd ?R)) = sleeps (trace w) @ map backoffMs [a..<maxRetries]
              \<and> (if last (trace (snd ?R)) = StoreCall (UpdateLog (log_id row) LogFailed) True
                  then \<exists>t. processing_logs (snd ?R)
                              = old @ [finish_row LogFailed maxRetries (Some (message e2)) t row]
                            \<and> now (snd ?R) = t + latency en (ops (snd ?R) - 1)
                  else last (trace (snd ?R)) = StoreCall (UpdateLog (log_id row) LogFailed) False
                       \<and> processing_logs (snd ?R) = old @ [row])"
              unfolding up[OF lt] using le by blast
            then show ?thesis unfolding loop_post_def Inl2 sum.case .
          next
            case (Inr y)
            show ?thesis
            proof (cases y)
              case None
              from post have "maxRetries < Suc a \<and> snd ?R = ?w3"
                unfolding loop_post_def Inr None sum.case option.case .
              with lt show ?thesis by simp
            next
              case (Some x)
              from post have "\<exists>j t. Suc a \<le> j \<and> j \<le> maxRetries
                 \<and> sleeps (trace (snd ?R)) = sleeps (trace ?w3) @ map backoffMs [Suc a..<j]
                 \<and> processing_logs (snd ?R) = old @ [finish_row LogCompleted j None t row]
                 \<and> now (snd ?R) = t + latency en (ops (snd ?R) - 1)"
                unfolding loop_post_def Inr Some sum.case option.case .
              then obtain j t where j: "Suc a \<le> j" "j \<le> maxRetries"
                and sl: "sleeps (trace (snd ?R)) = sleeps (trace ?w3) @ map backoffMs [Suc a..<j]"
                and rows: "processing_logs (snd ?R) = old @ [finish_row LogCompleted j None t row]"
                and tm: "now (snd ?R) = t + latency en (ops (snd ?R) - 1)"
                by blast
              have "a \<le> j \<and> j \<le> maxRetries
                 \<and> sleeps (trace (snd ?R)) = sleeps (trace w) @ map backoffMs [a..<j]
                 \<and> processing_logs (snd ?R) = old @ [finish_row LogCompleted j None t row]
                 \<and> now (snd ?R) = t + latency en (ops (snd ?R) - 1)"
                using j sl rows tm up[OF j(1)] by simp
              then have "\<exists>j t. a \<le> j \<and> j \<le> maxRetries
                 \<and> sleeps (trace (snd ?R)) = sleeps (trace w) @ map backoffMs [a..<j]
                 \<and> processing_logs (snd ?R) = old @ [finish_row LogCompleted j None t row]
                 \<and> now (snd ?R) = t + latency en (ops (snd ?R) - 1)"
                by blast
              then show ?thesis unfolding loop_post_def Inr Some sum.case option.case .
            qed
          qed
          then show ?thesis unfolding unfold .
        qed
      qed
    qed
  qed
  then show ?thesis using own by simp
qed

lemma logProcessingStep_rows:
  "store_fault en (ops w) = None \<and> find (\<lambda>m. meeting_id m = mid) (meetings w) \<noteq> None \<Longrightarrow>
     logProcessingStep en mid stp w
       = (Inr \<lparr>log_id = fresh_log_id (processing_logs w), log_meeting_id = mid,
               log_step = stp, log_status = LogStarted, log_attempt = None,
               error_message = None, started_at = now w, completed_at = None\<rparr>,
          w\<lparr>processing_logs := processing_logs w @
               [\<lparr>log_id = fresh_log_id (processing_logs w), log_meeting_id = mid,
                 log_step = stp, log_status = LogStarted, log_attempt = None,
                 error_message = None, started_at = now w, completed_at = None\<rparr>],
            trace := trace w @ [StoreCall (InsertLog mid stp) True],
            now := now w + latency en (ops w), ops := Suc (ops w)\<rparr>)"
  "\<not> (store_fault en (ops w) = None \<and> find (\<lambda>m. meeting_id m = mid) (meetings w) \<noteq> None) \<Longrightarrow>
     \<exists>e. logProcessingStep en mid stp w
           = (Inl e, w\<lparr>trace := trace w @ [StoreCall (InsertLog mid stp) False],
                        now := now w + latency en (ops w), ops := Suc (ops w)\<rparr>)"
  by (auto simp: logProcessingStep_def Let_def emit_def tick_def split: option.splits)

text \<open>
  C2, as the code has it. One invocation of \<open>processStep\<close>, for a unit of work that
  leaves the log table alone and does not sleep itself, appends at most one row to the
  table, whatever \<open>maxRetries\<close> is and however many attempts run: exactly one when the
  store accepts the insert (it answers, and the meeting exists), none otherwise. The row
  is inserted before the first attempt and no row is created per retry. If the
  invocation returns a result, the row is marked completed with the number \<open>a\<close> of the
  attempt that succeeded (the attempt after \<open>a - 1\<close> backoff delays), no error message,
  and the time of the update. If the invocation fails after the insert, all
  \<open>maxRetries\<close> attempts have failed; the last store call is the update to failed, and
  when the store accepted it the row is marked failed with attempt number \<open>maxRetries\<close>,
  the message of the error returned (when that message is not empty) and the time of
  the update; when the store rejected it the row is still as inserted, marked started.
\<close>

theorem processStep_single_record:
  assumes "\<forall>w. processing_logs (snd (f w)) = processing_logs w"
    and "\<forall>w. sleeps (trace (snd (f w))) = sleeps (trace w)"
  shows "\<exists>rows. processing_logs (snd (processStep en mid stp f maxRetries w))
                  = processing_logs w @ rows
           \<and> length rows \<le> 1
           \<and> (length rows = 1 \<longleftrightarrow>
                store_fault en (ops w) = None
                \<and> find (\<lambda>m. meeting_id m = mid) (meetings w) \<noteq> None)
           \<and> (\<forall>x. fst (processStep en mid stp f maxRetries w) = Inr (Some x) \<longrightarrow>
                (\<exists>a t. 1 \<le> a \<and> a \<le> maxRetries
                   \<and> sleeps (trace (snd (processStep en mid stp f maxRetries w)))
                       = sleeps (trace w) @ map backoffMs [1..<a]
                   \<and> rows = [\<lparr>log_id = fresh_log_id (processing_logs w), log_meeting_id = mid,
                               log_step = stp, log_status = LogCompleted, log_attempt = Some a,
                               error_message = None, started_at = now w,
                               completed_at = Some t\<rparr>]
                   \<and> now (snd (processStep en mid stp f maxRetries w))
                       = t + latency en (ops (snd (processStep en mid stp f maxRetries w)) - 1)))
           \<and> (\<forall>e. fst (processStep en mid stp f maxRetries w) = Inl e \<and> length rows = 1 \<longrightarrow>
                sleeps (trace (snd (processStep en mid stp f maxRetries w)))
                  = sleeps (trace w) @ map backoffMs [1..<maxRetries]
                \<and> (if last (trace (snd (processStep en mid stp f maxRetries w)))
                        = StoreCall (UpdateLog (fresh_log_id (processing_logs w)) LogFailed) True
                   then \<exists>t. rows = [\<lparr>log_id = fresh_log_id (processing_logs w),
                                      log_meeting_id = mid, log_step = stp,
                                      log_status = LogFailed, log_attempt = Some maxRetries,
                                      error_message = (if message e = [] then None
                                                       else Some (message e)),
                                      started_at = now w, completed_at = Some t\<rparr>]
                          \<and> now (snd (processStep en mid stp f maxRetries w))
                              = t + latency en
                                      (ops (snd (processStep en mid stp f maxRetries w)) - 1)
                   else last (trace (snd (processStep en mid stp f maxRetries w)))
                          = StoreCall (UpdateLog (fresh_log_id (processing_logs w)) LogFailed)
                              False
                        \<and> rows = [\<lparr>log_id = fresh_log_id (processing_logs w),
                                    log_meeting_id = mid, log_step = stp,
                                    log_status = LogStarted, log_attempt = None,
                                    error_message = None, started_at = now w,
                                    completed_at = None\<rparr>]))"
proof -
  have fr: "\<And>w. processing_logs (snd (f w)) = processing_logs w" using assms(1) by blast
  have fs: "\<And>w. sleeps (trace (snd (f w))) = sleeps (trace w)" using assms(2) by blast
  let ?P = "processStep en mid stp f maxRetries w"
  let ?acc = "store_fault en (ops w) = None \<and> find (\<lambda>m. meeting_id m = mid) (meetings w) \<noteq> None"
  show ?thesis
  proof (cases ?acc)
    case False
    from logProcessingStep_rows(2)[OF False, of stp]
    obtain e where l: "logProcessingStep en mid stp w
           = (Inl e, w\<lparr>trace := trace w @ [StoreCall (InsertLog mid stp) False],
                        now := now w + latency en (ops w), ops := Suc (ops w)\<rparr>)"
      by blast
    have res: "?P = (Inl e, w\<lparr>trace := trace w @ [StoreCall (InsertLog mid stp) False],
                        now := now w + latency en (ops w), ops := Suc (ops w)\<rparr>)"
      by (simp add: processStep_def l)
    show ?thesis
      unfolding res using False by (intro exI[of _ "[]"]) simp
  next
    case True
    define row where "row = \<lparr>log_id = fresh_log_id (processing_logs w), log_meeting_id = mid,
               log_step = stp, log_status = LogStarted, log_attempt = None,
               error_message = None, started_at = now w, completed_at = None\<rparr>"
    define w1 where "w1 = w\<lparr>processing_logs := processing_logs w @ [row],
            trace := trace w @ [StoreCall (InsertLog mid stp) True],
            now := now w + latency en (ops w), ops := Suc (ops w)\<rparr>"
    have l: "logProcessingStep en mid stp w = (Inr row, w1)"
      using logProcessingStep_rows(1)[OF True, of stp] by (simp add: row_def w1_def)
    have lid: "log_id row = fresh_log_id (processing_logs w)" by (simp add: row_def)
    have own: "own_row (processing_logs w) row w1"
      using fresh_log_id_new[of _ "processing_logs w"]
      by (auto simp: own_row_def w1_def lid)
    have s1: "sleeps (trace w1) = sleeps (trace w)"
      by (simp add: w1_def sleeps_append)
    let ?R = "attempt_loop en mid stp f maxRetries (log_id row) 1 w1"
    have res: "?P = ?R" by (simp add: processStep_def l)
    have post: "loop_post en (processing_logs w) row maxRetries 1 w1 ?R"
      by (rule attempt_loop_rows[OF fr fs own])
    have done_row: "finish_row LogCompleted a None t row
        = \<lparr>log_id = fresh_log_id (processing_logs w), log_meeting_id = mid,
           log_step = stp, log_status = LogCompleted, log_attempt = Some a,
           error_message = None, started_at = now w, completed_at = Some t\<rparr>" for a t
      by (simp add: finish_row_def row_def)
    have failed_row: "finish_row LogFailed a (Some msg) t row
        = \<lparr>log_id = fresh_log_id (processing_logs w), log_meeting_id = mid,
           log_step = stp, log_status = LogFailed, log_attempt = Some a,
           error_message = (if msg = [] then None else Some msg),
           started_at = now w, completed_at = Some t\<rparr>" for a t msg
      by (simp add: finish_row_def row_def)
    show ?thesis
    proof (cases "fst ?R")
      case (Inl e)
      from post have "1 \<le> maxRetries \<and> trace (snd ?R) \<noteq> []
          \<and> sleeps (trace (snd ?R)) = sleeps (trace w1) @ map backoffMs [1..<maxRetries]
          \<and> (if last (trace (snd ?R)) = StoreCall (UpdateLog (log_id row) LogFailed) True
              then \<exists>t. processing_logs (snd ?R)
                          = processing_logs w @ [finish_row LogFailed maxRetries (Some (message e)) t row]
                        \<and> now (snd ?R) = t + latency en (ops (snd ?R) - 1)
              else last (trace (snd ?R)) = StoreCall (UpdateLog (log_id row) LogFailed) False
                   \<and> processing_logs (snd ?R) = processing_logs w @ [row])"
        unfolding loop_post_def Inl sum.case .
      then have sl: "sleeps (trace (snd ?R)) = sleeps (trace w) @ map backoffMs [1..<maxRetries]"
        and alt: "if last (trace (snd ?R)) = StoreCall (UpdateLog (log_id row) LogFailed) True
              then \<exists>t. processing_logs (snd ?R)
                          = processing_logs w @ [finish_row LogFailed maxRetries (Some (message e)) t row]
                        \<and> now (snd ?R) = t + latency en (ops (snd ?R) - 1)
              else last (trace (snd ?R)) = StoreCall (UpdateLog (log_id row) LogFailed) False
                   \<and> processing_logs (snd ?R) = processing_logs w @ [row]"
        unfolding s1 by blast+
      show ?thesis
      proof (cases "last (trace (snd ?R)) = StoreCall (UpdateLog (log_id row) LogFailed) True")
        case acc: True
        with alt obtain t where
          rows: "processing_logs (snd ?R)
                   = processing_logs w @ [finish_row LogFailed maxRetries (Some (message e)) t row]"
          and tm: "now (snd ?R) = t + latency en (ops (snd ?R) - 1)"
          by auto
        show ?thesis
          unfolding res
          apply (rule exI[of _ "[finish_row LogFailed maxRetries (Some (message e)) t row]"])
          using True Inl rows sl acc tm unfolding lid failed_row
          by auto
      next
        case rej: False
        with alt have l2: "last (trace (snd ?R)) = StoreCall (UpdateLog (log_id row) LogFailed) False"
          and rows: "processing_logs (snd ?R) = processing_logs w @ [row]"
          by simp_all
        show ?thesis
          unfolding res
          apply (rule exI[of _ "[row]"])
          using True Inl rows sl rej l2 unfolding lid
          by (auto simp: row_def)
      qed
    next
      case (Inr y)
      show ?thesis
      proof (cases y)
        case None
        from post have "maxRetries < 1 \<and> snd ?R = w1"
          unfolding loop_post_def Inr None sum.case option.case .
        then have eq: "snd ?R = w1" by blast
        have rows: "processing_logs (snd ?R) = processing_logs w @ [row]"
          unfolding eq by (simp add: w1_def)
        show ?thesis
          unfolding res
          apply (rule exI[of _ "[row]"])
          using True Inr None rows by simp
      next
        case (Some x)
        with post Inr obtain j t where j: "1 \<le> j" "j \<le> maxRetries"
          and sl: "sleeps (trace (snd ?R)) = sleeps (trace w) @ map backoffMs [1..<j]"
          and rows: "processing_logs (snd ?R)
                       = processing_logs w @ [finish_row LogCompleted j None t row]"
          and tm: "now (snd ?R) = t + latency en (ops (snd ?R) - 1)"
          using s1 by (auto simp: loop_post_def)
        show ?thesis
          unfolding res
          apply (rule exI[of _ "[finish_row LogCompleted j None t row]"])
          using True Inr Some rows sl j tm unfolding done_row
          by auto
      qed
    qed
  qed
qed

text \<open>
  The outcomes on the concrete system, with \<open>maxRetries = 3\<close>: two failures and a
  success leave one row marked completed with attempt number 3; three failures leave one
  row marked failed with attempt number 3 and the error message; three failures with
  the final update rejected by the store leave the one row marked started.
\<close>

lemma flaky_run:
  "(let R = processStep quiet_env ''m1'' StreamToDrive flaky 3 demo_world
    in fst R = Inr (Some \<lparr>file_id = ''f1'', webViewLink = ''https://drive/f1''\<rparr>)
       \<and> processing_logs (snd R)
           = [\<lparr>log_id = 1, log_meeting_id = ''m1'', log_step = StreamToDrive,
               log_status = LogCompleted, log_attempt = Some 3, error_message = None,
               started_at = 5000, completed_at = Some 11000\<rparr>])"
  by (simp add: store_defs step_defs demo_defs new_Error_def cong: weak_congs)

lemma always_fails_run:
  "(let R = processStep quiet_env ''m1'' StreamToDrive always_fails 3 demo_world
    in fst R = Inl (new_Error ''boom'')
       \<and> last (trace (snd R))
           = StoreCall (UpdateLog (fresh_log_id (processing_logs demo_world)) LogFailed) True
       \<and> processing_logs (snd R)
           = [\<lparr>log_id = 1, log_meeting_id = ''m1'', log_step = StreamToDrive,
               log_status = LogFailed, log_attempt = Some 3, error_message = Some ''boom'',
               started_at = 5000, completed_at = Some 11000\<rparr>])"
  by (simp add: store_defs step_defs demo_defs new_Error_def cong: weak_congs)

lemma rejected_update_run:
  "(let R = processStep second_call_env ''m1'' StreamToDrive always_fails 3 demo_world
    in fst R = Inl (new_Error ''connection reset'')
       \<and> last (trace (snd R))
           = StoreCall (UpdateLog (fresh_log_id (processing_logs demo_world)) LogFailed) False
       \<and> processing_logs (snd R)
           = [\<lparr>log_id = 1, log_meeting_id = ''m1'', log_step = StreamToDrive,
               log_status = LogStarted, log_attempt = None, error_message = None,
               started_at = 5000, completed_at = None\<rparr>])"
  by (simp add: store_defs step_defs demo_defs new_Error_def cong: weak_congs)

theorem processStep_single_record_witness:
  "(\<forall>w. processing_logs (snd (always_fails w)) = processing_logs w)
   \<and> (\<forall>w. sleeps (trace (snd (always_fails w))) = sleeps (trace w))
   \<and> (\<forall>w. processing_logs (snd (flaky w)) = processing_logs w)
   \<and> (\<forall>w. sleeps (trace (snd (flaky w))) = sleeps (trace w))
   \<and> store_fault quiet_env (ops demo_world) = None
   \<and> store_fault second_call_env (ops demo_world) = None
   \<and> find (\<lambda>m. meeting_id m = ''m1'') (meetings demo_world) \<noteq> None
   \<and> fst (processStep quiet_env ''m1'' StreamToDrive flaky 3 demo_world)
       = Inr (Some \<lparr>file_id = ''f1'', webViewLink = ''https://drive/f1''\<rparr>)
   \<and> (\<exists>a t. 1 \<le> a \<and> a \<le> 3
         \<and> processing_logs (snd (processStep quiet_env ''m1'' StreamToDrive flaky 3 demo_world))
             = processing_logs demo_world
               @ [\<lparr>log_id = fresh_log_id (processing_logs demo_world), log_meeting_id = ''m1'',
                   log_step = StreamToDrive, log_status = LogCompleted, log_attempt = Some a,
                   error_message = None, started_at = now demo_world, completed_at = Some t\<rparr>])
   \<and> processing_logs (snd (processStep quiet_env ''m1'' StreamToDrive flaky 3 demo_world))
       = [\<lparr>log_id = 1, log_meeting_id = ''m1'', log_step = StreamToDrive,
           log_status = LogCompleted, log_attempt = Some 3, error_message = None,
           started_at = 5000, completed_at = Some 11000\<rparr>]
   \<and> fst (processStep quiet_env ''m1'' StreamToDrive always_fails 3 demo_world)
       = Inl (new_Error ''boom'')
   \<and> (\<exists>t. processing_logs (snd (processStep quiet_env ''m1'' StreamToDrive always_fails 3
               demo_world))
             = processing_logs demo_world
               @ [\<lparr>log_id = fresh_log_id (processing_logs demo_world), log_meeting_id = ''m1'',
                   log_step = StreamToDrive, log_status = LogFailed, log_attempt = Some 3,
                   error_message = Some ''boom'', started_at = now demo_world,
                   completed_at = Some t\<rparr>])
   \<and> processing_logs (snd (processStep quiet_env ''m1'' StreamToDrive always_fails 3 demo_world))
       = [\<lparr>log_id = 1, log_meeting_id = ''m1'', log_step = StreamToDrive,
           log_status = LogFailed, log_attempt = Some 3, error_message = Some ''boom'',
           started_at = 5000, completed_at = Some 11000\<rparr>]
   \<and> fst (processStep second_call_env ''m1'' StreamToDrive always_fails 3 demo_world)
       = Inl (new_Error ''connection reset'')
   \<and> processing_logs (snd (processStep second_call_env ''m1'' StreamToDrive always_fails 3
         demo_world))
       = processing_logs demo_world
         @ [\<lparr>log_id = fresh_log_id (processing_logs demo_world), log_meeting_id = ''m1'',
             log_step = StreamToDrive, log_status = LogStarted, log_attempt = None,
             error_message = None, started_at = now demo_world, completed_at = None\<rparr>]"
proof -
  have h1: "\<forall>w. processing_logs (snd (always_fails w)) = processing_logs w"
    and h2: "\<forall>w. sleeps (trace (snd (always_fails w))) = sleeps (trace w)"
    by (simp_all add: always_fails_def)
  have h3: "\<forall>w. processing_logs (snd (flaky w)) = processing_logs w"
    and h4: "\<forall>w. sleeps (trace (snd (flaky w))) = sleeps (trace w)"
    by (simp_all add: flaky_def)
  have up: "store_fault quiet_env (ops demo_world) = None"
    and up2: "store_fault second_call_env (ops demo_world) = None"
    by (simp_all add: quiet_env_def second_call_env_def demo_world_def)
  have ex: "find (\<lambda>m. meeting_id m = ''m1'') (meetings demo_world) \<noteq> None"
    by (simp add: demo_world_def demo_meeting_def)
  have r1: "fst (processStep quiet_env ''m1'' StreamToDrive flaky 3 demo_world)
              = Inr (Some \<lparr>file_id = ''f1'', webViewLink = ''https://drive/f1''\<rparr>)"
    and r1': "processing_logs (snd (processStep quiet_env ''m1'' StreamToDrive flaky 3 demo_world))
       = [\<lparr>log_id = 1, log_meeting_id = ''m1'', log_step = StreamToDrive,
           log_status = LogCompleted, log_attempt = Some 3, error_message = None,
           started_at = 5000, completed_at = Some 11000\<rparr>]"
    using flaky_run by (simp_all only: Let_def)
  have r2: "fst (processStep quiet_env ''m1'' StreamToDrive always_fails 3 demo_world)
              = Inl (new_Error ''boom'')"
    and l2: "last (trace (snd (processStep quiet_env ''m1'' StreamToDrive always_fails 3
                 demo_world)))
           = StoreCall (UpdateLog (fresh_log_id (processing_logs demo_world)) LogFailed) True"
    and r2': "processing_logs (snd (processStep quiet_env ''m1'' StreamToDrive always_fails 3
                 demo_world))
       = [\<lparr>log_id = 1, log_meeting_id = ''m1'', log_step = StreamToDrive,
           log_status = LogFailed, log_attempt = Some 3, error_message = Some ''boom'',
           started_at = 5000, completed_at = Some 11000\<rparr>]"
    using always_fails_run by (simp_all only: Let_def)
  have r3: "fst (processStep second_call_env ''m1'' StreamToDrive always_fails 3 demo_world)
              = Inl (new_Error ''connection reset'')"
    and l3: "last (trace (snd (processStep second_call_env ''m1'' StreamToDrive always_fails 3
                 demo_world)))
           = StoreCall (UpdateLog (fresh_log_id (processing_logs demo_world)) LogFailed) False"
    using rejected_update_run by (simp_all only: Let_def)
  have msg: "message (new_Error ''boom'') = ''boom''" by (simp add: new_Error_def)
  from processStep_single_record[OF h3 h4, of quiet_env "''m1''" StreamToDrive 3 demo_world]
  obtain rows where a1: "processing_logs (snd (processStep quiet_env ''m1'' StreamToDrive flaky 3
                            demo_world)) = processing_logs demo_world @ rows"
    and a2: "\<forall>x. fst (processStep quiet_env ''m1'' StreamToDrive flaky 3 demo_world)
                  = Inr (Some x) \<longrightarrow>
                (\<exists>a t. 1 \<le> a \<and> a \<le> 3
                   \<and> sleeps (trace (snd (processStep quiet_env ''m1'' StreamToDrive flaky 3
                         demo_world)))
                       = sleeps (trace demo_world) @ map backoffMs [1..<a]
                   \<and> rows = [\<lparr>log_id = fresh_log_id (processing_logs demo_world),
                               log_meeting_id = ''m1'',
                               log_step = StreamToDrive, log_status = LogCompleted,
                               log_attempt = Some a,
                               error_message = None, started_at = now demo_world,
                               completed_at = Some t\<rparr>]
                   \<and> now (snd (processStep quiet_env ''m1'' StreamToDrive flaky 3 demo_world))
                       = t + latency quiet_env
                          (ops (snd (processStep quiet_env ''m1'' StreamToDrive flaky 3
                             demo_world)) - 1))"
    by (elim exE conjE) (rule that; assumption)
  from a2 r1 a1 have A: "\<exists>a t. 1 \<le> a \<and> a \<le> 3
         \<and> processing_logs (snd (processStep quiet_env ''m1'' StreamToDrive flaky 3 demo_world))
             = processing_logs demo_world
               @ [\<lparr>log_id = fresh_log_id (processing_logs demo_world), log_meeting_id = ''m1'',
                   log_step = StreamToDrive, log_status = LogCompleted, log_attempt = Some a,
                   error_message = None, started_at = now demo_world, completed_at = Some t\<rparr>]"
    by metis
  let ?P = "processStep quiet_env ''m1'' StreamToDrive always_fails 3 demo_world"
  from processStep_single_record[OF h1 h2, of quiet_env "''m1''" StreamToDrive 3 demo_world]
  obtain rows2 where b1: "processing_logs (snd ?P) = processing_logs demo_world @ rows2"
    and b2: "length rows2 = 1 \<longleftrightarrow>
                store_fault quiet_env (ops demo_world) = None
                \<and> find (\<lambda>m. meeting_id m = ''m1'') (meetings demo_world) \<noteq> None"
    and b3: "\<forall>e. fst ?P = Inl e \<and> length rows2 = 1 \<longrightarrow>
                sleeps (trace (snd ?P)) = sleeps (trace demo_world) @ map backoffMs [1..<3]
                \<and> (if last (trace (snd ?P))
                        = StoreCall (UpdateLog (fresh_log_id (processing_logs demo_world)) LogFailed)
                            True
                   then \<exists>t. rows2 = [\<lparr>log_id = fresh_log_id (processing_logs demo_world),
                                      log_meeting_id = ''m1'', log_step = StreamToDrive,
                                      log_status = LogFailed, log_attempt = Some 3,
                                      error_message = (if message e = [] then None
                                                       else Some (message e)),
                                      started_at = now demo_world, completed_at = Some t\<rparr>]
                          \<and> now (snd ?P) = t + latency quiet_env (ops (snd ?P) - 1)
                   else last (trace (snd ?P))
                          = StoreCall (UpdateLog (fresh_log_id (processing_logs demo_world))
                              LogFailed) False
                        \<and> rows2 = [\<lparr>log_id = fresh_log_id (processing_logs demo_world),
                                    log_meeting_id = ''m1'', log_step = StreamToDrive,
                                    log_status = LogStarted, log_attempt = None,
                                    error_message = None, started_at = now demo_world,
                                    completed_at = None\<rparr>])"
    by (elim exE conjE) (rule that; assumption)
  have len2: "length rows2 = 1" using b2 up ex by blast
  from b3 r2 len2 l2 have "\<exists>t. rows2 = [\<lparr>log_id = fresh_log_id (processing_logs demo_world),
                                      log_meeting_id = ''m1'', log_step = StreamToDrive,
                                      log_status = LogFailed, log_attempt = Some 3,
                                      error_message = (if message (new_Error ''boom'') = [] then None
                                                       else Some (message (new_Error ''boom''))),
                                      started_at = now demo_world, completed_at = Some t\<rparr>]"
    by (metis (no_types, lifting))
  then have B: "\<exists>t. processing_logs (snd ?P)
             = processing_logs demo_world
               @ [\<lparr>log_id = fresh_log_id (processing_logs demo_world), log_meeting_id = ''m1'',
                   log_step = StreamToDrive, log_status = LogFailed, log_attempt = Some 3,
                   error_message = Some ''boom'', started_at = now demo_world,
                   completed_at = Some t\<rparr>]"
    unfolding b1 msg by simp
  let ?Q = "processStep second_call_env ''m1'' StreamToDrive always_fails 3 demo_world"
  from processStep_single_record[OF h1 h2, of second_call_env "''m1''" StreamToDrive 3 demo_world]
  obtain rows3 where c1: "processing_logs (snd ?Q) = processing_logs demo_world @ rows3"
    and c2: "length rows3 = 1 \<longleftrightarrow>
                store_fault second_call_env (ops demo_world) = None
                \<and> find (\<lambda>m. meeting_id m = ''m1'') (meetings demo_world) \<noteq> None"
    and c3: "\<forall>e. fst ?Q = Inl e \<and> length rows3 = 1 \<longrightarrow>
                sleeps (trace (snd ?Q)) = sleeps (trace demo_world) @ map backoffMs [1..<3]
                \<and> (if last (trace (snd ?Q))
                        = StoreCall (UpdateLog (fresh_log_id (processing_logs demo_world)) LogFailed)
                            True
                   then \<exists>t. rows3 = [\<lparr>log_id = fresh_log_id (processing_logs demo_world),
                                      log_meeting_id = ''m1'', log_step = StreamToDrive,
                                      log_status = LogFailed, log_attempt = Some 3,
                                      error_message = (if message e = [] then None
                                                       else Some (message e)),
                                      started_at = now demo_world, completed_at = Some t\<rparr>]
                          \<and> now (snd ?Q) = t + latency second_call_env (ops (snd ?Q) - 1)
                   else last (trace (snd ?Q))
                          = StoreCall (UpdateLog (fresh_log_id (processing_logs demo_world))
                              LogFailed) False
                        \<and> rows3 = [\<lparr>log_id = fresh_log_id (processing_logs demo_world),
                                    log_meeting_id = ''m1'', log_step = StreamToDrive,
                                    log_status = LogStarted, log_attempt = None,
                                    error_message = None, started_at = now demo_world,
                                    completed_at = None\<rparr>])"
    by (elim exE conjE) (rule that; assumption)
  have len3: "length rows3 = 1" using c2 up2 ex by blast
  have ne: "last (trace (snd ?Q))
              \<noteq> StoreCall (UpdateLog (fresh_log_id (processing_logs demo_world)) LogFailed) True"
    unfolding l3 by simp
  from c3 r3 len3 ne have "rows3 = [\<lparr>log_id = fresh_log_id (processing_logs demo_world),
                                    log_meeting_id = ''m1'', log_step = StreamToDrive,
                                    log_status = LogStarted, log_attempt = None,
                                    error_message = None, started_at = now demo_world,
                                    completed_at = None\<rparr>]"
    by (metis (no_types, lifting))
  then have C: "processing_logs (snd ?Q)
       = processing_logs demo_world
         @ [\<lparr>log_id = fresh_log_id (processing_logs demo_world), log_meeting_id = ''m1'',
             log_step = StreamToDrive, log_status = LogStarted, log_attempt = None,
             error_message = None, started_at = now demo_world, completed_at = None\<rparr>]"
    unfolding c1 by simp
  from h1 h2 h3 h4 up up2 ex r1 A r1' r2 B r2' r3 C show ?thesis by blast
qed

text \<open>
  C2 as stated fails. With \<open>maxRetries = 3\<close> and a unit of work that fails every time,
  three attempts run and the invocation fails, yet the table holds one row, not
  three: the row inserted before the first attempt, marked failed with attempt number 3.
\<close>

theorem processStep_record_per_retry_counterexample:
  "fst (processStep quiet_env ''m1'' StreamToDrive always_fails 3 demo_world)
     = Inl (new_Error ''boom'')
   \<and> count_list (trace (snd (processStep quiet_env ''m1'' StreamToDrive always_fails 3 demo_world)))
       (StepEvent ''m1'' StreamToDrive ''attempting'') = 3
   \<and> map log_status
       (processing_logs (snd (processStep quiet_env ''m1'' StreamToDrive always_fails 3 demo_world)))
       = [LogFailed]
   \<and> map log_attempt
       (processing_logs (snd (processStep quiet_env ''m1'' StreamToDrive always_fails 3 demo_world)))
       = [Some 3]"
  by (simp add: store_defs step_defs demo_defs new_Error_def
      cong: weak_congs)

section \<open>Transfer step: the error that reaches the caller\<close>

text \<open>
  What the \<open>catch\<close> block of \<open>streamRecordingToGoogleDrive\<close> throws, by the failure it
  caught: for a response status 403 or 404 a new error whose message says that the
  recording URL has expired or is not accessible; otherwise the timeout error for the
  code \<open>ECONNABORTED\<close>, and the failure itself in every other case.
\<close>

lemma stream_error_cases:
  "(response_status e = Some 403 \<longrightarrow> stream_error e = expired_error 403)
   \<and> (response_status e = Some 404 \<longrightarrow> stream_error e = expired_error 404)
   \<and> (response_status e \<noteq> Some 403 \<and> response_status e \<noteq> Some 404 \<longrightarrow>
         stream_error e = (if code e = Some ''ECONNABORTED'' then timeout_error else e))"
  by (simp add: stream_error_def)

lemma expired_error_message:
  "message (expired_error 403) = ''Recording URL has expired or is not accessible (403)''"
  "message (expired_error 404) = ''Recording URL has expired or is not accessible (404)''"
  "expired_error 403 \<noteq> timeout_error" "expired_error 404 \<noteq> timeout_error"
  by (simp_all add: expired_error_def timeout_error_def new_Error_def show_nat.simps
      digit_char_def)

text \<open>
  The failure is classified where it is caught, not where it was raised: a failure of
  the request for the recording and a failure of the upload are thrown as the same
  \<open>stream_error\<close>.
\<close>

lemma stream_download_fails:
  "download_result en (ops w) = Some e \<Longrightarrow>
   streamRecordingToGoogleDrive en url title w
     = (Inl (stream_error e),
        emit (LogError ''Failed to stream recording to Google Drive'' (message e))
          (emit (TransferCall url title) (tick en w)))"
  by (simp add: streamRecordingToGoogleDrive_def stream_failed_def Let_def)

lemma stream_upload_fails:
  "download_result en (ops w) = None \<Longrightarrow> upload_result en (Suc (ops w)) = Inl e \<Longrightarrow>
   streamRecordingToGoogleDrive en url title w
     = (Inl (stream_error e),
        emit (LogError ''Failed to stream recording to Google Drive'' (message e))
          (emit (UploadCall title) (tick en (emit (TransferCall url title) (tick en w)))))"
  by (simp add: streamRecordingToGoogleDrive_def stream_failed_def Let_def emit_def tick_def)

text \<open>
  On the concrete system with a source that answers 403: the three attempts of the
  transfer step fail, the error that \<open>processRecordingUrgently\<close> rethrows to its caller
  is the expired error, and the meeting ends failed.
\<close>

lemma expired_run:
  "(let R = processRecordingUrgently expired_env ''m1'' (Some ''https://rec/1.mkv'') ''s1''
              demo_world
    in fst R = Inl (expired_error 403) \<and> map status (meetings (snd R)) = [Failed])"
  by (simp add: store_defs step_defs pipeline_defs demo_defs stream_error_def expired_error_def
      cong: weak_congs)

lemma sink_denied_run:
  "(let R = processRecordingUrgently sink_denied_env ''m1'' (Some ''https://rec/1.mkv'') ''s1''
              demo_world
    in fst R = Inl (expired_error 403)
       \<and> map status (meetings (snd R)) = [Failed]
       \<and> count_list (trace (snd R)) (TransferCall ''https://rec/1.mkv'' ''Weekly sync'') = 3
       \<and> count_list (trace (snd R)) (UploadCall ''Weekly sync'') = 3
       \<and> count_list (trace (snd R))
            (AlertCall ''m1'' ''urgent_processing''
               ''Recording URL has expired or is not accessible (403)'' True) = 1)"
  by (simp add: store_defs step_defs pipeline_defs demo_defs stream_error_def expired_error_def
      show_nat.simps digit_char_def cong: weak_congs)

text \<open>
  C8. The claim holds of a failure of the source and fails for a failure of the file
  store. In \<open>sink_denied_env\<close> the source serves the recording and the file store refuses
  the upload with 403 because the storage quota is used up. The transfer throws the
  error that names the recording URL as expired or inaccessible, although the URL was
  read successfully; this is the error \<open>processRecordingUrgently\<close> rethrows and the
  message of the alert, after three downloads and three refused uploads.
\<close>

theorem sink_failure_reported_as_expired_url:
  "download_result sink_denied_env (ops demo_world) = None
   \<and> upload_result sink_denied_env (Suc (ops demo_world)) = Inl quota_error
   \<and> response_status quota_error = Some 403
   \<and> streamRecordingToGoogleDrive sink_denied_env ''https://rec/1.mkv'' ''Weekly sync'' demo_world
       = (Inl (expired_error 403),
          demo_world\<lparr>trace := [TransferCall ''https://rec/1.mkv'' ''Weekly sync'',
                               UploadCall ''Weekly sync'',
                               LogError ''Failed to stream recording to Google Drive''
                                 ''The user has exceeded their Drive storage quota''],
                     ops := 2\<rparr>)
   \<and> message (expired_error 403) = ''Recording URL has expired or is not accessible (403)''
   \<and> fst (processRecordingUrgently sink_denied_env ''m1'' (Some ''https://rec/1.mkv'') ''s1''
            demo_world) = Inl (expired_error 403)
   \<and> count_list (trace (snd (processRecordingUrgently sink_denied_env ''m1''
            (Some ''https://rec/1.mkv'') ''s1'' demo_world)))
        (TransferCall ''https://rec/1.mkv'' ''Weekly sync'') = 3
   \<and> count_list (trace (snd (processRecordingUrgently sink_denied_env ''m1''
            (Some ''https://rec/1.mkv'') ''s1'' demo_world)))
        (UploadCall ''Weekly sync'') = 3
   \<and> count_list (trace (snd (processRecordingUrgently sink_denied_env ''m1''
            (Some ''https://rec/1.mkv'') ''s1'' demo_world)))
        (AlertCall ''m1'' ''urgent_processing''
           ''Recording URL has expired or is not accessible (403)'' True) = 1"
proof -
  have d: "download_result sink_denied_env (ops demo_world) = None"
    and u: "upload_result sink_denied_env (Suc (ops demo_world)) = Inl quota_error"
    and st: "response_status quota_error = Some 403"
    by (simp_all add: sink_denied_env_def quiet_env_def quota_error_def)
  have se: "stream_error quota_error = expired_error 403"
    using stream_error_cases[of quota_error] st by blast
  have s: "streamRecordingToGoogleDrive sink_denied_env ''https://rec/1.mkv'' ''Weekly sync''
             demo_world
       = (Inl (expired_error 403),
          demo_world\<lparr>trace := [TransferCall ''https://rec/1.mkv'' ''Weekly sync'',
                               UploadCall ''Weekly sync'',
                               LogError ''Failed to stream recording to Google Drive''
                                 ''The user has exceeded their Drive storage quota''],
                     ops := 2\<rparr>)"
    unfolding stream_upload_fails[OF d u] se
    by (simp add: emit_def tick_def demo_world_def sink_denied_env_def quiet_env_def
        quota_error_def)
  show ?thesis
    using d u st s expired_error_message(1) sink_denied_run by (simp only: Let_def)
qed

section \<open>Orchestrator: failure handling and the validate step\<close>

lemma updateMeeting_ok:
  "store_fault en (ops w) = None \<Longrightarrow> find (\<lambda>m. meeting_id m = mid) (meetings w) = Some m0 \<Longrightarrow>
   updateMeeting en mid st patch w
     = (Inr ((patch m0)\<lparr>updated_at := now w\<rparr>),
        w\<lparr>meetings := map (\<lambda>x. if meeting_id x = mid then (patch x)\<lparr>updated_at := now w\<rparr> else x)
                         (meetings w),
          trace := trace w @ [StoreCall (UpdateMeeting mid st) True],
          now := now w + latency en (ops w), ops := Suc (ops w)\<rparr>)"
  by (simp add: updateMeeting_def Let_def emit_def tick_def)

lemma updateMeeting_fault:
  "store_fault en (ops w) = Some e \<Longrightarrow>
   updateMeeting en mid st patch w
     = (Inl e, w\<lparr>trace := trace w @ [StoreCall (UpdateMeeting mid st) False],
                 now := now w + latency en (ops w), ops := Suc (ops w)\<rparr>)"
  by (simp add: updateMeeting_def Let_def emit_def tick_def)

lemma updateMeeting_missing:
  "store_fault en (ops w) = None \<Longrightarrow> find (\<lambda>m. meeting_id m = mid) (meetings w) = None \<Longrightarrow>
   updateMeeting en mid st patch w
     = (Inl no_rows_error, w\<lparr>trace := trace w @ [StoreCall (UpdateMeeting mid st) False],
                 now := now w + latency en (ops w), ops := Suc (ops w)\<rparr>)"
  by (simp add: updateMeeting_def Let_def emit_def tick_def)

lemma patched_rows_failed:
  assumes "m \<in> set (map (\<lambda>x. if meeting_id x = mid
                                then (patch_failed t x)\<lparr>updated_at := t\<rparr> else x) ms)"
    and "meeting_id m = mid"
  shows "status m = Failed \<and> processing_completed_at m = Some t"
proof -
  from assms(1) obtain x where x: "x \<in> set ms"
    and m: "m = (if meeting_id x = mid then (patch_failed t x)\<lparr>updated_at := t\<rparr> else x)"
    by auto
  show ?thesis
  proof (cases "meeting_id x = mid")
    case True
    with m show ?thesis by (simp add: patch_failed_def)
  next
    case False
    with m assms(2) show ?thesis by simp
  qed
qed

text \<open>
  C4. When the \<open>try\<close> block of \<open>processRecordingUrgently\<close> ends with an error, whatever
  step it came from, the handler first writes \<open>failed\<close> and the completion time, then
  logs and alerts, then logs the failure, in this order; a rejected write and a failed
  alert each leave one more log line and nothing else (the line of the failed alert is
  written by \<open>sendCriticalAlert\<close>, which catches the failure itself). The error returned
  to the caller is the error of the \<open>try\<close> block whether or not the alert was sent. When
  the store answers the write, every row of the meeting is failed with the completion
  time.
\<close>

theorem failure_handler:
  assumes "processRecordingUrgently_try en mid url sid w = (Inl err, w1)"
  shows "fst (processRecordingUrgently en mid url sid w) = Inl err
    \<and> trace (snd (processRecordingUrgently en mid url sid w))
        = trace w1
          @ (if store_fault en (ops w1) = None
                \<and> find (\<lambda>m. meeting_id m = mid) (meetings w1) \<noteq> None
             then [StoreCall (UpdateMeeting mid Failed) True]
             else [StoreCall (UpdateMeeting mid Failed) False,
                   LogError ''Failed to update meeting status to failed''
                     (case store_fault en (ops w1) of
                        Some e \<Rightarrow> message e | None \<Rightarrow> message no_rows_error)])
          @ [LogError ''CRITICAL ERROR - Immediate attention required'' (message err),
             AlertCall mid ''urgent_processing'' (message err)
               (alert_result en (Suc (ops w1)) = None)]
          @ (case alert_result en (Suc (ops w1)) of
               None \<Rightarrow> []
             | Some alertError \<Rightarrow>
                 [LogError ''Failed to send critical alert'' (message alertError)])
          @ [MeetingEvent mid ''urgent_processing_failed'']
    \<and> (store_fault en (ops w1) = None \<longrightarrow>
          (\<forall>m\<in>set (meetings (snd (processRecordingUrgently en mid url sid w))).
              meeting_id m = mid \<longrightarrow>
                status m = Failed \<and> processing_completed_at m = Some (now w1)))"
proof (cases "store_fault en (ops w1)")
  case (Some e)
  show ?thesis
    using assms Some
    by (simp add: processRecordingUrgently_def updateMeeting_fault[OF Some] handleCriticalError_def
        sendCriticalAlert_def emit_def tick_def Let_def split: option.splits)
next
  case None
  show ?thesis
  proof (cases "find (\<lambda>m. meeting_id m = mid) (meetings w1)")
    case nf: None
    then have no: "\<forall>m\<in>set (meetings w1). meeting_id m \<noteq> mid"
      by (simp add: find_None_iff)
    show ?thesis
      using assms None nf no
      by (simp add: processRecordingUrgently_def updateMeeting_missing[OF None nf]
          handleCriticalError_def sendCriticalAlert_def emit_def tick_def Let_def
          split: option.splits)
  next
    case (Some m0)
    have M: "meetings (snd (processRecordingUrgently en mid url sid w))
               = map (\<lambda>x. if meeting_id x = mid
                             then (patch_failed (now w1) x)\<lparr>updated_at := now w1\<rparr> else x)
                   (meetings w1)"
      using assms
      by (simp add: processRecordingUrgently_def updateMeeting_ok[OF None Some]
          handleCriticalError_def sendCriticalAlert_def emit_def tick_def Let_def
          split: option.splits)
    have third: "\<forall>m\<in>set (meetings (snd (processRecordingUrgently en mid url sid w))).
              meeting_id m = mid \<longrightarrow>
                status m = Failed \<and> processing_completed_at m = Some (now w1)"
      unfolding M using patched_rows_failed by blast
    have first: "fst (processRecordingUrgently en mid url sid w) = Inl err"
      using assms
      by (simp add: processRecordingUrgently_def updateMeeting_ok[OF None Some] Let_def)
    have second: "trace (snd (processRecordingUrgently en mid url sid w))
        = trace w1 @ [StoreCall (UpdateMeeting mid Failed) True]
          @ [LogError ''CRITICAL ERROR - Immediate attention required'' (message err),
             AlertCall mid ''urgent_processing'' (message err)
               (alert_result en (Suc (ops w1)) = None)]
          @ (case alert_result en (Suc (ops w1)) of
               None \<Rightarrow> []
             | Some alertError \<Rightarrow>
                 [LogError ''Failed to send critical alert'' (message alertError)])
          @ [MeetingEvent mid ''urgent_processing_failed'']"
      using assms
      by (simp add: processRecordingUrgently_def updateMeeting_ok[OF None Some]
          handleCriticalError_def sendCriticalAlert_def emit_def tick_def Let_def
          split: option.splits)
    have cond: "(store_fault en (ops w1) = None
                  \<and> find (\<lambda>m. meeting_id m = mid) (meetings w1) \<noteq> None) = True"
      using None Some by simp
    show ?thesis
      unfolding cond if_True by (intro conjI impI first second third)
  qed
qed


lemma logProcessingStep_ok:
  "store_fault en (ops w) = None \<Longrightarrow> find (\<lambda>m. meeting_id m = mid) (meetings w) \<noteq> None \<Longrightarrow>
   logProcessingStep en mid stp w
     = (Inr \<lparr>log_id = fresh_log_id (processing_logs w), log_meeting_id = mid,
             log_step = stp, log_status = LogStarted, log_attempt = None,
             error_message = None, started_at = now w, completed_at = None\<rparr>,
        w\<lparr>processing_logs := processing_logs w @
             [\<lparr>log_id = fresh_log_id (processing_logs w), log_meeting_id = mid,
               log_step = stp, log_status = LogStarted, log_attempt = None,
               error_message = None, started_at = now w, completed_at = None\<rparr>],
          trace := trace w @ [StoreCall (InsertLog mid stp) True],
          now := now w + latency en (ops w), ops := Suc (ops w)\<rparr>)"
  by (simp add: logProcessingStep_def Let_def emit_def tick_def)

lemma updateProcessingStep_ok:
  "store_fault en (ops w) = None \<Longrightarrow> find (\<lambda>r. log_id r = lid) (processing_logs w) \<noteq> None \<Longrightarrow>
   fst (updateProcessingStep en lid st a err w) = Inr ()
   \<and> meetings (snd (updateProcessingStep en lid st a err w)) = meetings w
   \<and> trace (snd (updateProcessingStep en lid st a err w))
       = trace w @ [StoreCall (UpdateLog lid st) True]"
  by (simp add: updateProcessingStep_def Let_def emit_def tick_def)

text \<open>
  C5. The URL check answers \<open>true\<close> for every URL, without contacting anything. So for
  every URL, every environment (whatever the source would answer for that URL) and
  every world in which the store accepts the two writes of the step's log row, the
  validate step runs one attempt, completes, and the run continues with the transfer
  step; the meetings table is left as it was.
\<close>

theorem validate_never_blocks:
  assumes s0: "store_fault en (ops w) = None" and s1: "store_fault en (Suc (ops w)) = None"
    and ex: "find (\<lambda>x. meeting_id x = mid) (meetings w) \<noteq> None"
  shows "fst (isRecordingUrlValid url w) = Inr True
    \<and> (\<exists>w'. pipeline_from_validate en mid sid url m td w
               = pipeline_from_transfer en mid sid url m td w'
             \<and> meetings w' = meetings w
             \<and> trace w' = trace w
                 @ [StepEvent mid ValidateRecordingUrl ''started'',
                    StoreCall (InsertLog mid ValidateRecordingUrl) True,
                    StepEvent mid ValidateRecordingUrl ''attempting'',
                    LogWarn ''URL validation is deprecated - always returning true'',
                    LogInfo ''Recording URL validation result'',
                    StoreCall (UpdateLog (fresh_log_id (processing_logs w)) LogCompleted) True,
                    StepEvent mid ValidateRecordingUrl ''completed''])"
proof -
  have v: "fst (isRecordingUrlValid url w) = Inr True"
    by (simp add: isRecordingUrlValid_def config_isRecordingUrlValid_def)
  define lid where "lid = fresh_log_id (processing_logs w)"
  define w0 where "w0 = emit (StepEvent mid ValidateRecordingUrl ''started'') w"
  obtain row w1 where l: "logProcessingStep en mid ValidateRecordingUrl w0 = (Inr row, w1)"
    and rid: "log_id row = lid"
    and w1: "meetings w1 = meetings w" "ops w1 = Suc (ops w)"
      "processing_logs w1 = processing_logs w @ [row]"
      "trace w1 = trace w @ [StepEvent mid ValidateRecordingUrl ''started'',
                             StoreCall (InsertLog mid ValidateRecordingUrl) True]"
    using logProcessingStep_ok[of en w0 mid ValidateRecordingUrl] s0 ex
    by (simp add: w0_def emit_def lid_def)
  define w2 where "w2 = emit (LogInfo ''Recording URL validation result'')
     (emit (LogWarn ''URL validation is deprecated - always returning true'')
        (emit (StepEvent mid ValidateRecordingUrl ''attempting'') w1))"
  have f: "isRecordingUrlValid url (emit (StepEvent mid ValidateRecordingUrl ''attempting'') w1)
             = (Inr True, w2)"
    by (simp add: isRecordingUrlValid_def config_isRecordingUrlValid_def w2_def)
  have w2: "meetings w2 = meetings w" "ops w2 = Suc (ops w)"
    "processing_logs w2 = processing_logs w @ [row]"
    "trace w2 = trace w1 @ [StepEvent mid ValidateRecordingUrl ''attempting'',
        LogWarn ''URL validation is deprecated - always returning true'',
        LogInfo ''Recording URL validation result'']"
    using w1 by (simp_all add: w2_def emit_def)
  have found: "find (\<lambda>r. log_id r = lid) (processing_logs w2) \<noteq> None"
    using w2(3) rid by (auto simp: find_None_iff)
  obtain w3 where u: "updateProcessingStep en lid LogCompleted (Suc 0) None w2 = (Inr (), w3)"
    and w3: "meetings w3 = meetings w"
      "trace w3 = trace w2 @ [StoreCall (UpdateLog lid LogCompleted) True]"
    using updateProcessingStep_ok[of en w2 lid LogCompleted "Suc 0" None] s1 w2 found
    by (cases "updateProcessingStep en lid LogCompleted (Suc 0) None w2") simp
  define w4 where "w4 = emit (StepEvent mid ValidateRecordingUrl ''completed'') w3"
  have t: "try_attempt en mid ValidateRecordingUrl (isRecordingUrlValid url) lid (Suc 0) w1
             = (Inr True, w4)"
    using u by (simp add: try_attempt_def f w4_def)
  have loop: "attempt_loop en mid ValidateRecordingUrl (isRecordingUrlValid url) 3 lid (Suc 0) w1
                = (Inr (Some True), w4)"
    using t by (subst attempt_loop.simps) simp
  have "pipeline_from_validate en mid sid url m td w
          = pipeline_from_transfer en mid sid url m td w4"
    by (simp add: pipeline_from_validate_def processStep_def w0_def[symmetric] l rid loop)
  moreover have "meetings w4 = meetings w" using w3 by (simp add: w4_def emit_def)
  moreover have "trace w4 = trace w
                 @ [StepEvent mid ValidateRecordingUrl ''started'',
                    StoreCall (InsertLog mid ValidateRecordingUrl) True,
                    StepEvent mid ValidateRecordingUrl ''attempting'',
                    LogWarn ''URL validation is deprecated - always returning true'',
                    LogInfo ''Recording URL validation result'',
                    StoreCall (UpdateLog (fresh_log_id (processing_logs w)) LogCompleted) True,
                    StepEvent mid ValidateRecordingUrl ''completed'']"
    using w3 w2 w1 by (simp add: w4_def emit_def lid_def)
  ultimately show ?thesis using v by blast
qed


text \<open>
  On the concrete system with a source that answers 403 and the alerting channel down:
  the run fails in the transfer step, the meeting is marked failed at the time of the
  failure, the alert is attempted after that write and fails, and the caller gets the
  transfer error. The last five events are listed latest first.
\<close>

lemma alert_down_try:
  "fst (processRecordingUrgently_try alert_down_env ''m1'' (Some ''https://rec/1.mkv'') ''s1''
          demo_world) = Inl (expired_error 403)"
  by (simp add: store_defs step_defs pipeline_defs demo_defs stream_error_def expired_error_def
      cong: weak_congs)

lemma alert_down_run:
  "(let R = processRecordingUrgently alert_down_env ''m1'' (Some ''https://rec/1.mkv'') ''s1''
              demo_world
    in map status (meetings (snd R)) = [Failed]
       \<and> map processing_completed_at (meetings (snd R)) = [Some 11000]
       \<and> take 5 (rev (trace (snd R)))
           = [MeetingEvent ''m1'' ''urgent_processing_failed'',
              LogError ''Failed to send critical alert'' ''channel_not_found'',
              AlertCall ''m1'' ''urgent_processing''
                ''Recording URL has expired or is not accessible (403)'' False,
              LogError ''CRITICAL ERROR - Immediate attention required''
                ''Recording URL has expired or is not accessible (403)'',
              StoreCall (UpdateMeeting ''m1'' Failed) True])"
  by (simp add: store_defs step_defs pipeline_defs demo_defs stream_error_def expired_error_def
      show_nat.simps digit_char_def cong: weak_congs)

theorem failure_handler_witness:
  "fst (processRecordingUrgently_try alert_down_env ''m1'' (Some ''https://rec/1.mkv'') ''s1''
          demo_world) = Inl (expired_error 403)
   \<and> fst (processRecordingUrgently alert_down_env ''m1'' (Some ''https://rec/1.mkv'') ''s1''
          demo_world) = Inl (expired_error 403)
   \<and> map status (meetings (snd (processRecordingUrgently alert_down_env ''m1''
          (Some ''https://rec/1.mkv'') ''s1'' demo_world))) = [Failed]
   \<and> map processing_completed_at (meetings (snd (processRecordingUrgently alert_down_env ''m1''
          (Some ''https://rec/1.mkv'') ''s1'' demo_world))) = [Some 11000]
   \<and> take 5 (rev (trace (snd (processRecordingUrgently alert_down_env ''m1''
          (Some ''https://rec/1.mkv'') ''s1'' demo_world))))
       = [MeetingEvent ''m1'' ''urgent_processing_failed'',
          LogError ''Failed to send critical alert'' ''channel_not_found'',
          AlertCall ''m1'' ''urgent_processing''
            ''Recording URL has expired or is not accessible (403)'' False,
          LogError ''CRITICAL ERROR - Immediate attention required''
            ''Recording URL has expired or is not accessible (403)'',
          StoreCall (UpdateMeeting ''m1'' Failed) True]"
proof -
  obtain w1 where t: "processRecordingUrgently_try alert_down_env ''m1''
      (Some ''https://rec/1.mkv'') ''s1'' demo_world = (Inl (expired_error 403), w1)"
    using alert_down_try
    by (cases "processRecordingUrgently_try alert_down_env ''m1''
          (Some ''https://rec/1.mkv'') ''s1'' demo_world") simp
  from failure_handler[OF t]
  have "fst (processRecordingUrgently alert_down_env ''m1'' (Some ''https://rec/1.mkv'') ''s1''
          demo_world) = Inl (expired_error 403)"
    by blast
  then show ?thesis
    using alert_down_try alert_down_run by (simp only: Let_def)
qed

text \<open>
  On the concrete system with a source that answers 403 to every request for the
  recording: the validate step still completes and the transfer is attempted three
  times.
\<close>

lemma expired_transfers:
  "count_list (trace (snd (processRecordingUrgently expired_env ''m1''
       (Some ''https://rec/1.mkv'') ''s1'' demo_world)))
     (TransferCall ''https://rec/1.mkv'' ''Weekly sync'') = 3"
  by (simp add: store_defs step_defs pipeline_defs demo_defs stream_error_def expired_error_def
      cong: weak_congs)

theorem validate_never_blocks_witness:
  "store_fault expired_env (ops demo_world) = None
   \<and> store_fault expired_env (Suc (ops demo_world)) = None
   \<and> find (\<lambda>x. meeting_id x = ''m1'') (meetings demo_world) \<noteq> None
   \<and> fst (isRecordingUrlValid ''https://rec/1.mkv'' demo_world) = Inr True
   \<and> (\<exists>w'. pipeline_from_validate expired_env ''m1'' ''s1'' ''https://rec/1.mkv'' demo_meeting
               None demo_world
             = pipeline_from_transfer expired_env ''m1'' ''s1'' ''https://rec/1.mkv''
                 demo_meeting None w'
             \<and> meetings w' = meetings demo_world)
   \<and> count_list (trace (snd (processRecordingUrgently expired_env ''m1''
          (Some ''https://rec/1.mkv'') ''s1'' demo_world)))
        (TransferCall ''https://rec/1.mkv'' ''Weekly sync'') = 3"
proof -
  have h0: "store_fault expired_env (ops demo_world) = None"
    and h1: "store_fault expired_env (Suc (ops demo_world)) = None"
    by (simp_all add: expired_env_def quiet_env_def)
  have h2: "find (\<lambda>x. meeting_id x = ''m1'') (meetings demo_world) \<noteq> None"
    by (simp add: demo_world_def demo_meeting_def)
  from validate_never_blocks[OF h0 h1 h2, of "''https://rec/1.mkv''" "''s1''" demo_meeting None]
  have "fst (isRecordingUrlValid ''https://rec/1.mkv'' demo_world) = Inr True"
    and "\<exists>w'. pipeline_from_validate expired_env ''m1'' ''s1'' ''https://rec/1.mkv'' demo_meeting
               None demo_world
             = pipeline_from_transfer expired_env ''m1'' ''s1'' ''https://rec/1.mkv''
                 demo_meeting None w'
             \<and> meetings w' = meetings demo_world"
    by blast+
  then show ?thesis using h0 h1 h2 expired_transfers by blast
qed

section \<open>Orchestrator: a second trigger for the same meeting\<close>

lemma set_status_absent:
  "find (\<lambda>m. meeting_id m = mid) ms = None \<Longrightarrow> set_status mid s ms = ms"
  by (induction ms) (auto simp: set_status_def split: if_splits)

lemma find_set_status:
  "find (\<lambda>m. meeting_id m = mid) ms = Some m0 \<Longrightarrow>
   find (\<lambda>m. meeting_id m = mid) (set_status mid s ms) = Some (m0\<lparr>status := s\<rparr>)"
  by (induction ms) (auto simp: set_status_def split: if_splits)

lemma patch_set_status:
  "map (\<lambda>x. if meeting_id x = mid then (patch_processing url t x)\<lparr>updated_at := u\<rparr> else x)
     (set_status mid s ms)
   = map (\<lambda>x. if meeting_id x = mid then (patch_processing url t x)\<lparr>updated_at := u\<rparr> else x) ms"
  by (induction ms) (simp_all add: set_status_def patch_processing_def)

lemma filter_set_status:
  "filter (\<lambda>x. chatterbox_session_id x = c) (set_status mid s ms)
     = set_status mid s (filter (\<lambda>x. chatterbox_session_id x = c) ms)"
  by (induction ms) (simp_all add: set_status_def)

lemma updateMeeting_overwrites_status:
  assumes "store_fault en (ops w) = None"
  shows "updateMeeting en mid Processing (patch_processing url t)
           (w\<lparr>meetings := set_status mid s (meetings w)\<rparr>)
         = updateMeeting en mid Processing (patch_processing url t) w"
proof (cases "find (\<lambda>m. meeting_id m = mid) (meetings w)")
  case None
  then show ?thesis by (simp add: set_status_absent)
next
  case (Some m0)
  have f: "find (\<lambda>m. meeting_id m = mid) (set_status mid s (meetings w)) = Some (m0\<lparr>status := s\<rparr>)"
    by (rule find_set_status[OF Some])
  show ?thesis
    using assms Some f
    by (simp add: updateMeeting_def Let_def emit_def tick_def patch_set_status)
       (simp add: patch_processing_def)
qed

text \<open>The run does not depend on the status the meeting had.\<close>

lemma run_ignores_status:
  assumes "store_fault en (ops w) = None"
  shows "processRecordingUrgently en mid url sid (w\<lparr>meetings := set_status mid s (meetings w)\<rparr>)
         = processRecordingUrgently en mid url sid w"
proof -
  let ?w0 = "emit (MeetingEvent mid ''urgent_processing_started'') w"
  have e: "emit (MeetingEvent mid ''urgent_processing_started'')
             (w\<lparr>meetings := set_status mid s (meetings w)\<rparr>)
           = ?w0\<lparr>meetings := set_status mid s (meetings ?w0)\<rparr>"
    by (simp add: emit_def)
  have o: "store_fault en (ops ?w0) = None" using assms by (simp add: emit_def)
  have n: "now (?w0\<lparr>meetings := set_status mid s (meetings ?w0)\<rparr>) = now ?w0" by simp
  have "processRecordingUrgently_try en mid url sid (w\<lparr>meetings := set_status mid s (meetings w)\<rparr>)
          = processRecordingUrgently_try en mid url sid w"
    unfolding processRecordingUrgently_try_def Let_def e n
      updateMeeting_overwrites_status[OF o] ..
  then show ?thesis by (simp add: processRecordingUrgently_def)
qed

text \<open>The first thing the run does to the tables is the write of \<open>processing\<close>.\<close>

lemma run_first_write:
  assumes s0: "store_fault en (ops w) = None"
    and ex: "find (\<lambda>m. meeting_id m = mid) (meetings w) \<noteq> None"
  shows "processRecordingUrgently_try en mid url sid w
          = pipeline_from_read en mid url sid
              (w\<lparr>meetings :=
                    map (\<lambda>x. if meeting_id x = mid
                              then x\<lparr>status := Processing, recording_s3_url := url,
                                     processing_started_at := Some (now w),
                                     updated_at := now w\<rparr>
                              else x) (meetings w),
                  trace := trace w @ [MeetingEvent mid ''urgent_processing_started'',
                                      StoreCall (UpdateMeeting mid Processing) True],
                  now := now w + latency en (ops w), ops := Suc (ops w)\<rparr>)"
proof -
  let ?w0 = "emit (MeetingEvent mid ''urgent_processing_started'') w"
  from ex obtain m0 where f: "find (\<lambda>m. meeting_id m = mid) (meetings ?w0) = Some m0"
    by (auto simp: emit_def)
  have o: "store_fault en (ops ?w0) = None" using s0 by (simp add: emit_def)
  have same: "(\<lambda>x. if meeting_id x = mid
                   then (patch_processing url (now ?w0) x)\<lparr>updated_at := now ?w0\<rparr> else x)
            = (\<lambda>x. if meeting_id x = mid
                     then x\<lparr>status := Processing, recording_s3_url := url,
                            processing_started_at := Some (now w), updated_at := now w\<rparr>
                     else x)"
    by (rule ext) (simp add: emit_def patch_processing_def)
  have eq: "?w0\<lparr>meetings :=
                  map (\<lambda>x. if meeting_id x = mid
                            then (patch_processing url (now ?w0) x)\<lparr>updated_at := now ?w0\<rparr>
                            else x) (meetings ?w0),
                trace := trace ?w0 @ [StoreCall (UpdateMeeting mid Processing) True],
                now := now ?w0 + latency en (ops ?w0), ops := Suc (ops ?w0)\<rparr>
            = w\<lparr>meetings :=
                    map (\<lambda>x. if meeting_id x = mid
                              then x\<lparr>status := Processing, recording_s3_url := url,
                                     processing_started_at := Some (now w),
                                     updated_at := now w\<rparr>
                              else x) (meetings w),
                  trace := trace w @ [MeetingEvent mid ''urgent_processing_started'',
                                      StoreCall (UpdateMeeting mid Processing) True],
                  now := now w + latency en (ops w), ops := Suc (ops w)\<rparr>"
    unfolding same by (simp add: emit_def)
  show ?thesis
    unfolding processRecordingUrgently_try_def Let_def
      updateMeeting_ok[OF o f, of Processing "patch_processing url (now ?w0)"] eq
    by simp
qed

text \<open>The webhook starts the run for the meeting of the session, whatever its status.\<close>

lemma webhook_starts_run:
  assumes s0: "store_fault en (ops w) = None"
    and one: "filter (\<lambda>x. chatterbox_session_id x = Some sid) (meetings w) = [m]"
  shows "handleFinishedWebhook en sid hookUrl w
          = (200,
             fire_and_forget ''URGENT: Recording processing failed within 5-minute window''
               (processRecordingUrgently en (meeting_id m) (nonempty hookUrl) sid)
               (w\<lparr>trace := trace w @ [StoreCall (GetMeetingBySessionId sid) True,
                                       MeetingEvent (meeting_id m) ''recording_finished''],
                   now := now w + latency en (ops w), ops := Suc (ops w)\<rparr>))"
proof -
  have eq: "emit (MeetingEvent (meeting_id m) ''recording_finished'')
              (emit (StoreCall (GetMeetingBySessionId sid) True) (tick en w))
            = w\<lparr>trace := trace w @ [StoreCall (GetMeetingBySessionId sid) True,
                                    MeetingEvent (meeting_id m) ''recording_finished''],
                now := now w + latency en (ops w), ops := Suc (ops w)\<rparr>"
    by (simp add: emit_def tick_def)
  have "handleFinishedWebhook en sid hookUrl w
          = (200,
             fire_and_forget ''URGENT: Recording processing failed within 5-minute window''
               (processRecordingUrgently en (meeting_id m) (nonempty hookUrl) sid)
               (emit (MeetingEvent (meeting_id m) ''recording_finished'')
                  (emit (StoreCall (GetMeetingBySessionId sid) True) (tick en w))))"
    using s0 one by (simp add: handleFinishedWebhook_def getMeetingBySessionId_def Let_def)
  then show ?thesis unfolding eq .
qed

lemma webhook_ignores_status:
  assumes s0: "store_fault en (ops w) = None" and s1: "store_fault en (Suc (ops w)) = None"
    and one: "filter (\<lambda>x. chatterbox_session_id x = Some sid) (meetings w) = [m]"
  shows "handleFinishedWebhook en sid hookUrl
           (w\<lparr>meetings := set_status (meeting_id m) s (meetings w)\<rparr>)
         = handleFinishedWebhook en sid hookUrl w"
proof -
  let ?w' = "w\<lparr>meetings := set_status (meeting_id m) s (meetings w)\<rparr>"
  let ?v = "w\<lparr>trace := trace w @ [StoreCall (GetMeetingBySessionId sid) True,
                                  MeetingEvent (meeting_id m) ''recording_finished''],
              now := now w + latency en (ops w), ops := Suc (ops w)\<rparr>"
  have one': "filter (\<lambda>x. chatterbox_session_id x = Some sid) (meetings ?w') = [m\<lparr>status := s\<rparr>]"
    by (simp add: filter_set_status one) (simp add: set_status_def)
  have s0': "store_fault en (ops ?w') = None" using s0 by simp
  have v: "?w'\<lparr>trace := trace ?w' @ [StoreCall (GetMeetingBySessionId sid) True,
                     MeetingEvent (meeting_id (m\<lparr>status := s\<rparr>)) ''recording_finished''],
               now := now ?w' + latency en (ops ?w'), ops := Suc (ops ?w')\<rparr>
           = ?v\<lparr>meetings := set_status (meeting_id m) s (meetings ?v)\<rparr>"
    by simp
  have sv: "store_fault en (ops ?v) = None" using s1 by simp
  have "handleFinishedWebhook en sid hookUrl ?w'
          = (200,
             fire_and_forget ''URGENT: Recording processing failed within 5-minute window''
               (processRecordingUrgently en (meeting_id m) (nonempty hookUrl) sid)
               (?v\<lparr>meetings := set_status (meeting_id m) s (meetings ?v)\<rparr>))"
    unfolding webhook_starts_run[OF s0' one'] v by simp
  also have "\<dots> = (200,
             fire_and_forget ''URGENT: Recording processing failed within 5-minute window''
               (processRecordingUrgently en (meeting_id m) (nonempty hookUrl) sid) ?v)"
    unfolding fire_and_forget_def run_ignores_status[OF sv] ..
  also have "\<dots> = handleFinishedWebhook en sid hookUrl w"
    unfolding webhook_starts_run[OF s0 one] ..
  finally show ?thesis .
qed

text \<open>
  C1, as the code has it. Neither trigger reads the status of the meeting before the
  run. Whenever the store accepts its first call: (1) the direct call runs the same
  (same result, same final tables, same effects in the same order) whatever status the
  meeting had before; (2) for a meeting that exists, the first thing the run does is
  write status \<open>processing\<close>, the recording URL it was given and the processing-start
  time over the row, and the rest of the pipeline runs from there; (3) the webhook, for
  a session that belongs to one meeting, answers 200 and starts that run with the
  meeting's id, and it too runs the same whatever status the meeting had. A trigger for
  a meeting that is already processing, completed or failed therefore runs the pipeline
  again exactly as the first trigger for a recording meeting does.
\<close>

theorem duplicate_trigger_reprocesses:
  assumes "store_fault en (ops w) = None"
  shows "processRecordingUrgently en mid url sid (w\<lparr>meetings := set_status mid s (meetings w)\<rparr>)
           = processRecordingUrgently en mid url sid w
    \<and> (find (\<lambda>m. meeting_id m = mid) (meetings w) \<noteq> None \<longrightarrow>
         processRecordingUrgently_try en mid url sid w
           = pipeline_from_read en mid url sid
               (w\<lparr>meetings :=
                     map (\<lambda>x. if meeting_id x = mid
                               then x\<lparr>status := Processing, recording_s3_url := url,
                                      processing_started_at := Some (now w),
                                      updated_at := now w\<rparr>
                               else x) (meetings w),
                   trace := trace w @ [MeetingEvent mid ''urgent_processing_started'',
                                       StoreCall (UpdateMeeting mid Processing) True],
                   now := now w + latency en (ops w), ops := Suc (ops w)\<rparr>))
    \<and> (\<forall>m. filter (\<lambda>x. chatterbox_session_id x = Some sid) (meetings w) = [m] \<longrightarrow>
         handleFinishedWebhook en sid hookUrl w
           = (200,
              fire_and_forget ''URGENT: Recording processing failed within 5-minute window''
                (processRecordingUrgently en (meeting_id m) (nonempty hookUrl) sid)
                (w\<lparr>trace := trace w @ [StoreCall (GetMeetingBySessionId sid) True,
                                        MeetingEvent (meeting_id m) ''recording_finished''],
                    now := now w + latency en (ops w), ops := Suc (ops w)\<rparr>))
         \<and> (store_fault en (Suc (ops w)) = None \<longrightarrow>
               handleFinishedWebhook en sid hookUrl
                 (w\<lparr>meetings := set_status (meeting_id m) s (meetings w)\<rparr>)
               = handleFinishedWebhook en sid hookUrl w))"
  using run_ignores_status[OF assms, of mid url sid s]
    run_first_write[OF assms, of mid url sid]
    webhook_starts_run[OF assms, of sid _ hookUrl]
    webhook_ignores_status[OF assms, of sid _ hookUrl s]
  by (intro conjI impI allI) assumption+

text \<open>
  On the concrete system, for the meeting m1 of session s1 taken as completed: the
  direct call and the webhook run as they do for the meeting while it is recording,
  and the run starts from the row overwritten with \<open>processing\<close>.
\<close>

theorem duplicate_trigger_reprocesses_witness:
  "store_fault quiet_env (ops demo_world) = None
   \<and> store_fault quiet_env (Suc (ops demo_world)) = None
   \<and> find (\<lambda>m. meeting_id m = ''m1'') (meetings demo_world) \<noteq> None
   \<and> filter (\<lambda>x. chatterbox_session_id x = Some ''s1'') (meetings demo_world) = [demo_meeting]
   \<and> map status (set_status ''m1'' Completed (meetings demo_world)) = [Completed]
   \<and> processRecordingUrgently quiet_env ''m1'' (Some ''https://rec/1.mkv'') ''s1''
         (demo_world\<lparr>meetings := set_status ''m1'' Completed (meetings demo_world)\<rparr>)
       = processRecordingUrgently quiet_env ''m1'' (Some ''https://rec/1.mkv'') ''s1'' demo_world
   \<and> processRecordingUrgently_try quiet_env ''m1'' (Some ''https://rec/1.mkv'') ''s1'' demo_world
       = pipeline_from_read quiet_env ''m1'' (Some ''https://rec/1.mkv'') ''s1''
           (demo_world\<lparr>meetings :=
                 map (\<lambda>x. if meeting_id x = ''m1''
                           then x\<lparr>status := Processing,
                                  recording_s3_url := Some ''https://rec/1.mkv'',
                                  processing_started_at := Some (now demo_world),
                                  updated_at := now demo_world\<rparr>
                           else x) (meetings demo_world),
               trace := trace demo_world @ [MeetingEvent ''m1'' ''urgent_processing_started'',
                                            StoreCall (UpdateMeeting ''m1'' Processing) True],
               now := now demo_world + latency quiet_env (ops demo_world),
               ops := Suc (ops demo_world)\<rparr>)
   \<and> fst (handleFinishedWebhook quiet_env ''s1'' (Some ''https://rec/1.mkv'') demo_world) = 200
   \<and> handleFinishedWebhook quiet_env ''s1'' (Some ''https://rec/1.mkv'')
         (demo_world\<lparr>meetings := set_status (meeting_id demo_meeting) Completed
                                     (meetings demo_world)\<rparr>)
       = handleFinishedWebhook quiet_env ''s1'' (Some ''https://rec/1.mkv'') demo_world"
proof -
  have h: "store_fault quiet_env (ops demo_world) = None"
    and h1: "store_fault quiet_env (Suc (ops demo_world)) = None"
    by (simp_all add: quiet_env_def)
  have ex: "find (\<lambda>m. meeting_id m = ''m1'') (meetings demo_world) \<noteq> None"
    and one: "filter (\<lambda>x. chatterbox_session_id x = Some ''s1'') (meetings demo_world)
                = [demo_meeting]"
    and c: "map status (set_status ''m1'' Completed (meetings demo_world)) = [Completed]"
    by (simp_all add: set_status_def demo_world_def demo_meeting_def)
  note T = duplicate_trigger_reprocesses[OF h, of "''m1''" "Some ''https://rec/1.mkv''" "''s1''"
      Completed "Some ''https://rec/1.mkv''"]
  have a: "processRecordingUrgently quiet_env ''m1'' (Some ''https://rec/1.mkv'') ''s1''
         (demo_world\<lparr>meetings := set_status ''m1'' Completed (meetings demo_world)\<rparr>)
       = processRecordingUrgently quiet_env ''m1'' (Some ''https://rec/1.mkv'') ''s1'' demo_world"
    by (rule T[THEN conjunct1])
  have b: "processRecordingUrgently_try quiet_env ''m1'' (Some ''https://rec/1.mkv'') ''s1''
             demo_world
       = pipeline_from_read quiet_env ''m1'' (Some ''https://rec/1.mkv'') ''s1''
           (demo_world\<lparr>meetings :=
                 map (\<lambda>x. if meeting_id x = ''m1''
                           then x\<lparr>status := Processing,
                                  recording_s3_url := Some ''https://rec/1.mkv'',
                                  processing_started_at := Some (now demo_world),
                                  updated_at := now demo_world\<rparr>
                           else x) (meetings demo_world),
               trace := trace demo_world @ [MeetingEvent ''m1'' ''urgent_processing_started'',
                                            StoreCall (UpdateMeeting ''m1'' Processing) True],
               now := now demo_world + latency quiet_env (ops demo_world),
               ops := Suc (ops demo_world)\<rparr>)"
    by (rule T[THEN conjunct2, THEN conjunct1, rule_format, OF ex])
  note W = T[THEN conjunct2, THEN conjunct2, rule_format, OF one]
  have d: "fst (handleFinishedWebhook quiet_env ''s1'' (Some ''https://rec/1.mkv'') demo_world)
             = 200"
    unfolding W[THEN conjunct1] by simp
  have e: "handleFinishedWebhook quiet_env ''s1'' (Some ''https://rec/1.mkv'')
         (demo_world\<lparr>meetings := set_status (meeting_id demo_meeting) Completed
                                     (meetings demo_world)\<rparr>)
       = handleFinishedWebhook quiet_env ''s1'' (Some ''https://rec/1.mkv'') demo_world"
    by (rule W[THEN conjunct2, rule_format, OF h1])
  show ?thesis
    by (intro conjI h h1 ex one c a b d e)
qed

text \<open>
  C1 as stated fails. The meeting of \<open>done_world\<close> is completed and its recording is
  file f0. A second \<open>finished\<close> webhook for it is answered 200 and runs the whole
  pipeline again: five step rows are written, the recording is transferred once more
  and the stored file becomes f1, with a new completion time. Called directly while the
  source answers 403, \<open>processRecordingUrgently\<close> returns the transfer error and leaves
  the completed meeting failed.
\<close>

lemma duplicate_webhook_run:
  "(let R = handleFinishedWebhook quiet_env ''s1'' (Some ''https://rec/1.mkv'') done_world
    in fst R = 200
       \<and> map google_drive_recording_id (meetings (snd R)) = [Some ''f1'']
       \<and> map processing_completed_at (meetings (snd R)) = [Some 5000]
       \<and> length (processing_logs (snd R)) = 5
       \<and> count_list (trace (snd R)) (TransferCall ''https://rec/1.mkv'' ''Weekly sync'') = 1)"
  by (simp add: store_defs step_defs pipeline_defs demo_defs handleFinishedWebhook_def
      cong: weak_congs)

lemma duplicate_direct_run:
  "(let R = processRecordingUrgently expired_env ''m1'' (Some ''https://rec/1.mkv'') ''s1''
              done_world
    in fst R = Inl (expired_error 403) \<and> map status (meetings (snd R)) = [Failed])"
  by (simp add: store_defs step_defs pipeline_defs demo_defs stream_error_def expired_error_def
      cong: weak_congs)

theorem duplicate_finished_counterexample:
  "map status (meetings done_world) = [Completed]
   \<and> map google_drive_recording_id (meetings done_world) = [Some ''f0'']
   \<and> map processing_completed_at (meetings done_world) = [Some 4000]
   \<and> processing_logs done_world = []
   \<and> fst (handleFinishedWebhook quiet_env ''s1'' (Some ''https://rec/1.mkv'') done_world) = 200
   \<and> map google_drive_recording_id
        (meetings (snd (handleFinishedWebhook quiet_env ''s1'' (Some ''https://rec/1.mkv'')
           done_world))) = [Some ''f1'']
   \<and> map processing_completed_at
        (meetings (snd (handleFinishedWebhook quiet_env ''s1'' (Some ''https://rec/1.mkv'')
           done_world))) = [Some 5000]
   \<and> length (processing_logs (snd (handleFinishedWebhook quiet_env ''s1''
        (Some ''https://rec/1.mkv'') done_world))) = 5
   \<and> count_list (trace (snd (handleFinishedWebhook quiet_env ''s1''
        (Some ''https://rec/1.mkv'') done_world)))
        (TransferCall ''https://rec/1.mkv'' ''Weekly sync'') = 1
   \<and> fst (processRecordingUrgently expired_env ''m1'' (Some ''https://rec/1.mkv'') ''s1''
        done_world) = Inl (expired_error 403)
   \<and> map status (meetings (snd (processRecordingUrgently expired_env ''m1''
        (Some ''https://rec/1.mkv'') ''s1'' done_world))) = [Failed]"
proof -
  have "map status (meetings done_world) = [Completed]"
    and "map google_drive_recording_id (meetings done_world) = [Some ''f0'']"
    and "map processing_completed_at (meetings done_world) = [Some 4000]"
    and "processing_logs done_world = []"
    by (simp_all add: done_world_def demo_world_def demo_meeting_def)
  then show ?thesis
    using duplicate_webhook_run duplicate_direct_run by (simp only: Let_def)
qed

section \<open>Retry entry point\<close>

lemma find_map_same_key:
  assumes "find (\<lambda>m. meeting_id m = mid) ms = Some m0"
    and "\<And>x. meeting_id (g x) = meeting_id x"
  shows "find (\<lambda>m. meeting_id m = mid) (map (\<lambda>x. if meeting_id x = mid then g x else x) ms)
           = Some (g m0)"
  using assms(1) by (induction ms) (auto simp: assms(2) split: if_splits)

lemma retry_rejected:
  assumes "store_fault en (ops w) = None"
    and "find (\<lambda>x. meeting_id x = mid) (meetings w) = Some m"
    and "status m = Completed \<or> status m = Processing"
  shows "retryMeetingProcessing en mid w
           = (400, emit (StoreCall (GetMeetingById mid) True) (tick en w))"
  using assms by (auto simp: retryMeetingProcessing_def getMeetingById_def Let_def)

lemma retry_accepted_only:
  assumes "fst (retryMeetingProcessing en mid w) = 200"
  shows "\<exists>m. find (\<lambda>x. meeting_id x = mid) (meetings w) = Some m
             \<and> status m \<noteq> Completed \<and> status m \<noteq> Processing
             \<and> nonempty (chatterbox_session_id m) \<noteq> None"
  using assms
  by (auto simp: retryMeetingProcessing_def getMeetingById_def Let_def
      split: option.splits if_splits)

lemma updateMeeting_ok_facts:
  assumes s0: "store_fault en (ops w) = None"
    and f: "find (\<lambda>x. meeting_id x = mid) (meetings w) = Some m0"
    and k: "\<And>x. meeting_id (patch x) = meeting_id x"
  shows "\<exists>r w1. updateMeeting en mid st patch w = (Inr r, w1)
          \<and> ops w1 = Suc (ops w)
          \<and> processing_logs w1 = processing_logs w
          \<and> trace w1 = trace w @ [StoreCall (UpdateMeeting mid st) True]
          \<and> find (\<lambda>x. meeting_id x = mid) (meetings w1) \<noteq> None"
proof -
  let ?g = "\<lambda>x. (patch x)\<lparr>updated_at := now w\<rparr>"
  have k': "\<And>x. meeting_id (?g x) = meeting_id x" by (simp add: k)
  have fm: "find (\<lambda>x. meeting_id x = mid)
          (map (\<lambda>x. if meeting_id x = mid then ?g x else x) (meetings w)) = Some (?g m0)"
    by (rule find_map_same_key[OF f k'])
  show ?thesis
    unfolding updateMeeting_ok[OF s0 f] using fm by simp
qed

lemma retry_no_locator:
  assumes s0: "store_fault en (ops w) = None"
    and f: "find (\<lambda>x. meeting_id x = mid) (meetings w) = Some m0"
    and nl: "case session_data en (Suc (ops w)) sid of
               Inl e \<Rightarrow> True | Inr sd \<Rightarrow> nonempty (recordingLink sd) = None"
  shows "isl (fst (retryProcessing en mid sid w))
    \<and> processing_logs (snd (retryProcessing en mid sid w)) = processing_logs w
    \<and> trace (snd (retryProcessing en mid sid w))
        = trace w @ [MeetingEvent mid ''retry_processing_started'',
                     StoreCall (UpdateMeeting mid Processing) True,
                     ProviderCall sid,
                     LogError ''Retry processing failed''
                       (case session_data en (Suc (ops w)) sid of
                          Inl e \<Rightarrow> message e
                        | Inr sd \<Rightarrow> ''No recording URL available for retry''),
                     StoreCall (UpdateMeeting mid Failed)
                       (store_fault en (Suc (Suc (ops w))) = None)]"
proof -
  define w0 where "w0 = emit (MeetingEvent mid ''retry_processing_started'') w"
  have s0': "store_fault en (ops w0) = None" and f': "find (\<lambda>x. meeting_id x = mid) (meetings w0) = Some m0"
    using s0 f by (simp_all add: w0_def emit_def)
  have k: "\<And>x. meeting_id (patch_retry (now w0) x) = meeting_id x" by (simp add: patch_retry_def)
  from updateMeeting_ok_facts[OF s0' f' k, of Processing]
  obtain r w1 where u: "updateMeeting en mid Processing (patch_retry (now w0)) w0 = (Inr r, w1)"
    and w1: "ops w1 = Suc (ops w)" "processing_logs w1 = processing_logs w"
      "trace w1 = trace w @ [MeetingEvent mid ''retry_processing_started'',
                             StoreCall (UpdateMeeting mid Processing) True]"
    and f1: "find (\<lambda>x. meeting_id x = mid) (meetings w1) \<noteq> None"
    by (auto simp: w0_def emit_def)
  define msg where "msg = (case session_data en (Suc (ops w)) sid of
                          Inl e \<Rightarrow> message e
                        | Inr sd \<Rightarrow> ''No recording URL available for retry'')"
  define w2 where "w2 = emit (ProviderCall sid) (tick en w1)"
  have t: "\<exists>e. retryProcessing_try en mid sid w = (Inl e, w2) \<and> message e = msg"
    using nl u w1
    by (auto simp: retryProcessing_try_def Let_def w0_def[symmetric] getSessionData_def w2_def
        msg_def new_Error_def split: sum.splits option.splits)
  then obtain e where te: "retryProcessing_try en mid sid w = (Inl e, w2)" and me: "message e = msg"
    by blast
  define w3 where "w3 = emit (LogError ''Retry processing failed'' msg) w2"
  have w3: "ops w3 = Suc (Suc (ops w))" "processing_logs w3 = processing_logs w"
    "trace w3 = trace w @ [MeetingEvent mid ''retry_processing_started'',
                           StoreCall (UpdateMeeting mid Processing) True,
                           ProviderCall sid, LogError ''Retry processing failed'' msg]"
    "find (\<lambda>x. meeting_id x = mid) (meetings w3) \<noteq> None"
    using w1 f1 by (simp_all add: w3_def w2_def emit_def tick_def)
  have res: "retryProcessing en mid sid w
       = (case updateMeeting en mid Failed patch_status_failed w3 of
             (Inl dbError, w4) \<Rightarrow> (Inl dbError, w4)
           | (Inr u, w4) \<Rightarrow> (Inl e, w4))"
    by (simp add: retryProcessing_def te me w3_def)
  show ?thesis
  proof (cases "store_fault en (Suc (Suc (ops w)))")
    case (Some d)
    then have "store_fault en (ops w3) = Some d" using w3 by simp
    from updateMeeting_fault[OF this, of mid Failed patch_status_failed]
    show ?thesis unfolding res using w3 Some by (simp add: msg_def)
  next
    case None
    then have s3: "store_fault en (ops w3) = None" using w3 by simp
    from w3(4) obtain m3 where f3: "find (\<lambda>x. meeting_id x = mid) (meetings w3) = Some m3"
      by blast
    have k3: "\<And>x. meeting_id (patch_status_failed x) = meeting_id x"
      by (simp add: patch_status_failed_def)
    from updateMeeting_ok_facts[OF s3 f3 k3, of Failed]
    show ?thesis unfolding res using w3 None by (auto simp: msg_def)
  qed
qed

lemma retry_with_locator:
  assumes s0: "store_fault en (ops w) = None"
    and f: "find (\<lambda>x. meeting_id x = mid) (meetings w) = Some m0"
    and sd: "session_data en (Suc (ops w)) sid = Inr sd"
    and l: "nonempty (recordingLink sd) = Some link"
  shows "\<exists>w3. retryProcessing_try en mid sid w
                = processRecordingUrgently en mid (Some link) sid w3
          \<and> processing_logs w3 = processing_logs w
          \<and> trace w3 = trace w @ [MeetingEvent mid ''retry_processing_started'',
                                   StoreCall (UpdateMeeting mid Processing) True,
                                   ProviderCall sid,
                                   LogWarn ''URL validation is deprecated - always returning true'',
                                   LogInfo ''Recording URL validation result'']"
proof -
  define w0 where "w0 = emit (MeetingEvent mid ''retry_processing_started'') w"
  have s0': "store_fault en (ops w0) = None" and f': "find (\<lambda>x. meeting_id x = mid) (meetings w0) = Some m0"
    using s0 f by (simp_all add: w0_def emit_def)
  have k: "\<And>x. meeting_id (patch_retry (now w0) x) = meeting_id x" by (simp add: patch_retry_def)
  from updateMeeting_ok_facts[OF s0' f' k, of Processing]
  obtain r w1 where u: "updateMeeting en mid Processing (patch_retry (now w0)) w0 = (Inr r, w1)"
    and w1: "ops w1 = Suc (ops w)" "processing_logs w1 = processing_logs w"
      "trace w1 = trace w @ [MeetingEvent mid ''retry_processing_started'',
                             StoreCall (UpdateMeeting mid Processing) True]"
    by (auto simp: w0_def emit_def)
  define w3 where "w3 = emit (LogInfo ''Recording URL validation result'')
     (emit (LogWarn ''URL validation is deprecated - always returning true'')
        (emit (ProviderCall sid) (tick en w1)))"
  have "retryProcessing_try en mid sid w = processRecordingUrgently en mid (Some link) sid w3"
    using u w1 sd l
    by (simp add: retryProcessing_try_def Let_def w0_def[symmetric] getSessionData_def
        isRecordingUrlValid_def config_isRecordingUrlValid_def w3_def)
  moreover have "processing_logs w3 = processing_logs w"
    using w1 by (simp add: w3_def emit_def tick_def)
  moreover have "trace w3 = trace w @ [MeetingEvent mid ''retry_processing_started'',
                                   StoreCall (UpdateMeeting mid Processing) True,
                                   ProviderCall sid,
                                   LogWarn ''URL validation is deprecated - always returning true'',
                                   LogInfo ''Recording URL validation result'']"
    using w1 by (simp add: w3_def emit_def tick_def)
  ultimately show ?thesis by blast
qed


text \<open>
  C7. The retry request (\<open>retryMeetingProcessing\<close>) for a meeting that is completed or
  being processed is answered 400 and nothing but the read of the meeting happens: the
  tables are as before. A request answered 200 is for a meeting that is neither, and
  it starts \<open>retryProcessing\<close>. When the store accepts its first write,
  \<open>retryProcessing\<close> asks the provider for the session; if the provider fails or has no
  usable recording link, the retry fails without running the pipeline (the effects are
  the five listed, no step row is written); with a usable link it continues as
  \<open>processRecordingUrgently\<close> with that link.
\<close>

theorem retry_entry_point:
  "(store_fault en (ops w) = None
      \<and> find (\<lambda>x. meeting_id x = mid) (meetings w) = Some m
      \<and> (status m = Completed \<or> status m = Processing)
    \<longrightarrow> fst (retryMeetingProcessing en mid w) = 400
        \<and> meetings (snd (retryMeetingProcessing en mid w)) = meetings w
        \<and> processing_logs (snd (retryMeetingProcessing en mid w)) = processing_logs w
        \<and> trace (snd (retryMeetingProcessing en mid w))
            = trace w @ [StoreCall (GetMeetingById mid) True])
   \<and> (fst (retryMeetingProcessing en mid w) = 200
    \<longrightarrow> (\<exists>m'. find (\<lambda>x. meeting_id x = mid) (meetings w) = Some m'
               \<and> status m' \<noteq> Completed \<and> status m' \<noteq> Processing
               \<and> nonempty (chatterbox_session_id m') \<noteq> None))
   \<and> (store_fault en (ops w) = None
      \<and> find (\<lambda>x. meeting_id x = mid) (meetings w) = Some m
      \<and> status m \<noteq> Completed \<and> status m \<noteq> Processing
      \<and> nonempty (chatterbox_session_id m) = Some sid
    \<longrightarrow> retryMeetingProcessing en mid w
          = (200, fire_and_forget ''Retry processing failed'' (retryProcessing en mid sid)
                    (emit (MeetingEvent mid ''retry_requested'')
                       (emit (StoreCall (GetMeetingById mid) True) (tick en w)))))
   \<and> (store_fault en (ops w) = None
      \<and> find (\<lambda>x. meeting_id x = mid) (meetings w) = Some m
      \<and> (case session_data en (Suc (ops w)) sid of
             Inl e \<Rightarrow> True | Inr sd \<Rightarrow> nonempty (recordingLink sd) = None)
    \<longrightarrow> isl (fst (retryProcessing en mid sid w))
        \<and> processing_logs (snd (retryProcessing en mid sid w)) = processing_logs w
        \<and> trace (snd (retryProcessing en mid sid w))
            = trace w @ [MeetingEvent mid ''retry_processing_started'',
                         StoreCall (UpdateMeeting mid Processing) True,
                         ProviderCall sid,
                         LogError ''Retry processing failed''
                           (case session_data en (Suc (ops w)) sid of
                              Inl e \<Rightarrow> message e
                            | Inr sd \<Rightarrow> ''No recording URL available for retry''),
                         StoreCall (UpdateMeeting mid Failed)
                           (store_fault en (Suc (Suc (ops w))) = None)])
   \<and> (store_fault en (ops w) = None
      \<and> find (\<lambda>x. meeting_id x = mid) (meetings w) = Some m
      \<and> session_data en (Suc (ops w)) sid = Inr sd
      \<and> nonempty (recordingLink sd) = Some link
    \<longrightarrow> (\<exists>w3. retryProcessing_try en mid sid w
                  = processRecordingUrgently en mid (Some link) sid w3
              \<and> processing_logs w3 = processing_logs w
              \<and> trace w3 = trace w @ [MeetingEvent mid ''retry_processing_started'',
                         StoreCall (UpdateMeeting mid Processing) True,
                         ProviderCall sid,
                         LogWarn ''URL validation is deprecated - always returning true'',
                         LogInfo ''Recording URL validation result'']))"
proof (intro conjI impI)
  assume a: "store_fault en (ops w) = None
      \<and> find (\<lambda>x. meeting_id x = mid) (meetings w) = Some m
      \<and> (status m = Completed \<or> status m = Processing)"
  then have r: "retryMeetingProcessing en mid w
                  = (400, emit (StoreCall (GetMeetingById mid) True) (tick en w))"
    using retry_rejected[of en w mid m] by blast
  show "fst (retryMeetingProcessing en mid w) = 400" by (simp add: r)
  show "meetings (snd (retryMeetingProcessing en mid w)) = meetings w"
    by (simp add: r emit_def tick_def)
  show "processing_logs (snd (retryMeetingProcessing en mid w)) = processing_logs w"
    by (simp add: r emit_def tick_def)
  show "trace (snd (retryMeetingProcessing en mid w))
            = trace w @ [StoreCall (GetMeetingById mid) True]"
    by (simp add: r emit_def tick_def)
next
  assume "fst (retryMeetingProcessing en mid w) = 200"
  then show "\<exists>m'. find (\<lambda>x. meeting_id x = mid) (meetings w) = Some m'
               \<and> status m' \<noteq> Completed \<and> status m' \<noteq> Processing
               \<and> nonempty (chatterbox_session_id m') \<noteq> None"
    by (rule retry_accepted_only)
next
  assume "store_fault en (ops w) = None
      \<and> find (\<lambda>x. meeting_id x = mid) (meetings w) = Some m
      \<and> status m \<noteq> Completed \<and> status m \<noteq> Processing
      \<and> nonempty (chatterbox_session_id m) = Some sid"
  then show "retryMeetingProcessing en mid w
          = (200, fire_and_forget ''Retry processing failed'' (retryProcessing en mid sid)
                    (emit (MeetingEvent mid ''retry_requested'')
                       (emit (StoreCall (GetMeetingById mid) True) (tick en w))))"
    by (simp add: retryMeetingProcessing_def getMeetingById_def Let_def)
next
  assume a: "store_fault en (ops w) = None
      \<and> find (\<lambda>x. meeting_id x = mid) (meetings w) = Some m
      \<and> (case session_data en (Suc (ops w)) sid of
             Inl e \<Rightarrow> True | Inr sd \<Rightarrow> nonempty (recordingLink sd) = None)"
  from a have s0: "store_fault en (ops w) = None"
    and f: "find (\<lambda>x. meeting_id x = mid) (meetings w) = Some m"
    and nl: "case session_data en (Suc (ops w)) sid of
             Inl e \<Rightarrow> True | Inr sd \<Rightarrow> nonempty (recordingLink sd) = None"
    by blast+
  note n = retry_no_locator[OF s0 f nl]
  from n show "isl (fst (retryProcessing en mid sid w))" by blast
  from n show "processing_logs (snd (retryProcessing en mid sid w)) = processing_logs w"
    by blast
  from n show "trace (snd (retryProcessing en mid sid w))
            = trace w @ [MeetingEvent mid ''retry_processing_started'',
                         StoreCall (UpdateMeeting mid Processing) True,
                         ProviderCall sid,
                         LogError ''Retry processing failed''
                           (case session_data en (Suc (ops w)) sid of
                              Inl e \<Rightarrow> message e
                            | Inr sd \<Rightarrow> ''No recording URL available for retry''),
                         StoreCall (UpdateMeeting mid Failed)
                           (store_fault en (Suc (Suc (ops w))) = None)]"
    by blast
next
  assume a: "store_fault en (ops w) = None
      \<and> find (\<lambda>x. meeting_id x = mid) (meetings w) = Some m
      \<and> session_data en (Suc (ops w)) sid = Inr sd
      \<and> nonempty (recordingLink sd) = Some link"
  then show "\<exists>w3. retryProcessing_try en mid sid w
                  = processRecordingUrgently en mid (Some link) sid w3
              \<and> processing_logs w3 = processing_logs w
              \<and> trace w3 = trace w @ [MeetingEvent mid ''retry_processing_started'',
                         StoreCall (UpdateMeeting mid Processing) True,
                         ProviderCall sid,
                         LogWarn ''URL validation is deprecated - always returning true'',
                         LogInfo ''Recording URL validation result'']"
    using retry_with_locator[of en w mid m sid sd link] by blast
qed

lemma retry_demo_accepted:
  "fst (retryMeetingProcessing quiet_env ''m1'' demo_world) = 200"
  by (simp add: retryMeetingProcessing_def getMeetingById_def emit_def tick_def Let_def
      demo_defs)

theorem retry_entry_point_witness:
  "store_fault quiet_env (ops done_world) = None
   \<and> map status (meetings done_world) = [Completed]
   \<and> fst (retryMeetingProcessing quiet_env ''m1'' done_world) = 400
   \<and> meetings (snd (retryMeetingProcessing quiet_env ''m1'' done_world)) = meetings done_world
   \<and> fst (retryMeetingProcessing quiet_env ''m1'' demo_world) = 200
   \<and> map status (meetings demo_world) = [Recording]
   \<and> isl (fst (retryProcessing no_link_env ''m1'' ''s1'' demo_world))
   \<and> processing_logs (snd (retryProcessing no_link_env ''m1'' ''s1'' demo_world)) = []
   \<and> (\<exists>w3. retryProcessing_try quiet_env ''m1'' ''s1'' demo_world
              = processRecordingUrgently quiet_env ''m1'' (Some ''https://rec/1.mkv'') ''s1'' w3)"
proof -
  let ?done = "demo_meeting\<lparr>status := Completed,
      google_drive_recording_id := Some ''f0'', processing_completed_at := Some 4000\<rparr>"
  have s1: "store_fault quiet_env (ops done_world) = None"
    and s2: "store_fault quiet_env (ops demo_world) = None"
    and s3: "store_fault no_link_env (ops demo_world) = None"
    by (simp_all add: quiet_env_def no_link_env_def)
  have f1: "find (\<lambda>x. meeting_id x = ''m1'') (meetings done_world) = Some ?done"
    and f2: "find (\<lambda>x. meeting_id x = ''m1'') (meetings demo_world) = Some demo_meeting"
    by (simp_all add: done_world_def demo_world_def demo_meeting_def)
  have c1: "status ?done = Completed \<or> status ?done = Processing" by simp
  have m1: "map status (meetings done_world) = [Completed]"
    and m2: "map status (meetings demo_world) = [Recording]"
    and l0: "processing_logs demo_world = []"
    by (simp_all add: done_world_def demo_world_def demo_meeting_def)
  have nl: "case session_data no_link_env (Suc (ops demo_world)) ''s1'' of
              Inl e \<Rightarrow> True | Inr sd \<Rightarrow> nonempty (recordingLink sd) = None"
    by (simp add: no_link_env_def quiet_env_def demo_session_def)
  have sd: "session_data quiet_env (Suc (ops demo_world)) ''s1'' = Inr demo_session"
    and lk: "nonempty (recordingLink demo_session) = Some ''https://rec/1.mkv''"
    by (simp_all add: quiet_env_def demo_session_def)
  from retry_entry_point[where en=quiet_env and w=done_world and mid="''m1''" and m="?done"] s1 f1 c1
  have a: "fst (retryMeetingProcessing quiet_env ''m1'' done_world) = 400"
    and b: "meetings (snd (retryMeetingProcessing quiet_env ''m1'' done_world)) = meetings done_world"
    by blast+
  from retry_entry_point[where en=no_link_env and w=demo_world and mid="''m1''" and m=demo_meeting
      and sid="''s1''"] s3 f2 nl
  have c: "isl (fst (retryProcessing no_link_env ''m1'' ''s1'' demo_world))"
    and d: "processing_logs (snd (retryProcessing no_link_env ''m1'' ''s1'' demo_world))
              = processing_logs demo_world"
    by blast+
  from retry_entry_point[where en=quiet_env and w=demo_world and mid="''m1''" and m=demo_meeting
      and sid="''s1''" and sd=demo_session and link="''https://rec/1.mkv''"] s2 f2 sd lk
  have e: "\<exists>w3. retryProcessing_try quiet_env ''m1'' ''s1'' demo_world
              = processRecordingUrgently quiet_env ''m1'' (Some ''https://rec/1.mkv'') ''s1'' w3"
    by blast
  from s1 m1 a b retry_demo_accepted m2 c d l0 e show ?thesis by simp
qed


section \<open>Reconciliation poller: the ceiling\<close>

lemma orphan_poll:
  "(let R = pollMeetingStatuses quiet_env orphan_world
    in fst R = Inr ()
       \<and> map status (meetings (snd R)) = [BotJoined]
       \<and> trace (snd R)
           = [StoreCall HealthCheck True, StoreCall (GetMeetingsByStatus BotJoined) True,
              StoreCall (GetMeetingsByStatus Recording) True,
              LogInfo ''Polling meeting statuses'',
              LogWarn ''Meeting has no ChatterBox session ID''])"
  by (simp add: poller_defs store_defs demo_defs poll_demo_defs cong: weak_congs)

text \<open>
  The earlier copy of the poller has no ceiling: for the meeting that has been in
  \<open>bot_joined\<close> for 240 minutes it asks the provider and leaves the status as it is.
\<close>

lemma stale_v1:
  "(let R = checkMeetingStatus_v1 no_link_env stale_meeting stale_world
    in fst R = Inr ()
       \<and> map status (meetings (snd R)) = [BotJoined]
       \<and> trace (snd R) = [LogWarn ''Meeting stuck in bot_joined status'', ProviderCall ''s1''])"
  by (simp add: poller_defs store_defs getSessionData_def demo_defs poll_demo_defs
      cong: weak_congs)

lemma stale_now:
  "(let R = checkMeetingStatus no_link_env stale_meeting stale_world
    in map status (meetings (snd R)) = [Failed]
       \<and> map processing_completed_at (meetings (snd R)) = [Some 14400000]
       \<and> trace (snd R)
           = [LogWarn ''Meeting stuck in bot_joined status for too long, marking as failed'',
              StoreCall (UpdateMeeting ''m1'' Failed) True])"
  by (simp add: poller_defs store_defs patch_failed_def demo_defs poll_demo_defs
      cong: weak_congs)

text \<open>
  The copy of the poller with the ceiling, for a meeting in \<open>bot_joined\<close> that has a
  session id and is older than 180 minutes: what the check does, by the answer of the
  store to the write.
\<close>

lemma ceiling_write:
  assumes st: "status m = BotJoined"
    and sid: "nonempty (chatterbox_session_id m) = Some sid"
    and age: "statusAgeMinutes m w > 180"
  shows "fst (checkMeetingStatus en m w) = Inr ()
    \<and> processing_logs (snd (checkMeetingStatus en m w)) = processing_logs w
    \<and> trace (snd (checkMeetingStatus en m w))
        = trace w
          @ [LogWarn ''Meeting stuck in bot_joined status for too long, marking as failed'']
          @ (if store_fault en (ops w) = None
                \<and> find (\<lambda>x. meeting_id x = meeting_id m) (meetings w) \<noteq> None
             then [StoreCall (UpdateMeeting (meeting_id m) Failed) True]
             else [StoreCall (UpdateMeeting (meeting_id m) Failed) False,
                   LogError ''Failed to check meeting status''
                     (case store_fault en (ops w) of
                        Some e \<Rightarrow> message e | None \<Rightarrow> message no_rows_error)])
    \<and> (store_fault en (ops w) = None \<longrightarrow>
          (\<forall>x\<in>set (meetings (snd (checkMeetingStatus en m w))).
              meeting_id x = meeting_id m \<longrightarrow>
                status x = Failed \<and> processing_completed_at x = Some (now w)))"
proof -
  define w0 where "w0 = emit (LogWarn
      ''Meeting stuck in bot_joined status for too long, marking as failed'') w"
  have w0: "ops w0 = ops w" "meetings w0 = meetings w" "now w0 = now w"
    "processing_logs w0 = processing_logs w"
    "trace w0 = trace w @ [LogWarn
      ''Meeting stuck in bot_joined status for too long, marking as failed'']"
    by (simp_all add: w0_def emit_def)
  have body: "checkMeetingStatus_try en m w
      = (case updateMeeting en (meeting_id m) Failed (patch_failed (now w)) w0 of
           (Inl e, w1) \<Rightarrow> (Inl e, w1) | (Inr u, w1) \<Rightarrow> (Inr (), w1))"
    using st sid age by (simp add: checkMeetingStatus_try_def Let_def w0_def)
  show ?thesis
  proof (cases "store_fault en (ops w)")
    case (Some e)
    then have "store_fault en (ops w0) = Some e" using w0 by simp
    from updateMeeting_fault[OF this, of "meeting_id m" Failed "patch_failed (now w)"]
    show ?thesis
      using Some w0 by (simp add: checkMeetingStatus_def body emit_def)
  next
    case None
    then have s0: "store_fault en (ops w0) = None" using w0 by simp
    show ?thesis
    proof (cases "find (\<lambda>x. meeting_id x = meeting_id m) (meetings w)")
      case nf: None
      then have nf0: "find (\<lambda>x. meeting_id x = meeting_id m) (meetings w0) = None"
        using w0 by simp
      have no: "\<forall>x\<in>set (meetings w). meeting_id x \<noteq> meeting_id m"
        using nf by (simp add: find_None_iff)
      from updateMeeting_missing[OF s0 nf0, of Failed "patch_failed (now w)"]
      show ?thesis
        using None nf no w0 by (simp add: checkMeetingStatus_def body emit_def)
    next
      case (Some m0)
      then have f0: "find (\<lambda>x. meeting_id x = meeting_id m) (meetings w0) = Some m0"
        using w0 by simp
      note u = updateMeeting_ok[OF s0 f0, of Failed "patch_failed (now w)"]
      have M: "meetings (snd (checkMeetingStatus en m w))
                 = map (\<lambda>x. if meeting_id x = meeting_id m
                             then (patch_failed (now w) x)\<lparr>updated_at := now w\<rparr> else x)
                     (meetings w)"
        using w0 by (simp add: checkMeetingStatus_def body u)
      have third: "\<forall>x\<in>set (meetings (snd (checkMeetingStatus en m w))).
              meeting_id x = meeting_id m \<longrightarrow>
                status x = Failed \<and> processing_completed_at x = Some (now w)"
        unfolding M using patched_rows_failed by blast
      have first: "fst (checkMeetingStatus en m w) = Inr ()"
        by (simp add: checkMeetingStatus_def body u)
      have logs: "processing_logs (snd (checkMeetingStatus en m w)) = processing_logs w"
        using w0 by (simp add: checkMeetingStatus_def body u)
      have second: "trace (snd (checkMeetingStatus en m w))
        = trace w
          @ [LogWarn ''Meeting stuck in bot_joined status for too long, marking as failed'']
          @ [StoreCall (UpdateMeeting (meeting_id m) Failed) True]"
        using w0 by (simp add: checkMeetingStatus_def body u)
      have cond: "(store_fault en (ops w) = None
                  \<and> find (\<lambda>x. meeting_id x = meeting_id m) (meetings w) \<noteq> None) = True"
        using None Some by simp
      show ?thesis
        unfolding cond if_True by (intro conjI impI first logs second third)
    qed
  qed
qed

text \<open>A meeting without a session id is only logged, by either copy, whatever its age.\<close>

lemma sessionless_check:
  assumes "nonempty (chatterbox_session_id m) = None"
  shows "checkMeetingStatus en m w
           = (Inr (), emit (LogWarn ''Meeting has no ChatterBox session ID'') w)"
    and "checkMeetingStatus_v1 en m w
           = (Inr (), emit (LogWarn ''Meeting has no ChatterBox session ID'') w)"
  using assms
  by (simp_all add: checkMeetingStatus_def checkMeetingStatus_try_def
      checkMeetingStatus_v1_def checkMeetingStatus_v1_try_def)

text \<open>
  The earlier copy, for a meeting in \<open>bot_joined\<close> (older than 10 minutes) or in
  \<open>recording\<close> (older than 30 minutes) that has a session id: it warns and asks the
  provider; a failed query is logged; with a recording link the run is started and its
  failure logged; nothing else is done.
\<close>

lemma v1_bot_joined:
  assumes "status m = BotJoined" and "nonempty (chatterbox_session_id m) = Some sid"
    and "10 < statusAgeMinutes m w"
  shows "checkMeetingStatus_v1 en m w
    = (Inr (),
       case session_data en (ops w) sid of
         Inl e \<Rightarrow>
           emit (LogError ''Failed to get session data for stuck meeting'' (message e))
             (emit (ProviderCall sid)
                (tick en (emit (LogWarn ''Meeting stuck in bot_joined status'') w)))
       | Inr sd \<Rightarrow>
           (case nonempty (recordingLink sd) of
              None \<Rightarrow> emit (ProviderCall sid)
                        (tick en (emit (LogWarn ''Meeting stuck in bot_joined status'') w))
            | Some link \<Rightarrow>
                fire_and_forget ''Failed to process stuck meeting''
                  (processRecordingUrgently en (meeting_id m) (Some link) sid)
                  (emit (LogInfo ''Found recording for stuck meeting, starting processing'')
                     (emit (ProviderCall sid)
                        (tick en (emit (LogWarn ''Meeting stuck in bot_joined status'') w))))))"
  using assms
  by (simp add: checkMeetingStatus_v1_def checkMeetingStatus_v1_try_def Let_def
      requery_provider_def getSessionData_def emit_def split: sum.splits option.splits)

lemma v1_recording:
  assumes "status m = Recording" and "nonempty (chatterbox_session_id m) = Some sid"
    and "30 < statusAgeMinutes m w"
  shows "checkMeetingStatus_v1 en m w
    = (Inr (),
       case session_data en (ops w) sid of
         Inl e \<Rightarrow>
           emit (LogError ''Failed to get session data for long-running meeting'' (message e))
             (emit (ProviderCall sid)
                (tick en (emit (LogWarn ''Meeting stuck in recording status'') w)))
       | Inr sd \<Rightarrow>
           (case nonempty (recordingLink sd) of
              None \<Rightarrow> emit (ProviderCall sid)
                        (tick en (emit (LogWarn ''Meeting stuck in recording status'') w))
            | Some link \<Rightarrow>
                fire_and_forget ''Failed to process long-running meeting''
                  (processRecordingUrgently en (meeting_id m) (Some link) sid)
                  (emit (LogInfo ''Found recording for long-running meeting, starting processing'')
                     (emit (ProviderCall sid)
                        (tick en (emit (LogWarn ''Meeting stuck in recording status'') w))))))"
  using assms
  by (simp add: checkMeetingStatus_v1_def checkMeetingStatus_v1_try_def Let_def
      requery_provider_def getSessionData_def emit_def split: sum.splits option.splits)

text \<open>
  C3, as the code has it. The repository holds two copies of the poller.

  In the copy with the ceiling, for a meeting in \<open>bot_joined\<close> that has a session id and
  whose age in whole minutes exceeds 180, the check warns, issues the write of \<open>failed\<close>
  with the completion time, and returns: the provider is not asked and no run is started
  (these are all the effects). When the store answers the write, every row of the
  meeting is failed, so that the next cycle's queries for \<open>bot_joined\<close> and \<open>recording\<close>
  no longer return it; a rejected write is caught and logged and the check still returns
  normally.

  In the earlier copy there is no ceiling: for the same meeting the check warns and asks
  the provider; it logs a failed query, does nothing more when the provider has no
  recording link, and starts the run when it has one. It never issues the write of
  \<open>failed\<close> itself.

  In both copies a meeting without a session id is only logged, whatever its status and
  age.
\<close>

theorem ceiling_force_fails:
  "(status m = BotJoined \<and> nonempty (chatterbox_session_id m) = Some sid
      \<and> 180 < statusAgeMinutes m w \<longrightarrow>
        fst (checkMeetingStatus en m w) = Inr ()
        \<and> processing_logs (snd (checkMeetingStatus en m w)) = processing_logs w
        \<and> trace (snd (checkMeetingStatus en m w))
            = trace w
              @ [LogWarn ''Meeting stuck in bot_joined status for too long, marking as failed'']
              @ (if store_fault en (ops w) = None
                    \<and> find (\<lambda>x. meeting_id x = meeting_id m) (meetings w) \<noteq> None
                 then [StoreCall (UpdateMeeting (meeting_id m) Failed) True]
                 else [StoreCall (UpdateMeeting (meeting_id m) Failed) False,
                       LogError ''Failed to check meeting status''
                         (case store_fault en (ops w) of
                            Some e \<Rightarrow> message e | None \<Rightarrow> message no_rows_error)])
        \<and> (store_fault en (ops w) = None \<longrightarrow>
              (\<forall>x\<in>set (meetings (snd (checkMeetingStatus en m w))).
                  meeting_id x = meeting_id m \<longrightarrow>
                    status x = Failed \<and> processing_completed_at x = Some (now w)))
        \<and> checkMeetingStatus_v1 en m w
            = (Inr (),
               case session_data en (ops w) sid of
                 Inl e \<Rightarrow>
                   emit (LogError ''Failed to get session data for stuck meeting'' (message e))
                     (emit (ProviderCall sid)
                        (tick en (emit (LogWarn ''Meeting stuck in bot_joined status'') w)))
               | Inr sd \<Rightarrow>
                   (case nonempty (recordingLink sd) of
                      None \<Rightarrow> emit (ProviderCall sid)
                                (tick en (emit (LogWarn ''Meeting stuck in bot_joined status'') w))
                    | Some link \<Rightarrow>
                        fire_and_forget ''Failed to process stuck meeting''
                          (processRecordingUrgently en (meeting_id m) (Some link) sid)
                          (emit (LogInfo
                                   ''Found recording for stuck meeting, starting processing'')
                             (emit (ProviderCall sid)
                                (tick en
                                   (emit (LogWarn ''Meeting stuck in bot_joined status'') w)))))))
   \<and> (nonempty (chatterbox_session_id m) = None \<longrightarrow>
        checkMeetingStatus en m w
          = (Inr (), emit (LogWarn ''Meeting has no ChatterBox session ID'') w)
        \<and> checkMeetingStatus_v1 en m w
          = (Inr (), emit (LogWarn ''Meeting has no ChatterBox session ID'') w))"
proof (intro conjI impI)
  assume h: "status m = BotJoined \<and> nonempty (chatterbox_session_id m) = Some sid
      \<and> 180 < statusAgeMinutes m w"
  then have st: "status m = BotJoined" and sid: "nonempty (chatterbox_session_id m) = Some sid"
    and age: "180 < statusAgeMinutes m w" and age10: "10 < statusAgeMinutes m w"
    by simp_all
  note later = ceiling_write[OF st sid age, of en]
  show "fst (checkMeetingStatus en m w) = Inr ()"
    by (rule later[THEN conjunct1])
  show "processing_logs (snd (checkMeetingStatus en m w)) = processing_logs w"
    by (rule later[THEN conjunct2, THEN conjunct1])
  show "trace (snd (checkMeetingStatus en m w))
            = trace w
              @ [LogWarn ''Meeting stuck in bot_joined status for too long, marking as failed'']
              @ (if store_fault en (ops w) = None
                    \<and> find (\<lambda>x. meeting_id x = meeting_id m) (meetings w) \<noteq> None
                 then [StoreCall (UpdateMeeting (meeting_id m) Failed) True]
                 else [StoreCall (UpdateMeeting (meeting_id m) Failed) False,
                       LogError ''Failed to check meeting status''
                         (case store_fault en (ops w) of
                            Some e \<Rightarrow> message e | None \<Rightarrow> message no_rows_error)])"
    by (rule later[THEN conjunct2, THEN conjunct2, THEN conjunct1])
  show "\<forall>x\<in>set (meetings (snd (checkMeetingStatus en m w))).
                  meeting_id x = meeting_id m \<longrightarrow>
                    status x = Failed \<and> processing_completed_at x = Some (now w)"
    if "store_fault en (ops w) = None"
    using later[THEN conjunct2, THEN conjunct2, THEN conjunct2] that by blast
  show "checkMeetingStatus_v1 en m w
            = (Inr (),
               case session_data en (ops w) sid of
                 Inl e \<Rightarrow>
                   emit (LogError ''Failed to get session data for stuck meeting'' (message e))
                     (emit (ProviderCall sid)
                        (tick en (emit (LogWarn ''Meeting stuck in bot_joined status'') w)))
               | Inr sd \<Rightarrow>
                   (case nonempty (recordingLink sd) of
                      None \<Rightarrow> emit (ProviderCall sid)
                                (tick en (emit (LogWarn ''Meeting stuck in bot_joined status'') w))
                    | Some link \<Rightarrow>
                        fire_and_forget ''Failed to process stuck meeting''
                          (processRecordingUrgently en (meeting_id m) (Some link) sid)
                          (emit (LogInfo
                                   ''Found recording for stuck meeting, starting processing'')
                             (emit (ProviderCall sid)
                                (tick en
                                   (emit (LogWarn ''Meeting stuck in bot_joined status'') w))))))"
    by (rule v1_bot_joined[OF st sid age10])
next
  assume "nonempty (chatterbox_session_id m) = None"
  then show "checkMeetingStatus en m w
          = (Inr (), emit (LogWarn ''Meeting has no ChatterBox session ID'') w)"
    and "checkMeetingStatus_v1 en m w
          = (Inr (), emit (LogWarn ''Meeting has no ChatterBox session ID'') w)"
    by (rule sessionless_check)+
qed

text \<open>
  On the concrete system, at 04:00: the meeting that has been in \<open>bot_joined\<close> since
  00:00 is failed by the copy with the ceiling, without a provider call; the earlier
  copy asks the provider and leaves it in \<open>bot_joined\<close>; the same meeting without a
  session id is only logged.
\<close>

theorem ceiling_force_fails_witness:
  "status stale_meeting = BotJoined
   \<and> nonempty (chatterbox_session_id stale_meeting) = Some ''s1''
   \<and> statusAgeMinutes stale_meeting stale_world = 240
   \<and> store_fault no_link_env (ops stale_world) = None
   \<and> fst (checkMeetingStatus no_link_env stale_meeting stale_world) = Inr ()
   \<and> map status (meetings (snd (checkMeetingStatus no_link_env stale_meeting stale_world)))
       = [Failed]
   \<and> map processing_completed_at
        (meetings (snd (checkMeetingStatus no_link_env stale_meeting stale_world)))
       = [Some 14400000]
   \<and> trace (snd (checkMeetingStatus no_link_env stale_meeting stale_world))
       = [LogWarn ''Meeting stuck in bot_joined status for too long, marking as failed'',
          StoreCall (UpdateMeeting ''m1'' Failed) True]
   \<and> fst (checkMeetingStatus_v1 no_link_env stale_meeting stale_world) = Inr ()
   \<and> map status (meetings (snd (checkMeetingStatus_v1 no_link_env stale_meeting stale_world)))
       = [BotJoined]
   \<and> trace (snd (checkMeetingStatus_v1 no_link_env stale_meeting stale_world))
       = [LogWarn ''Meeting stuck in bot_joined status'', ProviderCall ''s1'']
   \<and> nonempty (chatterbox_session_id orphan_meeting) = None
   \<and> checkMeetingStatus quiet_env orphan_meeting orphan_world
       = (Inr (), emit (LogWarn ''Meeting has no ChatterBox session ID'') orphan_world)
   \<and> checkMeetingStatus_v1 quiet_env orphan_meeting orphan_world
       = (Inr (), emit (LogWarn ''Meeting has no ChatterBox session ID'') orphan_world)"
proof -
  have h1: "status stale_meeting = BotJoined"
    and h2: "nonempty (chatterbox_session_id stale_meeting) = Some ''s1''"
    and h3: "statusAgeMinutes stale_meeting stale_world = 240"
    and h4: "store_fault no_link_env (ops stale_world) = None"
    and h5: "nonempty (chatterbox_session_id orphan_meeting) = None"
    by (simp_all add: stale_meeting_def stale_world_def orphan_meeting_def demo_meeting_def
        statusAgeMinutes_def no_link_env_def quiet_env_def)
  have h: "status stale_meeting = BotJoined
      \<and> nonempty (chatterbox_session_id stale_meeting) = Some ''s1''
      \<and> 180 < statusAgeMinutes stale_meeting stale_world"
    using h1 h2 h3 by simp
  note T = ceiling_force_fails[where m=stale_meeting and sid="''s1''" and w=stale_world
      and en=no_link_env, THEN conjunct1, rule_format, OF h]
  have a: "fst (checkMeetingStatus no_link_env stale_meeting stale_world) = Inr ()"
    by (rule T[THEN conjunct1])
  note O = ceiling_force_fails[where m=orphan_meeting and w=orphan_world and en=quiet_env,
      THEN conjunct2, rule_format, OF h5]
  have o1: "checkMeetingStatus quiet_env orphan_meeting orphan_world
       = (Inr (), emit (LogWarn ''Meeting has no ChatterBox session ID'') orphan_world)"
    by (rule O[THEN conjunct1])
  have o2: "checkMeetingStatus_v1 quiet_env orphan_meeting orphan_world
       = (Inr (), emit (LogWarn ''Meeting has no ChatterBox session ID'') orphan_world)"
    by (rule O[THEN conjunct2])
  show ?thesis
    using h1 h2 h3 h4 a stale_now stale_v1 h5 o1 o2 by (simp only: Let_def)
qed

text \<open>
  C3 as stated fails. The only meeting of \<open>orphan_world\<close> is in \<open>bot_joined\<close>, was
  last updated 240 minutes ago and has no session id. The poll cycle finds it, logs a
  warning and leaves it in \<open>bot_joined\<close>: no write of \<open>failed\<close> is issued.
\<close>

theorem ceiling_counterexample:
  "map status (meetings orphan_world) = [BotJoined]
   \<and> statusAgeMinutes orphan_meeting orphan_world = 240
   \<and> fst (pollMeetingStatuses quiet_env orphan_world) = Inr ()
   \<and> map status (meetings (snd (pollMeetingStatuses quiet_env orphan_world))) = [BotJoined]
   \<and> trace (snd (pollMeetingStatuses quiet_env orphan_world))
       = [StoreCall HealthCheck True, StoreCall (GetMeetingsByStatus BotJoined) True,
          StoreCall (GetMeetingsByStatus Recording) True,
          LogInfo ''Polling meeting statuses'',
          LogWarn ''Meeting has no ChatterBox session ID'']"
proof -
  have "map status (meetings orphan_world) = [BotJoined]"
    and "statusAgeMinutes orphan_meeting orphan_world = 240"
    by (simp_all add: poll_demo_defs demo_meeting_def statusAgeMinutes_def)
  then show ?thesis using orphan_poll by (simp only: Let_def)
qed

section \<open>Reconciliation poller: failures during a cycle\<close>

text \<open>The earlier copy of the poller (src/jobs/pollStatusJob.js).\<close>

lemma checkMeetingStatus_v1_total: "fst (checkMeetingStatus_v1 en m w) = Inr ()"
  by (simp add: checkMeetingStatus_v1_def split: prod.splits sum.splits)

lemma poll_loop_v1_fold:
  "poll_loop_v1 en ms w = (Inr (), foldl (\<lambda>w m. snd (checkMeetingStatus_v1 en m w)) w ms)"
proof (induction ms arbitrary: w)
  case Nil
  show ?case by simp
next
  case (Cons m ms)
  obtain r w1 where c: "checkMeetingStatus_v1 en m w = (r, w1)"
    by (cases "checkMeetingStatus_v1 en m w")
  have "r = Inr ()" using checkMeetingStatus_v1_total[of en m w] c by simp
  with c Cons show ?case by simp
qed

lemma pollMeetingStatuses_v1_total: "fst (pollMeetingStatuses_v1 en w) = Inr ()"
  by (simp add: pollMeetingStatuses_v1_def split: prod.splits sum.splits)

lemma v1_query_fails:
  assumes "nonempty (chatterbox_session_id m) = Some sid"
    and "session_data en (ops w) sid = Inl e"
  shows "status m = BotJoined \<and> 10 < statusAgeMinutes m w \<longrightarrow>
           checkMeetingStatus_v1 en m w
             = (Inr (),
                emit (LogError ''Failed to get session data for stuck meeting'' (message e))
                  (emit (ProviderCall sid)
                     (tick en (emit (LogWarn ''Meeting stuck in bot_joined status'') w))))"
    and "status m = Recording \<and> 30 < statusAgeMinutes m w \<longrightarrow>
           checkMeetingStatus_v1 en m w
             = (Inr (),
                emit (LogError ''Failed to get session data for long-running meeting''
                        (message e))
                  (emit (ProviderCall sid)
                     (tick en (emit (LogWarn ''Meeting stuck in recording status'') w))))"
  using assms v1_bot_joined[of m sid w en] v1_recording[of m sid w en]
  by simp_all

lemma v1_run_fails:
  assumes "nonempty (chatterbox_session_id m) = Some sid"
    and "session_data en (ops w) sid = Inr sd"
    and "nonempty (recordingLink sd) = Some link"
  shows "status m = BotJoined \<and> 10 < statusAgeMinutes m w
         \<and> fst (processRecordingUrgently en (meeting_id m) (Some link) sid
                 (emit (LogInfo ''Found recording for stuck meeting, starting processing'')
                    (emit (ProviderCall sid)
                       (tick en (emit (LogWarn ''Meeting stuck in bot_joined status'') w)))))
             = Inl e \<longrightarrow>
           checkMeetingStatus_v1 en m w
             = (Inr (),
                emit (LogError ''Failed to process stuck meeting'' (message e))
                  (snd (processRecordingUrgently en (meeting_id m) (Some link) sid
                     (emit (LogInfo ''Found recording for stuck meeting, starting processing'')
                        (emit (ProviderCall sid)
                           (tick en
                              (emit (LogWarn ''Meeting stuck in bot_joined status'') w)))))))"
    and "status m = Recording \<and> 30 < statusAgeMinutes m w
         \<and> fst (processRecordingUrgently en (meeting_id m) (Some link) sid
                 (emit (LogInfo ''Found recording for long-running meeting, starting processing'')
                    (emit (ProviderCall sid)
                       (tick en (emit (LogWarn ''Meeting stuck in recording status'') w)))))
             = Inl e \<longrightarrow>
           checkMeetingStatus_v1 en m w
             = (Inr (),
                emit (LogError ''Failed to process long-running meeting'' (message e))
                  (snd (processRecordingUrgently en (meeting_id m) (Some link) sid
                     (emit (LogInfo
                              ''Found recording for long-running meeting, starting processing'')
                        (emit (ProviderCall sid)
                           (tick en
                              (emit (LogWarn ''Meeting stuck in recording status'') w)))))))"
  using assms v1_bot_joined[of m sid w en] v1_recording[of m sid w en]
  by (auto simp: fire_and_forget_def split: prod.splits sum.splits)

text \<open>The cycle, by the answers of the store to its two queries.\<close>

lemma poll_v1_first_query_fails:
  assumes "store_fault en (ops w) = Some e"
  shows "pollMeetingStatuses_v1 en w
           = (Inr (),
              emit (LogError ''Poll status job failed'' (message e))
                (emit (StoreCall (GetMeetingsByStatus BotJoined) False) (tick en w)))"
  using assms
  by (simp add: pollMeetingStatuses_v1_def pollMeetingStatuses_v1_try_def
      getMeetingsByStatus_def Let_def)

lemma poll_v1_second_query_fails:
  assumes "store_fault en (ops w) = None" and "store_fault en (Suc (ops w)) = Some e"
  shows "pollMeetingStatuses_v1 en w
           = (Inr (),
              emit (LogError ''Poll status job failed'' (message e))
                (emit (StoreCall (GetMeetingsByStatus Recording) False)
                   (tick en (emit (StoreCall (GetMeetingsByStatus BotJoined) True)
                      (tick en w)))))"
  using assms
  by (simp add: pollMeetingStatuses_v1_def pollMeetingStatuses_v1_try_def
      getMeetingsByStatus_def Let_def emit_def tick_def)

lemma poll_v1_examines_all:
  assumes "store_fault en (ops w) = None" and "store_fault en (Suc (ops w)) = None"
  shows "pollMeetingStatuses_v1 en w
     = (Inr (),
        if take 10 (rev (sort_key created_at (filter (\<lambda>m. status m = BotJoined) (meetings w))))
           @ take 10 (rev (sort_key created_at (filter (\<lambda>m. status m = Recording) (meetings w))))
           = []
        then emit (StoreCall (GetMeetingsByStatus Recording) True)
               (tick en (emit (StoreCall (GetMeetingsByStatus BotJoined) True) (tick en w)))
        else foldl (\<lambda>w m. snd (checkMeetingStatus_v1 en m w))
               (emit (LogInfo ''Polling meeting statuses'')
                  (emit (StoreCall (GetMeetingsByStatus Recording) True)
                     (tick en (emit (StoreCall (GetMeetingsByStatus BotJoined) True)
                        (tick en w)))))
               (take 10 (rev (sort_key created_at
                               (filter (\<lambda>m. status m = BotJoined) (meetings w))))
                @ take 10 (rev (sort_key created_at
                                 (filter (\<lambda>m. status m = Recording) (meetings w))))))"
proof -
  let ?w1 = "emit (StoreCall (GetMeetingsByStatus BotJoined) True) (tick en w)"
  let ?w2 = "emit (StoreCall (GetMeetingsByStatus Recording) True) (tick en ?w1)"
  let ?stuck = "take 10 (rev (sort_key created_at (filter (\<lambda>m. status m = BotJoined) (meetings w))))"
  let ?rec = "take 10 (rev (sort_key created_at (filter (\<lambda>m. status m = Recording) (meetings w))))"
  have q1: "getMeetingsByStatus en BotJoined 10 w = (Inr ?stuck, ?w1)"
    using assms(1) by (simp add: getMeetingsByStatus_def Let_def)
  have o1: "store_fault en (ops ?w1) = None" "meetings ?w1 = meetings w"
    using assms(2) by (simp_all add: emit_def tick_def)
  have q2: "getMeetingsByStatus en Recording 10 ?w1 = (Inr ?rec, ?w2)"
    using o1 by (simp add: getMeetingsByStatus_def Let_def)
  show ?thesis
    by (simp add: pollMeetingStatuses_v1_def pollMeetingStatuses_v1_try_def q1 q2 Let_def
        poll_loop_v1_fold)
qed

text \<open>
  C9, on the copy of the poller the claim cites (src/jobs/pollStatusJob.js). The check
  of one meeting never rejects, whatever fails inside it; so the loop over the meetings
  of a cycle never stops early: its result is the fold of the check over the whole
  list. A failed provider query is caught and logged, in the \<open>bot_joined\<close> branch and in
  the \<open>recording\<close> branch; so is the failure of a run that the check started. The cycle
  itself never rejects: when the store rejects the first or the second query, the cycle
  ends with the log line \<open>Poll status job failed\<close> and the message of the error; when the
  store answers both, every meeting the two queries returned is examined, in order.
\<close>

theorem poll_cycle_tolerates_failures:
  "fst (checkMeetingStatus_v1 en m w) = Inr ()
   \<and> poll_loop_v1 en ms w = (Inr (), foldl (\<lambda>w m. snd (checkMeetingStatus_v1 en m w)) w ms)
   \<and> fst (pollMeetingStatuses_v1 en w) = Inr ()
   \<and> (nonempty (chatterbox_session_id m) = Some sid \<and> session_data en (ops w) sid = Inl e \<longrightarrow>
        (status m = BotJoined \<and> 10 < statusAgeMinutes m w \<longrightarrow>
           checkMeetingStatus_v1 en m w
             = (Inr (),
                emit (LogError ''Failed to get session data for stuck meeting'' (message e))
                  (emit (ProviderCall sid)
                     (tick en (emit (LogWarn ''Meeting stuck in bot_joined status'') w)))))
        \<and> (status m = Recording \<and> 30 < statusAgeMinutes m w \<longrightarrow>
           checkMeetingStatus_v1 en m w
             = (Inr (),
                emit (LogError ''Failed to get session data for long-running meeting''
                        (message e))
                  (emit (ProviderCall sid)
                     (tick en (emit (LogWarn ''Meeting stuck in recording status'') w))))))
   \<and> (nonempty (chatterbox_session_id m) = Some sid \<and> session_data en (ops w) sid = Inr sd
        \<and> nonempty (recordingLink sd) = Some link \<longrightarrow>
        (status m = BotJoined \<and> 10 < statusAgeMinutes m w
         \<and> fst (processRecordingUrgently en (meeting_id m) (Some link) sid
                 (emit (LogInfo ''Found recording for stuck meeting, starting processing'')
                    (emit (ProviderCall sid)
                       (tick en (emit (LogWarn ''Meeting stuck in bot_joined status'') w)))))
             = Inl e \<longrightarrow>
           checkMeetingStatus_v1 en m w
             = (Inr (),
                emit (LogError ''Failed to process stuck meeting'' (message e))
                  (snd (processRecordingUrgently en (meeting_id m) (Some link) sid
                     (emit (LogInfo ''Found recording for stuck meeting, starting processing'')
                        (emit (ProviderCall sid)
                           (tick en
                              (emit (LogWarn ''Meeting stuck in bot_joined status'') w))))))))
        \<and> (status m = Recording \<and> 30 < statusAgeMinutes m w
         \<and> fst (processRecordingUrgently en (meeting_id m) (Some link) sid
                 (emit (LogInfo ''Found recording for long-running meeting, starting processing'')
                    (emit (ProviderCall sid)
                       (tick en (emit (LogWarn ''Meeting stuck in recording status'') w)))))
             = Inl e \<longrightarrow>
           checkMeetingStatus_v1 en m w
             = (Inr (),
                emit (LogError ''Failed to process long-running meeting'' (message e))
                  (snd (processRecordingUrgently en (meeting_id m) (Some link) sid
                     (emit (LogInfo
                              ''Found recording for long-running meeting, starting processing'')
                        (emit (ProviderCall sid)
                           (tick en
                              (emit (LogWarn ''Meeting stuck in recording status'') w)))))))))
   \<and> (store_fault en (ops w) = Some e \<longrightarrow>
        pollMeetingStatuses_v1 en w
          = (Inr (),
             emit (LogError ''Poll status job failed'' (message e))
               (emit (StoreCall (GetMeetingsByStatus BotJoined) False) (tick en w))))
   \<and> (store_fault en (ops w) = None \<and> store_fault en (Suc (ops w)) = Some e \<longrightarrow>
        pollMeetingStatuses_v1 en w
          = (Inr (),
             emit (LogError ''Poll status job failed'' (message e))
               (emit (StoreCall (GetMeetingsByStatus Recording) False)
                  (tick en (emit (StoreCall (GetMeetingsByStatus BotJoined) True)
                     (tick en w))))))
   \<and> (store_fault en (ops w) = None \<and> store_fault en (Suc (ops w)) = None \<longrightarrow>
        pollMeetingStatuses_v1 en w
          = (Inr (),
             if take 10 (rev (sort_key created_at
                               (filter (\<lambda>m. status m = BotJoined) (meetings w))))
                @ take 10 (rev (sort_key created_at
                                 (filter (\<lambda>m. status m = Recording) (meetings w))))
                = []
             then emit (StoreCall (GetMeetingsByStatus Recording) True)
                    (tick en (emit (StoreCall (GetMeetingsByStatus BotJoined) True) (tick en w)))
             else foldl (\<lambda>w m. snd (checkMeetingStatus_v1 en m w))
                    (emit (LogInfo ''Polling meeting statuses'')
                       (emit (StoreCall (GetMeetingsByStatus Recording) True)
                          (tick en (emit (StoreCall (GetMeetingsByStatus BotJoined) True)
                             (tick en w)))))
                    (take 10 (rev (sort_key created_at
                                    (filter (\<lambda>m. status m = BotJoined) (meetings w))))
                     @ take 10 (rev (sort_key created_at
                                      (filter (\<lambda>m. status m = Recording) (meetings w)))))))"
proof (intro conjI impI)
  show "fst (checkMeetingStatus_v1 en m w) = Inr ()"
    by (rule checkMeetingStatus_v1_total)
  show "poll_loop_v1 en ms w = (Inr (), foldl (\<lambda>w m. snd (checkMeetingStatus_v1 en m w)) w ms)"
    by (rule poll_loop_v1_fold)
  show "fst (pollMeetingStatuses_v1 en w) = Inr ()"
    by (rule pollMeetingStatuses_v1_total)
qed (use v1_query_fails[of m sid en w e] v1_run_fails[of m sid en w sd link e]
      poll_v1_first_query_fails[of en w e] poll_v1_second_query_fails[of en w e]
      poll_v1_examines_all[of en w] in blast)+

text \<open>
  On the concrete system, at 04:00, with one meeting in \<open>bot_joined\<close> for 240 minutes and
  one recording for 60 minutes. With the provider down, both queries fail, both
  failures are logged and the second meeting is examined after the first. With a source
  that answers 403, both runs are started and fail, and both failures are logged. With
  the store down, or rejecting the second query, the cycle logs one error and returns.
\<close>

lemma cycle_provider_down:
  "(let R = pollMeetingStatuses_v1 faulty_env two_world
    in fst R = Inr ()
       \<and> map status (meetings (snd R)) = [BotJoined, Recording]
       \<and> trace (snd R)
           = [StoreCall (GetMeetingsByStatus BotJoined) True,
              StoreCall (GetMeetingsByStatus Recording) True,
              LogInfo ''Polling meeting statuses'',
              LogWarn ''Meeting stuck in bot_joined status'',
              ProviderCall ''s1'',
              LogError ''Failed to get session data for stuck meeting''
                ''timeout of 30000ms exceeded'',
              LogWarn ''Meeting stuck in recording status'',
              ProviderCall ''s2'',
              LogError ''Failed to get session data for long-running meeting''
                ''timeout of 30000ms exceeded''])"
  by (simp add: poller_defs store_defs getSessionData_def new_Error_def
      demo_defs poll_demo_defs cong: weak_congs)

lemma cycle_meetings:
  "take 10 (rev (sort_key created_at (filter (\<lambda>m. status m = BotJoined) (meetings two_world))))
   @ take 10 (rev (sort_key created_at (filter (\<lambda>m. status m = Recording) (meetings two_world))))
   = [stale_meeting, late_meeting]"
  by (simp add: poll_demo_defs demo_meeting_def)

lemma stuck_run_fails:
  "fst (processRecordingUrgently expired_env (meeting_id stale_meeting)
          (Some ''https://rec/1.mkv'') ''s1''
          (emit (LogInfo ''Found recording for stuck meeting, starting processing'')
             (emit (ProviderCall ''s1'')
                (tick expired_env
                   (emit (LogWarn ''Meeting stuck in bot_joined status'') two_world)))))
     = Inl (expired_error 403)"
  by (simp add: store_defs step_defs pipeline_defs demo_defs poll_demo_defs stream_error_def
      expired_error_def cong: weak_congs)

lemma long_run_fails:
  "fst (processRecordingUrgently expired_env (meeting_id late_meeting)
          (Some ''https://rec/1.mkv'') ''s2''
          (emit (LogInfo ''Found recording for long-running meeting, starting processing'')
             (emit (ProviderCall ''s2'')
                (tick expired_env
                   (emit (LogWarn ''Meeting stuck in recording status'') two_world)))))
     = Inl (expired_error 403)"
  by (simp add: store_defs step_defs pipeline_defs demo_defs poll_demo_defs stream_error_def
      expired_error_def cong: weak_congs)

theorem poll_cycle_tolerates_failures_witness:
  "nonempty (chatterbox_session_id stale_meeting) = Some ''s1''
   \<and> status stale_meeting = BotJoined \<and> statusAgeMinutes stale_meeting two_world = 240
   \<and> nonempty (chatterbox_session_id late_meeting) = Some ''s2''
   \<and> status late_meeting = Recording \<and> statusAgeMinutes late_meeting two_world = 60
   \<and> session_data faulty_env (ops two_world) ''s1''
       = Inl (new_Error ''timeout of 30000ms exceeded'')
   \<and> session_data faulty_env (ops two_world) ''s2''
       = Inl (new_Error ''timeout of 30000ms exceeded'')
   \<and> last (trace (snd (checkMeetingStatus_v1 faulty_env stale_meeting two_world)))
       = LogError ''Failed to get session data for stuck meeting'' ''timeout of 30000ms exceeded''
   \<and> last (trace (snd (checkMeetingStatus_v1 faulty_env late_meeting two_world)))
       = LogError ''Failed to get session data for long-running meeting''
           ''timeout of 30000ms exceeded''
   \<and> session_data expired_env (ops two_world) ''s1'' = Inr demo_session
   \<and> session_data expired_env (ops two_world) ''s2'' = Inr demo_session
   \<and> nonempty (recordingLink demo_session) = Some ''https://rec/1.mkv''
   \<and> last (trace (snd (checkMeetingStatus_v1 expired_env stale_meeting two_world)))
       = LogError ''Failed to process stuck meeting''
           ''Recording URL has expired or is not accessible (403)''
   \<and> last (trace (snd (checkMeetingStatus_v1 expired_env late_meeting two_world)))
       = LogError ''Failed to process long-running meeting''
           ''Recording URL has expired or is not accessible (403)''
   \<and> store_fault down_env (ops two_world) = Some (new_Error ''fetch failed'')
   \<and> fst (pollMeetingStatuses_v1 down_env two_world) = Inr ()
   \<and> trace (snd (pollMeetingStatuses_v1 down_env two_world))
       = [StoreCall (GetMeetingsByStatus BotJoined) False,
          LogError ''Poll status job failed'' ''fetch failed'']
   \<and> store_fault second_call_env (ops two_world) = None
   \<and> store_fault second_call_env (Suc (ops two_world)) = Some (new_Error ''connection reset'')
   \<and> trace (snd (pollMeetingStatuses_v1 second_call_env two_world))
       = [StoreCall (GetMeetingsByStatus BotJoined) True,
          StoreCall (GetMeetingsByStatus Recording) False,
          LogError ''Poll status job failed'' ''connection reset'']
   \<and> store_fault faulty_env (ops two_world) = None
   \<and> store_fault faulty_env (Suc (ops two_world)) = None
   \<and> snd (pollMeetingStatuses_v1 faulty_env two_world)
       = foldl (\<lambda>w m. snd (checkMeetingStatus_v1 faulty_env m w))
           (emit (LogInfo ''Polling meeting statuses'')
              (emit (StoreCall (GetMeetingsByStatus Recording) True)
                 (tick faulty_env (emit (StoreCall (GetMeetingsByStatus BotJoined) True)
                    (tick faulty_env two_world)))))
           [stale_meeting, late_meeting]
   \<and> trace (snd (pollMeetingStatuses_v1 faulty_env two_world))
       = [StoreCall (GetMeetingsByStatus BotJoined) True,
          StoreCall (GetMeetingsByStatus Recording) True,
          LogInfo ''Polling meeting statuses'',
          LogWarn ''Meeting stuck in bot_joined status'',
          ProviderCall ''s1'',
          LogError ''Failed to get session data for stuck meeting''
            ''timeout of 30000ms exceeded'',
          LogWarn ''Meeting stuck in recording status'',
          ProviderCall ''s2'',
          LogError ''Failed to get session data for long-running meeting''
            ''timeout of 30000ms exceeded'']"
proof -
  have m1: "nonempty (chatterbox_session_id stale_meeting) = Some ''s1''"
    "status stale_meeting = BotJoined" "statusAgeMinutes stale_meeting two_world = 240"
    and m2: "nonempty (chatterbox_session_id late_meeting) = Some ''s2''"
    "status late_meeting = Recording" "statusAgeMinutes late_meeting two_world = 60"
    by (simp_all add: poll_demo_defs demo_meeting_def statusAgeMinutes_def)
  have a1: "10 < statusAgeMinutes stale_meeting two_world"
    and a2: "30 < statusAgeMinutes late_meeting two_world"
    using m1 m2 by simp_all
  have q1: "session_data faulty_env (ops two_world) ''s1''
              = Inl (new_Error ''timeout of 30000ms exceeded'')"
    and q2: "session_data faulty_env (ops two_world) ''s2''
              = Inl (new_Error ''timeout of 30000ms exceeded'')"
    by (simp_all add: faulty_env_def quiet_env_def)
  have p1: "session_data expired_env (ops two_world) ''s1'' = Inr demo_session"
    and p2: "session_data expired_env (ops two_world) ''s2'' = Inr demo_session"
    and lk: "nonempty (recordingLink demo_session) = Some ''https://rec/1.mkv''"
    by (simp_all add: expired_env_def quiet_env_def demo_session_def)
  have d0: "store_fault down_env (ops two_world) = Some (new_Error ''fetch failed'')"
    and s0: "store_fault second_call_env (ops two_world) = None"
    and s1: "store_fault second_call_env (Suc (ops two_world))
               = Some (new_Error ''connection reset'')"
    and f0: "store_fault faulty_env (ops two_world) = None"
    and f1: "store_fault faulty_env (Suc (ops two_world)) = None"
    by (simp_all add: down_env_def second_call_env_def faulty_env_def quiet_env_def
        two_world_def stale_world_def)
  have msg: "message (new_Error ''timeout of 30000ms exceeded'') = ''timeout of 30000ms exceeded''"
    "message (new_Error ''fetch failed'') = ''fetch failed''"
    "message (new_Error ''connection reset'') = ''connection reset''"
    "message (expired_error 403) = ''Recording URL has expired or is not accessible (403)''"
    by (simp_all add: new_Error_def expired_error_def show_nat.simps digit_char_def)
  have A: "last (trace (snd (checkMeetingStatus_v1 faulty_env stale_meeting two_world)))
       = LogError ''Failed to get session data for stuck meeting'' ''timeout of 30000ms exceeded''"
    using poll_cycle_tolerates_failures[where en=faulty_env and m=stale_meeting
        and sid="''s1''" and w=two_world and e="new_Error ''timeout of 30000ms exceeded''"]
      m1 a1 q1
    by (simp add: emit_def msg)
  have B: "last (trace (snd (checkMeetingStatus_v1 faulty_env late_meeting two_world)))
       = LogError ''Failed to get session data for long-running meeting''
           ''timeout of 30000ms exceeded''"
    using poll_cycle_tolerates_failures[where en=faulty_env and m=late_meeting
        and sid="''s2''" and w=two_world and e="new_Error ''timeout of 30000ms exceeded''"]
      m2 a2 q2
    by (simp add: emit_def msg)
  have C: "last (trace (snd (checkMeetingStatus_v1 expired_env stale_meeting two_world)))
       = LogError ''Failed to process stuck meeting''
           ''Recording URL has expired or is not accessible (403)''"
    using poll_cycle_tolerates_failures[where en=expired_env and m=stale_meeting
        and sid="''s1''" and w=two_world and e="expired_error 403" and sd=demo_session
        and link="''https://rec/1.mkv''"]
      m1 a1 p1 lk stuck_run_fails
    by (simp add: emit_def msg)
  have D: "last (trace (snd (checkMeetingStatus_v1 expired_env late_meeting two_world)))
       = LogError ''Failed to process long-running meeting''
           ''Recording URL has expired or is not accessible (403)''"
    using poll_cycle_tolerates_failures[where en=expired_env and m=late_meeting
        and sid="''s2''" and w=two_world and e="expired_error 403" and sd=demo_session
        and link="''https://rec/1.mkv''"]
      m2 a2 p2 lk long_run_fails
    by (simp add: emit_def msg)
  have E: "fst (pollMeetingStatuses_v1 down_env two_world) = Inr ()"
    and F: "trace (snd (pollMeetingStatuses_v1 down_env two_world))
       = [StoreCall (GetMeetingsByStatus BotJoined) False,
          LogError ''Poll status job failed'' ''fetch failed'']"
    using poll_cycle_tolerates_failures[where en=down_env and w=two_world
        and e="new_Error ''fetch failed''"] d0
    by (simp_all add: emit_def tick_def msg two_world_def stale_world_def)
  have G: "trace (snd (pollMeetingStatuses_v1 second_call_env two_world))
       = [StoreCall (GetMeetingsByStatus BotJoined) True,
          StoreCall (GetMeetingsByStatus Recording) False,
          LogError ''Poll status job failed'' ''connection reset'']"
    using poll_cycle_tolerates_failures[where en=second_call_env and w=two_world
        and e="new_Error ''connection reset''"] s0 s1
    by (simp add: emit_def tick_def msg two_world_def stale_world_def)
  have H: "snd (pollMeetingStatuses_v1 faulty_env two_world)
       = foldl (\<lambda>w m. snd (checkMeetingStatus_v1 faulty_env m w))
           (emit (LogInfo ''Polling meeting statuses'')
              (emit (StoreCall (GetMeetingsByStatus Recording) True)
                 (tick faulty_env (emit (StoreCall (GetMeetingsByStatus BotJoined) True)
                    (tick faulty_env two_world)))))
           [stale_meeting, late_meeting]"
    using poll_cycle_tolerates_failures[where en=faulty_env and w=two_world] f0 f1
    unfolding cycle_meetings by simp
  have I: "trace (snd (pollMeetingStatuses_v1 faulty_env two_world))
       = [StoreCall (GetMeetingsByStatus BotJoined) True,
          StoreCall (GetMeetingsByStatus Recording) True,
          LogInfo ''Polling meeting statuses'',
          LogWarn ''Meeting stuck in bot_joined status'',
          ProviderCall ''s1'',
          LogError ''Failed to get session data for stuck meeting''
            ''timeout of 30000ms exceeded'',
          LogWarn ''Meeting stuck in recording status'',
          ProviderCall ''s2'',
          LogError ''Failed to get session data for long-running meeting''
            ''timeout of 30000ms exceeded'']"
    using cycle_provider_down by (simp only: Let_def)
  show ?thesis
    by (intro conjI m1 m2 q1 q2 A B p1 p2 lk C D d0 E F s0 s1 G f0 f1 H I)
qed

end
